theory Spec2Isabelle
  imports Complex_Main
begin

section \<open>Python exceptions\<close>

text \<open>
  The exceptions the modelled code can raise. \<open>ValueError\<close> is numpy's "operands could not
  be broadcast together" (and a shape mismatch in \<open>@\<close> or in \<open>setAttr\<close>), \<open>IndexError\<close>
  an out-of-range index, \<open>ZeroDivisionError\<close> a division of Python numbers by zero and
  \<open>GurobiError\<close> every failure reported by the solver library (a failed optimisation pass,
  an attribute such as \<open>ObjVal\<close> or \<open>X\<close> that is not available).
\<close>

datatype error = ValueError | IndexError | ZeroDivisionError | GurobiError

text \<open>Sequencing: an exception raised by the first computation ends the whole.\<close>

fun bindE :: "error + 'a \<Rightarrow> ('a \<Rightarrow> error + 'b) \<Rightarrow> error + 'b" where
  "bindE (Inl e) f = Inl e"
| "bindE (Inr x) f = f x"

fun seqE :: "(error + 'a) list \<Rightarrow> error + 'a list" where
  "seqE [] = Inr []"
| "seqE (r # rs) =
     bindE r (\<lambda>x. bindE (seqE rs) (\<lambda>xs. Inr (x # xs)))"

section \<open>Solver variables and linear expressions\<close>

text \<open>
  \<open>mdl.addVars(*size, name=nm)\<close> creates one variable per index tuple; \<open>Var nm idx\<close> is the
  variable \<open>nm[idx]\<close>. The entries of the arrays the code computes with are Python floats,
  solver variables or linear expressions over them; \<open>expr\<close> is their common type, with the
  operations the code applies to them, and \<open>eval\<close> gives the value of an expression under an
  assignment of the variables.
\<close>

datatype var = Var string "nat list"

datatype expr =
    Num real
  | V var
  | Add expr expr
  | Sub expr expr
  | Scale real expr
  | DivBy expr real

fun eval :: "(var \<Rightarrow> real) \<Rightarrow> expr \<Rightarrow> real" where
  "eval \<sigma> (Num c) = c"
| "eval \<sigma> (V v) = \<sigma> v"
| "eval \<sigma> (Add a b) = eval \<sigma> a + eval \<sigma> b"
| "eval \<sigma> (Sub a b) = eval \<sigma> a - eval \<sigma> b"
| "eval \<sigma> (Scale c a) = c * eval \<sigma> a"
| "eval \<sigma> (DivBy a c) = eval \<sigma> a / c"

section \<open>numpy arrays\<close>

text \<open>
  Arrays are nested lists in row-major order. The second-stage arrays are 2-D
  (\<open>A2\<close>, shape (n, s)) or 3-D (\<open>A3\<close>, shape (S, n, s)).
\<close>

datatype 'a ndarray = A2 "'a list list" | A3 "'a list list list"

fun ndim :: "'a ndarray \<Rightarrow> nat" where
  "ndim (A2 a) = 2"
| "ndim (A3 a) = 3"

fun shape0 :: "'a ndarray \<Rightarrow> nat" where
  "shape0 (A2 a) = length a"
| "shape0 (A3 a) = length a"

fun flatten :: "'a ndarray \<Rightarrow> 'a list" where
  "flatten (A2 a) = concat a"
| "flatten (A3 a) = concat (concat a)"

text \<open>
  Broadcasting along one axis: the two lengths agree, or one of them is 1 and its single
  entry is used against every entry of the other; anything else raises.
\<close>

definition bcast :: "('a \<Rightarrow> 'b \<Rightarrow> error + 'c) \<Rightarrow> 'a list \<Rightarrow> 'b list \<Rightarrow> error + 'c list" where
  "bcast f xs ys =
     (if length xs = length ys then seqE (map2 f xs ys)
      else if length xs = 1 then seqE (map (f (hd xs)) ys)
      else if length ys = 1 then seqE (map (\<lambda>x. f x (hd ys)) xs)
      else Inl ValueError)"

definition ew1 :: "('a \<Rightarrow> 'b \<Rightarrow> 'c) \<Rightarrow> 'a list \<Rightarrow> 'b list \<Rightarrow> error + 'c list" where
  "ew1 f = bcast (\<lambda>a b. Inr (f a b))"

definition ew2 :: "('a \<Rightarrow> 'b \<Rightarrow> 'c) \<Rightarrow> 'a list list \<Rightarrow> 'b list list \<Rightarrow> error + 'c list list" where
  "ew2 f = bcast (ew1 f)"

definition ew3 ::
  "('a \<Rightarrow> 'b \<Rightarrow> 'c) \<Rightarrow> 'a list list list \<Rightarrow> 'b list list list \<Rightarrow> error + 'c list list list" where
  "ew3 f = bcast (ew2 f)"

text \<open>
  An element-wise binary operation on two arrays; an operand of lower rank gets a leading
  axis of length 1 first.
\<close>

fun nd_binop :: "('a \<Rightarrow> 'b \<Rightarrow> 'c) \<Rightarrow> 'a ndarray \<Rightarrow> 'b ndarray \<Rightarrow> error + 'c ndarray" where
  "nd_binop f (A2 a) (A2 b) = map_sum id A2 (ew2 f a b)"
| "nd_binop f (A2 a) (A3 b) = map_sum id A3 (ew3 f [a] b)"
| "nd_binop f (A3 a) (A2 b) = map_sum id A3 (ew3 f a [b])"
| "nd_binop f (A3 a) (A3 b) = map_sum id A3 (ew3 f a b)"

text \<open>\<open>arr.sum()\<close>: the entries added up from left to right; 0 for an empty array.\<close>

fun np_sum :: "expr list \<Rightarrow> expr" where
  "np_sum [] = Num 0"
| "np_sum (x # xs) = foldl Add x xs"

text \<open>\<open>gb.quicksum(items)\<close>: a linear expression, starting from the empty one.\<close>

definition quicksum :: "expr list \<Rightarrow> expr" where
  "quicksum xs = foldl Add (Num 0) xs"

text \<open>
  Applying a function to every innermost row: slicing and concatenation along the last axis.
\<close>

fun nd_rows :: "('a list \<Rightarrow> 'b list) \<Rightarrow> 'a ndarray \<Rightarrow> 'b ndarray" where
  "nd_rows f (A2 a) = A2 (map f a)"
| "nd_rows f (A3 a) = A3 (map (map f) a)"

text \<open>A numeric array among expressions.\<close>

fun nd_num :: "real ndarray \<Rightarrow> expr ndarray" where
  "nd_num (A2 a) = A2 (map (map Num) a)"
| "nd_num (A3 a) = A3 (map (map (map Num)) a)"

text \<open>
  Column \<open>t\<close> of a 2-D array, and the transpose \<open>a.T\<close> of an array whose rows have the
  length of the first.
\<close>

definition col :: "'a list list \<Rightarrow> nat \<Rightarrow> 'a list" where
  "col a t = map (\<lambda>row. row ! t) a"

definition np_T :: "'a list list \<Rightarrow> 'a list list" where
  "np_T a = (if a = [] then [] else map (col a) [0..<length (hd a)])"

text \<open>
  \<open>a @ b\<close> for a numeric 2-D array \<open>a\<close> and a 2-D array \<open>b\<close> of expressions: the number of
  columns of \<open>a\<close> must be the number of rows of \<open>b\<close>; entry (r, t) is the sum of the
  products of row \<open>r\<close> of \<open>a\<close> with column \<open>t\<close> of \<open>b\<close>.
\<close>

definition matmul :: "real list list \<Rightarrow> expr list list \<Rightarrow> error + expr list list" where
  "matmul a b =
     (if a = [] then Inr []
      else if length (hd a) \<noteq> length b then Inl ValueError
      else Inr (map (\<lambda>row. map (\<lambda>c. np_sum (map2 Scale row c)) (np_T b)) a))"

text \<open>\<open>w @ b\<close> for a numeric vector \<open>w\<close>.\<close>

definition vecmat :: "real list \<Rightarrow> expr list list \<Rightarrow> error + expr list" where
  "vecmat w b =
     (if length w \<noteq> length b then Inl ValueError
      else Inr (map (\<lambda>c. np_sum (map2 Scale w c)) (np_T b)))"

text \<open>\<open>a[:, -1]\<close>: the last column; an array without columns has none.\<close>

definition last_col :: "'a list list \<Rightarrow> error + 'a list" where
  "last_col a = (if list_ex (\<lambda>row. row = []) a then Inl IndexError else Inr (map last a))"

text \<open>\<open>xs[i]\<close> for a non-negative index.\<close>

definition getitem :: "'a list \<Rightarrow> nat \<Rightarrow> error + 'a" where
  "getitem xs i = (if i < length xs then Inr (xs ! i) else Inl IndexError)"

section \<open>Parameters and variable groups\<close>

text \<open>
  The dictionary \<open>pars\<close>, with its keys 'n', 's', 'm', 'C1', 'C2', 'C3+', 'C3-', 'Q+', 'Q-',
  'A', 'B', 'UB' and 'demand_mean'. \<open>A\<close> has shape (n, m): the code multiplies its transpose
  with \<open>X\<close>, of shape (n, s).
\<close>

record pars =
  par_n :: nat
  par_s :: nat
  par_m :: nat
  par_C1 :: "real list list"
  par_C2 :: "real list list"
  par_C3p :: "real list"
  par_C3m :: "real list"
  par_Qp :: "real list list"
  par_Qm :: "real list list"
  par_A :: "real list list"
  par_B :: "real list list"
  par_UB :: "real list list"
  par_demand_mean :: "real list list"

text \<open>
  The dictionaries of the first-stage groups 'X', 'U', 'Z+', 'Z-' and of the second-stage
  groups 'Y+', 'Y-'. Their entries are expressions (solver variables) or numbers (a
  solution).
\<close>

record 'a vars1 =
  var_X :: "'a list list"
  var_U :: "'a list list"
  var_Zp :: "'a list"
  var_Zm :: "'a list"

record 'a vars2 =
  var_Yp :: "'a ndarray"
  var_Ym :: "'a ndarray"

section \<open>Objectives\<close>

definition get_1st_stage_objective :: "pars \<Rightarrow> expr vars1 \<Rightarrow> error + expr" where
  "get_1st_stage_objective ps vs =
     bindE (ew2 Scale (par_C1 ps) (var_X vs)) (\<lambda>t1.
     bindE (ew2 Scale (par_C2 ps) (var_U vs)) (\<lambda>t2.
     bindE (ew1 Scale (par_C3p ps) (var_Zp vs)) (\<lambda>t3.
     bindE (ew1 Scale (par_C3m ps) (var_Zm vs)) (\<lambda>t4.
       Inr (quicksum [np_sum (concat t1), np_sum (concat t2), np_sum t3, np_sum t4])))))"

definition get_2nd_stage_objective :: "pars \<Rightarrow> expr vars2 \<Rightarrow> error + expr" where
  "get_2nd_stage_objective ps vs =
     (let S = (if ndim (var_Yp vs) = 2 then 1 else shape0 (var_Yp vs)) in
      bindE (nd_binop Scale (A2 (par_Qp ps)) (var_Yp vs)) (\<lambda>t1.
      bindE (nd_binop Scale (A2 (par_Qm ps)) (var_Ym vs)) (\<lambda>t2.
        let obj = quicksum [np_sum (flatten t1), np_sum (flatten t2)] in
        if S = 0 then Inl ZeroDivisionError else Inr (DivBy obj (real S)))))"


section \<open>The solver model\<close>

text \<open>
  What a \<open>gurobipy.Model\<close> holds: its name, the \<open>LogToConsole\<close> parameter, the variables
  with their bounds and type (no upper bound is \<open>GRB.INFINITY\<close>), the constraints
  \<open>lhs <= 0\<close> and \<open>lhs == 0\<close> with their names, the objective (always minimised here) and
  the outcome of the last optimisation pass, if any.
\<close>

datatype vtype = CONTINUOUS | INTEGER

datatype sense = LessEqual | Equal

record varinfo =
  vi_lb :: real
  vi_ub :: "real option"
  vi_type :: vtype

record constr =
  c_name :: string
  c_index :: nat
  c_lhs :: expr
  c_sense :: sense

text \<open>
  An optimisation pass reports a status code and, when a solution is available, the
  objective value and the value of every variable.
\<close>

record outcome =
  o_status :: nat
  o_objval :: "real option"
  o_x :: "var \<Rightarrow> real option"

definition GRB_LOADED :: nat where "GRB_LOADED = 1"
definition GRB_OPTIMAL :: nat where "GRB_OPTIMAL = 2"
definition GRB_INFEASIBLE :: nat where "GRB_INFEASIBLE = 3"
definition GRB_INF_OR_UNBD :: nat where "GRB_INF_OR_UNBD = 4"
definition GRB_UNBOUNDED :: nat where "GRB_UNBOUNDED = 5"
definition GRB_TIME_LIMIT :: nat where "GRB_TIME_LIMIT = 9"
definition GRB_SUBOPTIMAL :: nat where "GRB_SUBOPTIMAL = 13"

record gmodel =
  m_name :: string
  m_LogToConsole :: bool
  m_vars :: "(var \<times> varinfo) list"
  m_constrs :: "constr list"
  m_objective :: expr
  m_result :: "outcome option"

text \<open>
  The solving algorithm is outside the program: it is a parameter, a function of the
  variables, constraints and objective it is given, that raises or reports an outcome.
\<close>

type_synonym solver = "(var \<times> varinfo) list \<Rightarrow> constr list \<Rightarrow> expr \<Rightarrow> error + outcome"

definition Model :: "string \<Rightarrow> gmodel" where
  "Model nm = \<lparr>m_name = nm, m_LogToConsole = True, m_vars = [], m_constrs = [],
               m_objective = Num 0, m_result = None\<rparr>"

definition holds :: "(var \<Rightarrow> real) \<Rightarrow> constr \<Rightarrow> bool" where
  "holds \<sigma> c = (case c_sense c of
                  LessEqual \<Rightarrow> eval \<sigma> (c_lhs c) \<le> 0
                | Equal \<Rightarrow> eval \<sigma> (c_lhs c) = 0)"

text \<open>
  \<open>mdl.addVars(*size, lb=.., ub=.., vtype=.., name=nm)\<close> for one, two and three
  dimensions, with the array \<open>np.array(....values()).reshape(*size)\<close> of the new variables.
\<close>

definition addVars1 ::
  "gmodel \<Rightarrow> nat \<Rightarrow> varinfo \<Rightarrow> string \<Rightarrow> gmodel \<times> expr list" where
  "addVars1 mdl d1 info nm =
     (mdl\<lparr>m_vars := m_vars mdl @ map (\<lambda>i. (Var nm [i], info)) [0..<d1]\<rparr>,
      map (\<lambda>i. V (Var nm [i])) [0..<d1])"

definition addVars2 ::
  "gmodel \<Rightarrow> nat \<Rightarrow> nat \<Rightarrow> varinfo \<Rightarrow> string \<Rightarrow> gmodel \<times> expr list list" where
  "addVars2 mdl d1 d2 info nm =
     (mdl\<lparr>m_vars := m_vars mdl @
              concat (map (\<lambda>i. map (\<lambda>j. (Var nm [i, j], info)) [0..<d2]) [0..<d1])\<rparr>,
      map (\<lambda>i. map (\<lambda>j. V (Var nm [i, j])) [0..<d2]) [0..<d1])"

definition addVars3 ::
  "gmodel \<Rightarrow> nat \<Rightarrow> nat \<Rightarrow> nat \<Rightarrow> varinfo \<Rightarrow> string \<Rightarrow> gmodel \<times> expr list list list" where
  "addVars3 mdl d0 d1 d2 info nm =
     (mdl\<lparr>m_vars := m_vars mdl @
              concat (map (\<lambda>k. concat (map (\<lambda>i. map (\<lambda>j. (Var nm [k, i, j], info)) [0..<d2])
                                          [0..<d1])) [0..<d0])\<rparr>,
      map (\<lambda>k. map (\<lambda>i. map (\<lambda>j. V (Var nm [k, i, j])) [0..<d2]) [0..<d1]) [0..<d0])"

text \<open>
  \<open>mdl.addConstrs((con[i] <= 0 for i in range(con.size)), name=nm)\<close> and the same with
  \<open>==\<close>: one constraint \<open>nm[i]\<close> per entry of the flattened array.
\<close>

definition new_constrs :: "expr list \<Rightarrow> sense \<Rightarrow> string \<Rightarrow> constr list" where
  "new_constrs con sn nm =
     map (\<lambda>i. \<lparr>c_name = nm, c_index = i, c_lhs = con ! i, c_sense = sn\<rparr>) [0..<length con]"

definition addConstrs :: "gmodel \<Rightarrow> expr list \<Rightarrow> sense \<Rightarrow> string \<Rightarrow> gmodel" where
  "addConstrs mdl con sn nm = mdl\<lparr>m_constrs := m_constrs mdl @ new_constrs con sn nm\<rparr>"

definition setObjective :: "gmodel \<Rightarrow> expr \<Rightarrow> gmodel" where
  "setObjective mdl obj = mdl\<lparr>m_objective := obj\<rparr>"

text \<open>
  \<open>mdl.setAttr(GRB.Attr.LB, var, value)\<close> followed by the same for \<open>UB\<close>: every entry of
  \<open>var\<close> must be a variable of the model, and there must be as many values as variables.
\<close>

fun the_var :: "expr \<Rightarrow> error + var" where
  "the_var (V v) = Inr v"
| "the_var e = Inl GurobiError"

definition set_bounds :: "var \<Rightarrow> real \<Rightarrow> (var \<times> varinfo) list \<Rightarrow> (var \<times> varinfo) list" where
  "set_bounds v x vs =
     map (\<lambda>(w, info). if w = v then (w, info\<lparr>vi_lb := x, vi_ub := Some x\<rparr>) else (w, info)) vs"

definition fix_var :: "gmodel \<Rightarrow> expr ndarray \<Rightarrow> real ndarray \<Rightarrow> error + gmodel" where
  "fix_var mdl var val =
     bindE (seqE (map the_var (flatten var))) (\<lambda>vs.
       if length vs \<noteq> length (flatten val) \<or> \<not> list_all (\<lambda>v. v \<in> fst ` set (m_vars mdl)) vs
       then Inl GurobiError
       else Inr (mdl\<lparr>m_vars := foldl (\<lambda>acc (v, x). set_bounds v x acc) (m_vars mdl)
                                      (zip vs (flatten val))\<rparr>))"

text \<open>
  \<open>mdl.optimize()\<close> stores the outcome in the model; \<open>mdl.Status\<close>, \<open>mdl.ObjVal\<close> and the
  attribute \<open>X\<close> of a variable read it. A change of bounds is queued until the next
  optimisation pass and leaves the stored outcome as it is.
\<close>

definition optimize :: "solver \<Rightarrow> gmodel \<Rightarrow> error + gmodel" where
  "optimize solve mdl =
     bindE (solve (m_vars mdl) (m_constrs mdl) (m_objective mdl)) (\<lambda>out.
       Inr (mdl\<lparr>m_result := Some out\<rparr>))"

definition Status :: "gmodel \<Rightarrow> nat" where
  "Status mdl = (case m_result mdl of None \<Rightarrow> GRB_LOADED | Some out \<Rightarrow> o_status out)"

definition ObjVal :: "gmodel \<Rightarrow> error + real" where
  "ObjVal mdl =
     (case m_result mdl of
        None \<Rightarrow> Inl GurobiError
      | Some out \<Rightarrow> (case o_objval out of None \<Rightarrow> Inl GurobiError | Some v \<Rightarrow> Inr v))"

definition var_X_attr :: "gmodel \<Rightarrow> expr \<Rightarrow> error + real" where
  "var_X_attr mdl e =
     bindE (the_var e) (\<lambda>v.
       case m_result mdl of
         None \<Rightarrow> Inl GurobiError
       | Some out \<Rightarrow> (case o_x out v of None \<Rightarrow> Inl GurobiError | Some x \<Rightarrow> Inr x))"

section \<open>Model builder\<close>

definition add_1st_stage_variables :: "gmodel \<Rightarrow> pars \<Rightarrow> bool \<Rightarrow> gmodel \<times> expr vars1" where
  "add_1st_stage_variables mdl ps intvars =
     (let vt = (if intvars then INTEGER else CONTINUOUS);
          info = \<lparr>vi_lb = 0, vi_ub = None, vi_type = vt\<rparr>;
          (m1, X) = addVars2 mdl (par_n ps) (par_s ps) info ''X'';
          (m2, U) = addVars2 m1 (par_m ps) (par_s ps) info ''U'';
          (m3, Zp) = addVars1 m2 (par_s ps - 1) info ''Z+'';
          (m4, Zm) = addVars1 m3 (par_s ps - 1) info ''Z-''
      in (m4, \<lparr>var_X = X, var_U = U, var_Zp = Zp, var_Zm = Zm\<rparr>))"

definition add_2nd_stage_variables ::
  "gmodel \<Rightarrow> pars \<Rightarrow> nat \<Rightarrow> bool \<Rightarrow> gmodel \<times> expr vars2" where
  "add_2nd_stage_variables mdl ps scenarios intvars =
     (let vt = (if intvars then INTEGER else CONTINUOUS);
          info = \<lparr>vi_lb = 0, vi_ub = None, vi_type = vt\<rparr>
      in if scenarios = 1
         then (let (m1, Yp) = addVars2 mdl (par_n ps) (par_s ps) info ''Y+'';
                   (m2, Ym) = addVars2 m1 (par_n ps) (par_s ps) info ''Y-''
               in (m2, \<lparr>var_Yp = A2 Yp, var_Ym = A2 Ym\<rparr>))
         else (let (m1, Yp) = addVars3 mdl scenarios (par_n ps) (par_s ps) info ''Y+'';
                   (m2, Ym) = addVars3 m1 scenarios (par_n ps) (par_s ps) info ''Y-''
               in (m2, \<lparr>var_Yp = A3 Yp, var_Ym = A3 Ym\<rparr>)))"

definition add_1st_stage_constraints :: "gmodel \<Rightarrow> pars \<Rightarrow> expr vars1 \<Rightarrow> error + gmodel" where
  "add_1st_stage_constraints mdl ps vs =
     bindE (matmul (np_T (par_A ps)) (var_X vs)) (\<lambda>AX.
     bindE (ew2 (\<lambda>e b. Sub e (Num b)) AX (par_B ps)) (\<lambda>c1.
     bindE (ew2 Sub c1 (var_U vs)) (\<lambda>con1.
     let m1 = addConstrs mdl (concat con1) LessEqual ''con_product'' in
     bindE (ew1 Sub (var_Zp vs) (var_Zm vs)) (\<lambda>z.
     bindE (last_col (par_A ps)) (\<lambda>w.
     bindE (ew2 Sub (map tl (var_X vs)) (map butlast (var_X vs))) (\<lambda>dX.
     bindE (vecmat w dX) (\<lambda>wd.
     bindE (ew1 Sub z wd) (\<lambda>con2.
     let m2 = addConstrs m1 con2 Equal ''con_work'' in
     bindE (ew2 (\<lambda>u b. Sub u (Num b)) (var_U vs) (par_UB ps)) (\<lambda>con3.
       Inr (addConstrs m2 (concat con3) LessEqual ''con_extracap''))))))))))"

text \<open>
  The demand the constraint is built with (the \<open>if demands is None\<close> block): the array
  given by the caller or, when none is given, new variables with both bounds 0, of shape
  (n, s) for one scenario and (S, n, s) otherwise; the flag says whether they are returned.
\<close>

definition demand_array ::
  "gmodel \<Rightarrow> pars \<Rightarrow> nat \<Rightarrow> expr ndarray option \<Rightarrow> gmodel \<times> expr ndarray \<times> bool" where
  "demand_array mdl ps S demands_opt =
     (let info = \<lparr>vi_lb = 0, vi_ub = Some 0, vi_type = CONTINUOUS\<rparr>
      in case demands_opt of
           None \<Rightarrow>
             (if S = 1
              then (let (m, d) = addVars2 mdl (par_n ps) (par_s ps) info ''demand''
                    in (m, A2 d, True))
              else (let (m, d) = addVars3 mdl S (par_n ps) (par_s ps) info ''demand''
                    in (m, A3 d, True)))
         | Some d \<Rightarrow> (mdl, d, False))"

definition add_2nd_stage_constraints ::
  "gmodel \<Rightarrow> pars \<Rightarrow> expr vars1 \<Rightarrow> expr vars2 \<Rightarrow> expr ndarray option
     \<Rightarrow> error + (gmodel \<times> expr ndarray option)" where
  "add_2nd_stage_constraints mdl ps vars_1st vars_2nd demands_opt =
     (let S = (if ndim (var_Yp vars_2nd) = 2 then 1 else shape0 (var_Yp vars_2nd));
          X = var_X vars_1st; Yp = var_Yp vars_2nd; Ym = var_Ym vars_2nd;
          (m1, demands, return) = demand_array mdl ps S demands_opt;
          Ym0 = nd_rows ((#) (Num 0)) Ym
      in bindE (nd_binop Add (A2 X) (nd_rows butlast Ym0)) (\<lambda>c1.
         bindE (nd_binop Add c1 Yp) (\<lambda>c2.
         bindE (nd_binop Sub c2 (nd_rows tl Ym0)) (\<lambda>c3.
         bindE (nd_binop Sub c3 demands) (\<lambda>con.
           Inr (addConstrs m1 (flatten con) Equal ''con_demand'',
                if return then Some demands else None))))))"

section \<open>Solutions\<close>

text \<open>
  \<open>arr.astype(int)\<close> casts every entry to a 64-bit integer: the fractional part is dropped,
  and a value whose integer part is outside the range of the 64-bit integers gives the
  smallest of them. The integer is kept among the reals here.
\<close>

definition astype_int :: "real \<Rightarrow> real" where
  "astype_int x =
     (let t = (if 0 \<le> x then \<lfloor>x\<rfloor> else \<lceil>x\<rceil>)
      in if - (2 ^ 63) \<le> t \<and> t < 2 ^ 63 then of_int t else - (2 ^ 63))"

text \<open>
  Modelled from the spec: \<open>util.var2val\<close> is not among the sources; it converts an array
  of resolved variables to the array of their values (the attribute \<open>X\<close> of each).
\<close>

definition var2val1 :: "gmodel \<Rightarrow> expr list \<Rightarrow> error + real list" where
  "var2val1 mdl xs = seqE (map (var_X_attr mdl) xs)"

definition var2val2 :: "gmodel \<Rightarrow> expr list list \<Rightarrow> error + real list list" where
  "var2val2 mdl a = seqE (map (var2val1 mdl) a)"

fun var2val :: "gmodel \<Rightarrow> expr ndarray \<Rightarrow> error + real ndarray" where
  "var2val mdl (A2 a) = map_sum id A2 (var2val2 mdl a)"
| "var2val mdl (A3 a) = map_sum id A3 (seqE (map (var2val2 mdl) a))"

fun nd_map :: "('a \<Rightarrow> 'b) \<Rightarrow> 'a ndarray \<Rightarrow> 'b ndarray" where
  "nd_map f (A2 a) = A2 (map (map f) a)"
| "nd_map f (A3 a) = A3 (map (map (map f)) a)"

text \<open>
  The conversion both \<open>optimize_EV\<close> and \<open>optimize_TS\<close> apply to every variable group:
  \<open>util.var2val(o).astype(int)\<close> if \<open>intvars\<close>, else \<open>util.var2val(o)\<close>.
\<close>

definition convert :: "bool \<Rightarrow> real \<Rightarrow> real" where
  "convert intvars x = (if intvars then astype_int x else x)"

definition var2val_vars1 :: "gmodel \<Rightarrow> expr vars1 \<Rightarrow> error + real vars1" where
  "var2val_vars1 mdl vs =
     bindE (var2val2 mdl (var_X vs)) (\<lambda>x.
     bindE (var2val2 mdl (var_U vs)) (\<lambda>u.
     bindE (var2val1 mdl (var_Zp vs)) (\<lambda>zp.
     bindE (var2val1 mdl (var_Zm vs)) (\<lambda>zm.
       Inr \<lparr>var_X = x, var_U = u, var_Zp = zp, var_Zm = zm\<rparr>))))"

definition convert_vars1 :: "bool \<Rightarrow> gmodel \<Rightarrow> expr vars1 \<Rightarrow> error + real vars1" where
  "convert_vars1 intvars mdl vs =
     bindE (var2val_vars1 mdl vs) (\<lambda>r.
       Inr \<lparr>var_X = map (map (convert intvars)) (var_X r),
            var_U = map (map (convert intvars)) (var_U r),
            var_Zp = map (convert intvars) (var_Zp r),
            var_Zm = map (convert intvars) (var_Zm r)\<rparr>)"

definition convert_vars2 :: "bool \<Rightarrow> gmodel \<Rightarrow> expr vars2 \<Rightarrow> error + real vars2" where
  "convert_vars2 intvars mdl vs =
     bindE (var2val mdl (var_Yp vs)) (\<lambda>yp.
     bindE (var2val mdl (var_Ym vs)) (\<lambda>ym.
       Inr \<lparr>var_Yp = nd_map (convert intvars) yp, var_Ym = nd_map (convert intvars) ym\<rparr>))"

text \<open>A numeric solution used where the code expects variable groups.\<close>

definition num_vars1 :: "real vars1 \<Rightarrow> expr vars1" where
  "num_vars1 vs = \<lparr>var_X = map (map Num) (var_X vs), var_U = map (map Num) (var_U vs),
                   var_Zp = map Num (var_Zp vs), var_Zm = map Num (var_Zm vs)\<rparr>"

text \<open>
  \<open>expr.getValue()\<close>, which the code applies to the first-stage objective of a numeric
  solution only: an expression without variables has its value; the value of a variable
  would be read from its model, and none belongs to such an expression.
\<close>

fun getValue :: "expr \<Rightarrow> error + real" where
  "getValue (Num c) = Inr c"
| "getValue (V v) = Inl GurobiError"
| "getValue (Add a b) = bindE (getValue a) (\<lambda>x. bindE (getValue b) (\<lambda>y. Inr (x + y)))"
| "getValue (Sub a b) = bindE (getValue a) (\<lambda>x. bindE (getValue b) (\<lambda>y. Inr (x - y)))"
| "getValue (Scale c a) = bindE (getValue a) (\<lambda>x. Inr (c * x))"
| "getValue (DivBy a c) = bindE (getValue a) (\<lambda>x. Inr (x / c))"

section \<open>Procedures, the models they hold and the random generator\<close>

text \<open>
  A procedure runs in a world that records the solver models created and not yet released
  (by name, one entry per model) and the state of the random generator. It ends with a
  value or with an exception; the world is changed in both cases.
\<close>

record 'g world =
  w_live :: "string list"
  w_rng :: 'g

type_synonym ('a, 'g) proc = "'g world \<Rightarrow> (error + 'a) \<times> 'g world"

definition returnM :: "'a \<Rightarrow> ('a, 'g) proc" where
  "returnM x w = (Inr x, w)"

definition liftE :: "error + 'a \<Rightarrow> ('a, 'g) proc" where
  "liftE r w = (r, w)"

definition bindM :: "('a, 'g) proc \<Rightarrow> ('a \<Rightarrow> ('b, 'g) proc) \<Rightarrow> ('b, 'g) proc" where
  "bindM p f w = (case p w of (Inl e, w1) \<Rightarrow> (Inl e, w1) | (Inr x, w1) \<Rightarrow> f x w1)"

text \<open>\<open>gb.Model(name=nm)\<close> and \<open>mdl.dispose()\<close>.\<close>

definition new_Model :: "string \<Rightarrow> (gmodel, 'g) proc" where
  "new_Model nm w = (Inr (Model nm), w\<lparr>w_live := nm # w_live w\<rparr>)"

definition dispose :: "gmodel \<Rightarrow> (unit, 'g) proc" where
  "dispose mdl w = (Inr (), w\<lparr>w_live := remove1 (m_name mdl) (w_live w)\<rparr>)"

definition quiet :: "gmodel \<Rightarrow> gmodel" where
  "quiet mdl = mdl\<lparr>m_LogToConsole := False\<rparr>"

text \<open>A \<open>for\<close> loop whose body may raise, over the values and in a world.\<close>

fun foldE :: "('a \<Rightarrow> 's \<Rightarrow> error + 's) \<Rightarrow> 'a list \<Rightarrow> 's \<Rightarrow> error + 's" where
  "foldE f [] st = Inr st"
| "foldE f (x # xs) st = bindE (f x st) (foldE f xs)"

fun foldM :: "('a \<Rightarrow> 's \<Rightarrow> ('s, 'g) proc) \<Rightarrow> 'a list \<Rightarrow> 's \<Rightarrow> ('s, 'g) proc" where
  "foldM f [] st = returnM st"
| "foldM f (x # xs) st = bindM (f x st) (foldM f xs)"

section \<open>EV, EEV, TS and WS\<close>

text \<open>
  Each procedure creates its model, works on it and releases it. The statements between
  the creation and the release make one definition (\<open>EV_steps\<close> and so on), a computation
  that ends with a value or an exception; the procedure itself adds the creation before
  and, where the code has it, the call of \<open>dispose\<close> after.
\<close>

definition EV_steps ::
  "solver \<Rightarrow> pars \<Rightarrow> bool \<Rightarrow> int \<Rightarrow> gmodel
     \<Rightarrow> error + (gmodel \<times> real \<times> real vars1 \<times> real vars2)" where
  "EV_steps solve ps intvars verbose mdl0 =
     (let mdl1 = (if verbose < 1 then quiet mdl0 else mdl0);
          (mdl2, vars1) = add_1st_stage_variables mdl1 ps intvars;
          (mdl3, vars2) = add_2nd_stage_variables mdl2 ps 1 intvars
      in bindE (get_1st_stage_objective ps vars1) (\<lambda>obj1.
         bindE (get_2nd_stage_objective ps vars2) (\<lambda>obj2.
         bindE (add_1st_stage_constraints (setObjective mdl3 (Add obj1 obj2)) ps vars1) (\<lambda>mdl4.
         let d_mean = (if intvars then map (map astype_int) (par_demand_mean ps)
                       else par_demand_mean ps)
         in bindE (add_2nd_stage_constraints mdl4 ps vars1 vars2 (Some (nd_num (A2 d_mean))))
              (\<lambda>(mdl5, _).
         bindE (optimize solve mdl5) (\<lambda>mdl6.
         bindE (ObjVal mdl6) (\<lambda>objval.
         bindE (convert_vars1 intvars mdl6 vars1) (\<lambda>sol1.
         bindE (convert_vars2 intvars mdl6 vars2) (\<lambda>sol2.
           Inr (mdl6, objval, sol1, sol2))))))))))"

definition optimize_EV ::
  "solver \<Rightarrow> pars \<Rightarrow> bool \<Rightarrow> int \<Rightarrow> (real \<times> real vars1 \<times> real vars2, 'g) proc" where
  "optimize_EV solve ps intvars verbose =
     bindM (new_Model ''EV'') (\<lambda>mdl0.
     bindM (liftE (EV_steps solve ps intvars verbose mdl0)) (\<lambda>(mdl, objval, sol1, sol2).
     bindM (dispose mdl) (\<lambda>_.
     returnM (objval, sol1, sol2))))"

text \<open>
  The body of the scenario loop of \<open>optimize_EEV\<close> and of \<open>optimize_WS\<close> (the two loops
  are the same text): the state is the model and the list \<open>results\<close>.
\<close>

definition solve_scenario ::
  "solver \<Rightarrow> expr ndarray \<Rightarrow> real list list \<Rightarrow> gmodel \<times> real list
     \<Rightarrow> error + (gmodel \<times> real list)" where
  "solve_scenario solve demands sample_i st =
     (let (mdl, results) = st
      in bindE (fix_var mdl demands (A2 sample_i)) (\<lambda>mdl1.
         bindE (optimize solve mdl1) (\<lambda>mdl2.
           if Status mdl2 \<noteq> GRB_INFEASIBLE
           then bindE (ObjVal mdl2) (\<lambda>v. Inr (mdl2, results @ [v]))
           else Inr (mdl2, results))))"

text \<open>
  \<open>add_2nd_stage_constraints\<close> called without a demand returns the new demand variables;
  with \<open>None\<close> in their place the call of \<open>flatten\<close> in \<open>fix_var\<close> would fail.
\<close>

definition the_demands :: "expr ndarray option \<Rightarrow> error + expr ndarray" where
  "the_demands d = (case d of None \<Rightarrow> Inl ValueError | Some a \<Rightarrow> Inr a)"

text \<open>The model of \<open>optimize_EEV\<close> and its demand variables, before the loop.\<close>

definition EEV_model ::
  "pars \<Rightarrow> real vars1 \<Rightarrow> bool \<Rightarrow> int \<Rightarrow> gmodel \<Rightarrow> error + (gmodel \<times> expr ndarray)" where
  "EEV_model ps EV_vars1 intvars verbose mdl0 =
     (let mdl1 = (if verbose < 2 then quiet mdl0 else mdl0);
          (mdl2, vars2) = add_2nd_stage_variables mdl1 ps 1 intvars
      in bindE (get_1st_stage_objective ps (num_vars1 EV_vars1)) (\<lambda>obj1.
         bindE (get_2nd_stage_objective ps vars2) (\<lambda>obj2.
         bindE (add_2nd_stage_constraints (setObjective mdl2 (Add obj1 obj2)) ps
                  (num_vars1 EV_vars1) vars2 None) (\<lambda>(mdl3, d).
         bindE (the_demands d) (\<lambda>demands.
           Inr (mdl3, demands))))))"

definition EEV_steps ::
  "solver \<Rightarrow> pars \<Rightarrow> real vars1 \<Rightarrow> real list list list \<Rightarrow> bool \<Rightarrow> int \<Rightarrow> gmodel
     \<Rightarrow> error + (gmodel \<times> real list)" where
  "EEV_steps solve ps EV_vars1 samples intvars verbose mdl0 =
     bindE (EEV_model ps EV_vars1 intvars verbose mdl0) (\<lambda>(mdl, demands).
       foldE (solve_scenario solve demands) samples (mdl, []))"

definition optimize_EEV ::
  "solver \<Rightarrow> pars \<Rightarrow> real vars1 \<Rightarrow> real list list list \<Rightarrow> bool \<Rightarrow> int
     \<Rightarrow> (real list, 'g) proc" where
  "optimize_EEV solve ps EV_vars1 samples intvars verbose =
     bindM (new_Model ''EEV'') (\<lambda>mdl0.
     bindM (liftE (EEV_steps solve ps EV_vars1 samples intvars verbose mdl0)) (\<lambda>(mdl, results).
     bindM (dispose mdl) (\<lambda>_.
     returnM results)))"

text \<open>
  \<open>(sol2['Y+'] > 0).sum() / sol2['Y+'].size\<close>, a division of numpy numbers: with no entry
  at all the result is not a number (\<open>None\<close>), and nothing is raised.
\<close>

definition purchase_prob :: "real ndarray \<Rightarrow> real option" where
  "purchase_prob yp =
     (if length (flatten yp) = 0 then None
      else Some (real (length (filter (\<lambda>y. 0 < y) (flatten yp))) / real (length (flatten yp))))"

definition TS_steps ::
  "solver \<Rightarrow> pars \<Rightarrow> real list list list \<Rightarrow> bool \<Rightarrow> int \<Rightarrow> gmodel
     \<Rightarrow> error + (gmodel \<times> real \<times> real vars1 \<times> real option)" where
  "TS_steps solve ps samples intvars verbose mdl0 =
     (let S = length samples;
          mdl1 = (if verbose < 1 then quiet mdl0 else mdl0);
          (mdl2, vars1) = add_1st_stage_variables mdl1 ps intvars;
          (mdl3, vars2) = add_2nd_stage_variables mdl2 ps S intvars
      in bindE (get_1st_stage_objective ps vars1) (\<lambda>obj1.
         bindE (get_2nd_stage_objective ps vars2) (\<lambda>obj2.
         bindE (add_1st_stage_constraints (setObjective mdl3 (Add obj1 obj2)) ps vars1) (\<lambda>mdl4.
         bindE (add_2nd_stage_constraints mdl4 ps vars1 vars2 (Some (nd_num (A3 samples))))
              (\<lambda>(mdl5, _).
         bindE (optimize solve mdl5) (\<lambda>mdl6.
         bindE (ObjVal mdl6) (\<lambda>objval.
         bindE (convert_vars1 intvars mdl6 vars1) (\<lambda>sol1.
         bindE (convert_vars2 intvars mdl6 vars2) (\<lambda>sol2.
           Inr (mdl6, objval, sol1, purchase_prob (var_Yp sol2)))))))))))"

definition optimize_TS ::
  "solver \<Rightarrow> pars \<Rightarrow> real list list list \<Rightarrow> bool \<Rightarrow> int
     \<Rightarrow> (real \<times> real vars1 \<times> real option, 'g) proc" where
  "optimize_TS solve ps samples intvars verbose =
     bindM (new_Model ''LSDE'') (\<lambda>mdl0.
     bindM (liftE (TS_steps solve ps samples intvars verbose mdl0)) (\<lambda>(mdl, objval, sol1, prob).
     bindM (dispose mdl) (\<lambda>_.
     returnM (objval, sol1, prob))))"

text \<open>The model of \<open>optimize_WS\<close> and its demand variables, before the loop.\<close>

definition WS_model ::
  "pars \<Rightarrow> bool \<Rightarrow> int \<Rightarrow> gmodel \<Rightarrow> error + (gmodel \<times> expr ndarray)" where
  "WS_model ps intvars verbose mdl0 =
     (let mdl1 = (if verbose < 1 then quiet mdl0 else mdl0);
          (mdl2, vars1) = add_1st_stage_variables mdl1 ps intvars;
          (mdl3, vars2) = add_2nd_stage_variables mdl2 ps 1 intvars
      in bindE (get_1st_stage_objective ps vars1) (\<lambda>obj1.
         bindE (get_2nd_stage_objective ps vars2) (\<lambda>obj2.
         bindE (add_1st_stage_constraints (setObjective mdl3 (Add obj1 obj2)) ps vars1) (\<lambda>mdl4.
         bindE (add_2nd_stage_constraints mdl4 ps vars1 vars2 None) (\<lambda>(mdl5, d).
         bindE (the_demands d) (\<lambda>demands.
           Inr (mdl5, demands)))))))"

definition WS_steps ::
  "solver \<Rightarrow> pars \<Rightarrow> real list list list \<Rightarrow> bool \<Rightarrow> int \<Rightarrow> gmodel
     \<Rightarrow> error + (gmodel \<times> real list)" where
  "WS_steps solve ps samples intvars verbose mdl0 =
     bindE (WS_model ps intvars verbose mdl0) (\<lambda>(mdl, demands).
       foldE (solve_scenario solve demands) samples (mdl, []))"

text \<open>\<open>optimize_WS\<close> returns without a call of \<open>dispose\<close>.\<close>

definition optimize_WS ::
  "solver \<Rightarrow> pars \<Rightarrow> real list list list \<Rightarrow> bool \<Rightarrow> int \<Rightarrow> (real list, 'g) proc" where
  "optimize_WS solve ps samples intvars verbose =
     bindM (new_Model ''LSDE'') (\<lambda>mdl0.
     bindM (liftE (WS_steps solve ps samples intvars verbose mdl0)) (\<lambda>(mdl, results).
     returnM results))"

section \<open>The multiple replications procedure\<close>

text \<open>
  Modelled from the spec: \<open>util.draw_samples\<close> is not among the sources. Given a sample
  count, the parameters, the integer-rounding flag and an optional seed, it returns an
  array of demand draws of shape (count, n, s). A draw with a seed is a function of the
  seed (the same seed gives the same array); a draw without one uses and advances the
  generator.
\<close>

record 'g sampler =
  smp_seeded :: "nat \<Rightarrow> pars \<Rightarrow> bool \<Rightarrow> int \<Rightarrow> real list list list"
  smp_unseeded :: "nat \<Rightarrow> pars \<Rightarrow> bool \<Rightarrow> 'g \<Rightarrow> real list list list \<times> 'g"

definition draw_samples ::
  "'g sampler \<Rightarrow> nat \<Rightarrow> pars \<Rightarrow> bool \<Rightarrow> int option \<Rightarrow> (real list list list, 'g) proc" where
  "draw_samples smp count ps asint seed w =
     (case seed of
        Some k \<Rightarrow> (Inr (smp_seeded smp count ps asint k), w)
      | None \<Rightarrow> (let (a, g) = smp_unseeded smp count ps asint (w_rng w)
                 in (Inr a, w\<lparr>w_rng := g\<rparr>)))"

text \<open>
  The body of the loop over the scenarios of one replica; the state is the submodel and
  \<open>G_k\<close>. After the bounds of \<open>sub_X\<close> are set to \<open>vars1_k['X']\<close> the code reads
  \<open>sub.ObjVal\<close> without a new optimisation pass.
\<close>

definition mrp_scenario ::
  "solver \<Rightarrow> pars \<Rightarrow> real vars1 \<Rightarrow> real vars1 \<Rightarrow> expr ndarray \<Rightarrow> expr list list
     \<Rightarrow> real list list list \<Rightarrow> nat \<Rightarrow> nat \<Rightarrow> gmodel \<times> real \<Rightarrow> error + (gmodel \<times> real)" where
  "mrp_scenario solve ps solution vars1_k sub_demand sub_X sample S i st =
     (let (sub, G_k) = st
      in bindE (getitem sample i) (\<lambda>sample_i.
         bindE (fix_var sub sub_demand (A2 sample_i)) (\<lambda>sub1.
         bindE (fix_var sub1 (A2 sub_X) (A2 (var_X solution))) (\<lambda>sub2.
         bindE (optimize solve sub2) (\<lambda>sub3.
         bindE (get_1st_stage_objective ps (num_vars1 solution)) (\<lambda>o1.
         bindE (getValue o1) (\<lambda>v1.
         bindE (ObjVal sub3) (\<lambda>r1.
         let a = v1 + r1
         in bindE (fix_var sub3 (A2 sub_X) (A2 (var_X vars1_k))) (\<lambda>sub4.
            bindE (get_1st_stage_objective ps (num_vars1 vars1_k)) (\<lambda>o2.
            bindE (getValue o2) (\<lambda>v2.
            bindE (ObjVal sub4) (\<lambda>r2.
            let b = v2 + r2
            in Inr (sub4, G_k + (a - b) / real S)))))))))))))"

text \<open>
  The body of the loop over the replicas; the state is the main model, the submodel and
  the list \<open>G\<close>. \<open>mrp_replica_steps\<close> is what the body does with the sample it has drawn.
\<close>

definition mrp_replica_steps ::
  "solver \<Rightarrow> pars \<Rightarrow> real vars1 \<Rightarrow> nat \<Rightarrow> expr vars1 \<Rightarrow> expr ndarray \<Rightarrow> expr ndarray
     \<Rightarrow> expr list list \<Rightarrow> real list list list \<Rightarrow> gmodel \<times> gmodel \<times> real list
     \<Rightarrow> error + (gmodel \<times> gmodel \<times> real list)" where
  "mrp_replica_steps solve ps solution S vars1 demands sub_demand sub_X sample st =
     (let (mdl, sub, G) = st
      in bindE (fix_var mdl demands (A3 sample)) (\<lambda>mdl1.
         bindE (optimize solve mdl1) (\<lambda>mdl2.
         bindE (var2val_vars1 mdl2 vars1) (\<lambda>vars1_k.
         bindE (foldE (mrp_scenario solve ps solution vars1_k sub_demand sub_X sample S)
                  [0..<S] (sub, 0)) (\<lambda>(sub1, G_k).
           Inr (mdl2, sub1, G @ [G_k]))))))"

definition mrp_replica ::
  "solver \<Rightarrow> 'g sampler \<Rightarrow> pars \<Rightarrow> real vars1 \<Rightarrow> nat \<Rightarrow> bool \<Rightarrow> int option
     \<Rightarrow> expr vars1 \<Rightarrow> expr ndarray \<Rightarrow> expr ndarray \<Rightarrow> expr list list
     \<Rightarrow> nat \<Rightarrow> gmodel \<times> gmodel \<times> real list \<Rightarrow> (gmodel \<times> gmodel \<times> real list, 'g) proc" where
  "mrp_replica solve smp ps solution S intvars seed vars1 demands sub_demand sub_X k st =
     bindM (draw_samples smp S ps intvars seed) (\<lambda>sample.
       liftE (mrp_replica_steps solve ps solution S vars1 demands sub_demand sub_X sample st))"

text \<open>
  The main model of \<open>run_MRP\<close> with its first-stage and demand variables, and the submodel
  with its \<open>X\<close> and demand variables.
\<close>

definition MRP_model ::
  "pars \<Rightarrow> nat \<Rightarrow> bool \<Rightarrow> int \<Rightarrow> gmodel \<Rightarrow> error + (gmodel \<times> expr vars1 \<times> expr ndarray)" where
  "MRP_model ps S intvars verbose mdl0 =
     (let mdl1 = (if verbose < 2 then quiet mdl0 else mdl0);
          (mdl2, vars1) = add_1st_stage_variables mdl1 ps intvars;
          (mdl3, vars2) = add_2nd_stage_variables mdl2 ps S intvars
      in bindE (get_1st_stage_objective ps vars1) (\<lambda>obj1.
         bindE (get_2nd_stage_objective ps vars2) (\<lambda>obj2.
         bindE (add_1st_stage_constraints (setObjective mdl3 (Add obj1 obj2)) ps vars1) (\<lambda>mdl4.
         bindE (add_2nd_stage_constraints mdl4 ps vars1 vars2 None) (\<lambda>(mdl5, d).
         bindE (the_demands d) (\<lambda>demands.
           Inr (mdl5, vars1, demands)))))))"

definition MRP_submodel ::
  "pars \<Rightarrow> bool \<Rightarrow> int \<Rightarrow> gmodel \<Rightarrow> error + (gmodel \<times> expr list list \<times> expr ndarray)" where
  "MRP_submodel ps intvars verbose sub0 =
     (let sub1 = (if verbose < 2 then quiet sub0 else sub0);
          (sub2, sub_X) = addVars2 sub1 (par_n ps) (par_s ps)
                            \<lparr>vi_lb = 0, vi_ub = Some 0, vi_type = CONTINUOUS\<rparr> ''X'';
          (sub3, sub_vars2) = add_2nd_stage_variables sub2 ps 1 intvars
      in bindE (get_2nd_stage_objective ps sub_vars2) (\<lambda>obj.
         bindE (add_2nd_stage_constraints (setObjective sub3 obj) ps
                  \<lparr>var_X = sub_X, var_U = [], var_Zp = [], var_Zm = []\<rparr> sub_vars2 None)
              (\<lambda>(sub4, d).
         bindE (the_demands d) (\<lambda>sub_demand.
           Inr (sub4, sub_X, sub_demand)))))"

text \<open>
  Everything \<open>run_MRP\<close> does before it computes the confidence bound: both models are
  built, the replicas are run and both models are released; the result is the list \<open>G\<close>.
\<close>

definition mrp_replications ::
  "solver \<Rightarrow> 'g sampler \<Rightarrow> pars \<Rightarrow> real vars1 \<Rightarrow> nat \<Rightarrow> int \<Rightarrow> bool \<Rightarrow> int \<Rightarrow> int option
     \<Rightarrow> (real list, 'g) proc" where
  "mrp_replications solve smp ps solution sample_size replicas intvars verbose seed =
     (let S = sample_size in
      bindM (new_Model ''LSDE'') (\<lambda>mdl0.
      bindM (liftE (MRP_model ps S intvars verbose mdl0)) (\<lambda>(mdl, vars1, demands).
      bindM (new_Model ''sub'') (\<lambda>sub0.
      bindM (liftE (MRP_submodel ps intvars verbose sub0)) (\<lambda>(sub, sub_X, sub_demand).
      bindM (foldM (mrp_replica solve smp ps solution S intvars seed vars1 demands sub_demand sub_X)
               [0..<nat replicas] (mdl, sub, [])) (\<lambda>(mdl9, sub9, G).
      bindM (dispose mdl9) (\<lambda>_.
      bindM (dispose sub9) (\<lambda>_.
      returnM G))))))))"

text \<open>
  numpy's floating-point results that are not finite numbers (\<open>nan\<close>, \<open>inf\<close>) are \<open>None\<close>;
  numpy computes them without raising. In every operation below a result is finite only
  if the operands are: the mean of no value at all is \<open>nan\<close>, as is the square root of a
  negative number, and a division by 0.0 gives \<open>nan\<close> or \<open>inf\<close>.
\<close>

definition np_mean :: "real list \<Rightarrow> real option" where
  "np_mean xs = (if xs = [] then None else Some (sum_list xs / real (length xs)))"

definition np_sqrt :: "real \<Rightarrow> real option" where
  "np_sqrt x = (if x < 0 then None else Some (sqrt x))"

fun fl_add :: "real option \<Rightarrow> real option \<Rightarrow> real option" where
  "fl_add (Some x) (Some y) = Some (x + y)"
| "fl_add a b = None"

fun fl_sub :: "real option \<Rightarrow> real option \<Rightarrow> real option" where
  "fl_sub (Some x) (Some y) = Some (x - y)"
| "fl_sub a b = None"

fun fl_mul :: "real option \<Rightarrow> real option \<Rightarrow> real option" where
  "fl_mul (Some x) (Some y) = Some (x * y)"
| "fl_mul a b = None"

fun fl_div :: "real option \<Rightarrow> real option \<Rightarrow> real option" where
  "fl_div (Some x) (Some y) = (if y = 0 then None else Some (x / y))"
| "fl_div a b = None"

fun fl_sqrt :: "real option \<Rightarrow> real option" where
  "fl_sqrt (Some x) = np_sqrt x"
| "fl_sqrt None = None"

definition fl_sum :: "real option list \<Rightarrow> real option" where
  "fl_sum xs = foldl fl_add (Some 0) xs"

text \<open>
  The confidence bound computed from \<open>G\<close>. \<open>1 / (replicas - 1)\<close> is a division of Python
  integers and raises for \<open>replicas = 1\<close>. The quantile function \<open>stats.t.ppf\<close> of the
  Student-t distribution is a parameter. The line \<open>sG_ = G.std(ddof=1)\<close> has no effect.
\<close>

definition mrp_bound ::
  "(real \<Rightarrow> int \<Rightarrow> real option) \<Rightarrow> real \<Rightarrow> int \<Rightarrow> real list \<Rightarrow> error + real option" where
  "mrp_bound t_ppf alpha replicas G =
     (let G_bar = np_mean G
      in bindE (if replicas - 1 = 0 then Inl ZeroDivisionError
                else Inr (1 / real_of_int (replicas - 1))) (\<lambda>inv.
         let sq = fl_sum (map (\<lambda>g. fl_mul (fl_sub (Some g) G_bar) (fl_sub (Some g) G_bar)) G);
             sG = fl_sqrt (fl_mul (Some inv) sq);
             eps = fl_div (fl_mul (t_ppf alpha (replicas - 1)) sG) (np_sqrt (real_of_int replicas))
         in Inr (fl_add G_bar eps)))"

definition run_MRP ::
  "solver \<Rightarrow> 'g sampler \<Rightarrow> (real \<Rightarrow> int \<Rightarrow> real option) \<Rightarrow> pars \<Rightarrow> real vars1 \<Rightarrow> nat \<Rightarrow> real
     \<Rightarrow> int \<Rightarrow> bool \<Rightarrow> int \<Rightarrow> int option \<Rightarrow> (real option, 'g) proc" where
  "run_MRP solve smp t_ppf ps solution sample_size alpha replicas intvars verbose seed =
     bindM (mrp_replications solve smp ps solution sample_size replicas intvars verbose seed)
       (\<lambda>G. liftE (mrp_bound t_ppf alpha replicas G))"

section \<open>Numeric objectives in float64\<close>

text \<open>
  The objectives are also applied to numeric arrays, and then the code computes with
  64-bit floating-point numbers: every product, sum and quotient is the double nearest to
  the exact result, a tie going to the even one. \<open>round_f64\<close> is that rounding to 53
  significant bits for results in the range of the normal doubles (overflow and subnormal
  numbers are left aside): \<open>binade\<close> finds the power of two at or below the magnitude and
  \<open>rne\<close> rounds to the nearest integer.
\<close>

definition pow2 :: "int \<Rightarrow> real" where
  "pow2 e = (if 0 \<le> e then 2 ^ nat e else 1 / 2 ^ nat (- e))"

fun binade :: "nat \<Rightarrow> real \<Rightarrow> int" where
  "binade 0 x = 0"
| "binade (Suc n) x =
     (if 2 \<le> x then binade n (x / 2) + 1 else if x < 1 then binade n (2 * x) - 1 else 0)"

definition rne :: "real \<Rightarrow> int" where
  "rne y = (let f = \<lfloor>y\<rfloor>; r = y - of_int f
            in if r < 1 / 2 then f else if 1 / 2 < r then f + 1
               else if even f then f else f + 1)"

definition round_f64 :: "real \<Rightarrow> real" where
  "round_f64 x =
     (if x = 0 then 0
      else let u = pow2 (binade 2200 \<bar>x\<bar> - 52) in u * of_int (rne (x / u)))"

text \<open>
  The number the code computes for an expression built from numbers only, the entries
  being doubles: \<open>getValue\<close> with every operation rounded. numpy adds up fewer than 8
  entries from left to right, which is the order of \<open>np_sum\<close>; it adds longer arrays in
  blocks, an order this evaluation does not follow.
\<close>

fun float_value :: "expr \<Rightarrow> error + real" where
  "float_value (Num c) = Inr c"
| "float_value (V v) = Inl GurobiError"
| "float_value (Add a b) =
     bindE (float_value a) (\<lambda>x. bindE (float_value b) (\<lambda>y. Inr (round_f64 (x + y))))"
| "float_value (Sub a b) =
     bindE (float_value a) (\<lambda>x. bindE (float_value b) (\<lambda>y. Inr (round_f64 (x - y))))"
| "float_value (Scale c a) = bindE (float_value a) (\<lambda>x. Inr (round_f64 (c * x)))"
| "float_value (DivBy a c) = bindE (float_value a) (\<lambda>x. Inr (round_f64 (x / c)))"

definition float_value_of :: "error + expr \<Rightarrow> error + real" where
  "float_value_of r = bindE r float_value"

section \<open>Shapes and entries\<close>

text \<open>
  \<open>shape2 a n s\<close> and \<open>shape3 a S n s\<close> say that the nested lists are arrays of shape
  (n, s) and (S, n, s). \<open>fits a S n s\<close> says that \<open>a\<close> is an array for \<open>S\<close> scenarios,
  \<open>n\<close> products and \<open>s\<close> periods: of shape (S, n, s), or of shape (n, s) and then the same
  for every scenario. \<open>nd_get a k j t\<close> is its entry for scenario \<open>k\<close>, product \<open>j\<close> and
  period \<open>t\<close>.
\<close>

definition shape2 :: "'a list list \<Rightarrow> nat \<Rightarrow> nat \<Rightarrow> bool" where
  "shape2 a n s = (length a = n \<and> list_all (\<lambda>row. length row = s) a)"

definition shape3 :: "'a list list list \<Rightarrow> nat \<Rightarrow> nat \<Rightarrow> nat \<Rightarrow> bool" where
  "shape3 a S n s = (length a = S \<and> list_all (\<lambda>b. shape2 b n s) a)"

fun fits :: "'a ndarray \<Rightarrow> nat \<Rightarrow> nat \<Rightarrow> nat \<Rightarrow> bool" where
  "fits (A2 a) S n s = shape2 a n s"
| "fits (A3 a) S n s = shape3 a S n s"

fun nd_get :: "'a ndarray \<Rightarrow> nat \<Rightarrow> nat \<Rightarrow> nat \<Rightarrow> 'a" where
  "nd_get (A2 a) k j t = a ! j ! t"
| "nd_get (A3 a) k j t = a ! k ! j ! t"

section \<open>Concrete inputs\<close>

text \<open>
  A problem with one product, one period and one resource: a shortage costs 1 per unit, a
  surplus nothing.
\<close>

definition pars_1x1 :: pars where
  "pars_1x1 = \<lparr>par_n = 1, par_s = 1, par_m = 1, par_C1 = [[1]], par_C2 = [[0]],
     par_C3p = [], par_C3m = [], par_Qp = [[1]], par_Qm = [[0]], par_A = [[1]],
     par_B = [[10]], par_UB = [[0]], par_demand_mean = [[5]]\<rparr>"

text \<open>
  The double written \<open>0.1\<close>, the one-product problem with that shortage cost, and a
  numeric second-stage solution with a shortage of \<open>0.1\<close>, alone and replicated 7 times.
\<close>

definition tenth :: real where
  "tenth = 3602879701896397 / 2 ^ 55"

definition pars_tenth :: pars where
  "pars_tenth = \<lparr>par_n = 1, par_s = 1, par_m = 1, par_C1 = [[1]], par_C2 = [[0]],
     par_C3p = [], par_C3m = [], par_Qp = [[tenth]], par_Qm = [[0]], par_A = [[1]],
     par_B = [[10]], par_UB = [[0]], par_demand_mean = [[5]]\<rparr>"

definition single_scenario :: "expr vars2" where
  "single_scenario = \<lparr>var_Yp = A2 [[Num tenth]], var_Ym = A2 [[Num 0]]\<rparr>"

definition seven_scenarios :: "expr vars2" where
  "seven_scenarios =
     \<lparr>var_Yp = A3 (replicate 7 [[Num tenth]]), var_Ym = A3 (replicate 7 [[Num 0]])\<rparr>"

text \<open>
  One product and two periods, with the variables of two scenarios.
\<close>

definition pars_1x2 :: pars where
  "pars_1x2 = \<lparr>par_n = 1, par_s = 2, par_m = 1, par_C1 = [[1, 1]], par_C2 = [[0, 0]],
     par_C3p = [1], par_C3m = [1], par_Qp = [[2, 2]], par_Qm = [[1, 1]], par_A = [[1]],
     par_B = [[10, 10]], par_UB = [[0, 0]], par_demand_mean = [[5, 5]]\<rparr>"

definition vars1_1x2 :: "expr vars1" where
  "vars1_1x2 = \<lparr>var_X = [[V (Var ''X'' [0, 0]), V (Var ''X'' [0, 1])]],
                 var_U = [[V (Var ''U'' [0, 0]), V (Var ''U'' [0, 1])]],
                 var_Zp = [V (Var ''Z+'' [0])], var_Zm = [V (Var ''Z-'' [0])]\<rparr>"

definition vars2_2x1x2 :: "expr vars2" where
  "vars2_2x1x2 =
     \<lparr>var_Yp = A3 [[[V (Var ''Y+'' [0, 0, 0]), V (Var ''Y+'' [0, 0, 1])]],
                    [[V (Var ''Y+'' [1, 0, 0]), V (Var ''Y+'' [1, 0, 1])]]],
      var_Ym = A3 [[[V (Var ''Y-'' [0, 0, 0]), V (Var ''Y-'' [0, 0, 1])]],
                    [[V (Var ''Y-'' [1, 0, 0]), V (Var ''Y-'' [1, 0, 1])]]]\<rparr>"

text \<open>
  A world without models, and a solver that reports every variable at 0.999999 (an integer
  variable at 1, within the solver's integrality tolerance) with objective 1.
\<close>

definition w0 :: "unit world" where
  "w0 = \<lparr>w_live = [], w_rng = ()\<rparr>"

definition near_one :: real where
  "near_one = 999999 / 1000000"

definition near_one_solver :: solver where
  "near_one_solver vs cs obj =
     Inr \<lparr>o_status = GRB_OPTIMAL, o_objval = Some 1, o_x = (\<lambda>v. Some near_one)\<rparr>"

text \<open>
  A solver whose optimisation pass always fails, and a first-stage solution of the
  one-product problem.
\<close>

definition failing_solver :: solver where
  "failing_solver vs cs obj = Inl GurobiError"

definition ev_solution_1x1 :: "real vars1" where
  "ev_solution_1x1 = \<lparr>var_X = [[5]], var_U = [[0]], var_Zp = [], var_Zm = []\<rparr>"




text \<open>
  A one-product, one-period problem for \<open>run_MRP\<close>: producing a unit costs 1, a unit of
  shortage 3, a unit of surplus 1, and the capacity is 10. The solver \<open>newsvendor_solver\<close>
  returns the optimum of the two models \<open>run_MRP\<close> builds for it with one scenario: with
  the demand fixed at \<open>d\<close>, the main model produces \<open>min d 10\<close>, and the submodel, whose
  \<open>X\<close> is fixed, pays for the shortage or the surplus that is left; the objective value is
  the value of the model's objective at that solution.
\<close>

definition pars_mrp :: pars where
  "pars_mrp = \<lparr>par_n = 1, par_s = 1, par_m = 1, par_C1 = [[1]], par_C2 = [[0]],
     par_C3p = [], par_C3m = [], par_Qp = [[3]], par_Qm = [[1]], par_A = [[1]],
     par_B = [[10]], par_UB = [[0]], par_demand_mean = [[5]]\<rparr>"

definition newsvendor_solver :: solver where
  "newsvendor_solver vs cs obj =
     (case (map_of vs (Var ''X'' [0, 0]), map_of vs (Var ''demand'' [0, 0])) of
        (Some xi, Some di) \<Rightarrow>
          (let d = vi_lb di;
               x = (case vi_ub xi of None \<Rightarrow> min d 10 | Some u \<Rightarrow> u);
               \<sigma> = (\<lambda>v. if v = Var ''X'' [0, 0] then x
                         else if v = Var ''demand'' [0, 0] then d
                         else if v = Var ''Y+'' [0, 0] then max (d - x) 0
                         else if v = Var ''Y-'' [0, 0] then max (x - d) 0
                         else 0)
           in Inr \<lparr>o_status = GRB_OPTIMAL, o_objval = Some (eval \<sigma> obj),
                   o_x = (\<lambda>v. Some (\<sigma> v))\<rparr>)
      | _ \<Rightarrow> Inl GurobiError)"

text \<open>
  A sampler whose generator state is a counter: a draw without a seed gives the counter as
  the demand of every scenario and advances it, a draw with a seed gives the seed. The
  candidate solution produces nothing. The quantile function is constant where it is
  defined (a positive number of degrees of freedom).
\<close>

definition counting_sampler :: "nat sampler" where
  "counting_sampler =
     \<lparr>smp_seeded = (\<lambda>count ps asint k. replicate count [[of_int k]]),
      smp_unseeded = (\<lambda>count ps asint g. (replicate count [[real g]], Suc g))\<rparr>"

definition zero_solution_1x1 :: "real vars1" where
  "zero_solution_1x1 = \<lparr>var_X = [[0]], var_U = [[0]], var_Zp = [], var_Zm = []\<rparr>"

definition w5 :: "nat world" where
  "w5 = \<lparr>w_live = [], w_rng = 5\<rparr>"

definition two_ppf :: "real \<Rightarrow> int \<Rightarrow> real option" where
  "two_ppf alpha df = (if 0 < df then Some 2 else None)"

definition value_of :: "error + expr \<Rightarrow> error + real" where
  "value_of r = bindE r getValue"

section \<open>The gap of one scenario as the specification describes it\<close>

text \<open>
  Written from the specification, for comparison with \<open>mrp_scenario\<close>: the two costs of
  one scenario are each evaluated with the submodel, that of the candidate and that of
  \<open>x_k\<close>. It is \<open>mrp_scenario\<close> with an optimisation pass after the bounds of \<open>sub_X\<close> are
  set to \<open>x_k\<close>, the statement that the comment \<open># solve v(w_k_s, x_k)\<close> announces.
\<close>

definition paired_scenario_spec ::
  "solver \<Rightarrow> pars \<Rightarrow> real vars1 \<Rightarrow> real vars1 \<Rightarrow> expr ndarray \<Rightarrow> expr list list
     \<Rightarrow> real list list list \<Rightarrow> nat \<Rightarrow> nat \<Rightarrow> gmodel \<times> real \<Rightarrow> error + (gmodel \<times> real)" where
  "paired_scenario_spec solve ps solution vars1_k sub_demand sub_X sample S i st =
     (let (sub, G_k) = st
      in bindE (getitem sample i) (\<lambda>sample_i.
         bindE (fix_var sub sub_demand (A2 sample_i)) (\<lambda>sub1.
         bindE (fix_var sub1 (A2 sub_X) (A2 (var_X solution))) (\<lambda>sub2.
         bindE (optimize solve sub2) (\<lambda>sub3.
         bindE (get_1st_stage_objective ps (num_vars1 solution)) (\<lambda>o1.
         bindE (getValue o1) (\<lambda>v1.
         bindE (ObjVal sub3) (\<lambda>r1.
         let a = v1 + r1
         in bindE (fix_var sub3 (A2 sub_X) (A2 (var_X vars1_k))) (\<lambda>sub4.
            bindE (optimize solve sub4) (\<lambda>sub5.
            bindE (get_1st_stage_objective ps (num_vars1 vars1_k)) (\<lambda>o2.
            bindE (getValue o2) (\<lambda>v2.
            bindE (ObjVal sub5) (\<lambda>r2.
            let b = v2 + r2
            in Inr (sub5, G_k + (a - b) / real S))))))))))))))"

text \<open>
  The term one scenario adds to \<open>G_k\<close>, for a loop body run on the submodel that
  \<open>run_MRP\<close> builds for the one-product problem.
\<close>

definition gap_term ::
  "(gmodel \<times> expr list list \<times> expr ndarray \<Rightarrow> error + (gmodel \<times> real)) \<Rightarrow> error + real" where
  "gap_term body =
     bindE (MRP_submodel pars_mrp False 0 (Model ''sub'')) (\<lambda>built.
     bindE (body built) (\<lambda>(sub, G_k). Inr G_k))"

section \<open>Expressions, sums and broadcasting\<close>

lemma eval_foldl_Add: "eval \<sigma> (foldl Add a xs) = eval \<sigma> a + sum_list (map (eval \<sigma>) xs)"
  by (induction xs arbitrary: a) simp_all

lemma eval_np_sum: "eval \<sigma> (np_sum xs) = sum_list (map (eval \<sigma>) xs)"
  by (cases xs) (simp_all add: eval_foldl_Add)

lemma eval_quicksum: "eval \<sigma> (quicksum xs) = sum_list (map (eval \<sigma>) xs)"
  by (simp add: quicksum_def eval_foldl_Add)

lemma seqE_replicate: "seqE (replicate k (Inr r)) = Inr (replicate k r)"
  by (induction k) simp_all

lemma ew3_replicate:
  assumes "0 < S" and "ew2 f c v = Inr r"
  shows "ew3 f [c] (replicate S v) = Inr (replicate S r)"
proof (cases "S = 1")
  case True
  with assms show ?thesis by (simp add: ew3_def bcast_def)
next
  case False
  with assms show ?thesis by (simp add: ew3_def bcast_def seqE_replicate)
qed

lemma sum_list_concat_replicate:
  "sum_list (map g (concat (replicate k xs))) = real k * sum_list (map g xs)"
  by (induction k) (simp_all add: algebra_simps)

lemma concat_concat_replicate:
  "concat (concat (replicate k xs)) = concat (replicate k (concat xs))"
  by (induction k) simp_all

lemma nd_binop_A2_Inr:
  "nd_binop f (A2 a) (A2 b) = Inr t \<Longrightarrow> \<exists>r. t = A2 r \<and> ew2 f a b = Inr r"
  by (cases "ew2 f a b") auto

section \<open>The second-stage objective is the average over the scenarios\<close>

text \<open>
  C5, as amended. \<open>get_2nd_stage_objective\<close> divides the summed shortage and surplus cost
  by the scenario count it reads from the shape: 1 for a 2-D array, the length of the first
  axis for a 3-D one. Hence, whenever it succeeds on a single scenario, it succeeds on
  that scenario replicated \<open>S\<close> times along a new first axis, the summed cost there is \<open>S\<close>
  times the single one, and its result has the same value as the single-scenario result.
  The values are those of exact arithmetic (\<open>eval\<close>): the equality is one of real numbers.
\<close>

theorem second_stage_objective_scenario_average:
  assumes S: "0 < S"
    and single: "get_2nd_stage_objective ps \<lparr>var_Yp = A2 yp, var_Ym = A2 ym\<rparr> = Inr e2"
  shows "\<exists>obj2 obj3.
           e2 = DivBy obj2 1 \<and>
           get_2nd_stage_objective ps
             \<lparr>var_Yp = A3 (replicate S yp), var_Ym = A3 (replicate S ym)\<rparr>
             = Inr (DivBy obj3 (real S)) \<and>
           eval \<sigma> obj3 = real S * eval \<sigma> obj2 \<and>
           eval \<sigma> (DivBy obj3 (real S)) = eval \<sigma> e2"
proof -
  from single obtain t1 where t1: "nd_binop Scale (A2 (par_Qp ps)) (A2 yp) = Inr t1"
    by (cases "nd_binop Scale (A2 (par_Qp ps)) (A2 yp)")
       (simp_all add: get_2nd_stage_objective_def)
  from single t1 obtain t2 where t2: "nd_binop Scale (A2 (par_Qm ps)) (A2 ym) = Inr t2"
    by (cases "nd_binop Scale (A2 (par_Qm ps)) (A2 ym)")
       (simp_all add: get_2nd_stage_objective_def)
  from t1 obtain r1 where r1: "t1 = A2 r1" "ew2 Scale (par_Qp ps) yp = Inr r1"
    using nd_binop_A2_Inr by blast
  from t2 obtain r2 where r2: "t2 = A2 r2" "ew2 Scale (par_Qm ps) ym = Inr r2"
    using nd_binop_A2_Inr by blast
  let ?obj2 = "quicksum [np_sum (concat r1), np_sum (concat r2)]"
  let ?obj3 = "quicksum [np_sum (concat (concat (replicate S r1))),
                         np_sum (concat (concat (replicate S r2)))]"
  have e2: "e2 = DivBy ?obj2 1"
    using single r1 r2 by (simp add: get_2nd_stage_objective_def)
  have three: "get_2nd_stage_objective ps
      \<lparr>var_Yp = A3 (replicate S yp), var_Ym = A3 (replicate S ym)\<rparr> = Inr (DivBy ?obj3 (real S))"
    using S ew3_replicate [OF S r1(2)] ew3_replicate [OF S r2(2)]
    by (simp add: get_2nd_stage_objective_def)
  have sums: "eval \<sigma> ?obj3 = real S * eval \<sigma> ?obj2"
    by (simp add: eval_quicksum eval_np_sum concat_concat_replicate
          sum_list_concat_replicate algebra_simps)
  have "eval \<sigma> (DivBy ?obj3 (real S)) = eval \<sigma> e2"
    using S sums e2 by simp
  with e2 three sums show ?thesis by blast
qed

theorem second_stage_objective_scenario_average_witness:
  "0 < (2::nat) \<and>
   (\<exists>obj2 obj3.
      get_2nd_stage_objective pars_1x1 \<lparr>var_Yp = A2 [[Num 1]], var_Ym = A2 [[Num 0]]\<rparr>
        = Inr (DivBy obj2 1) \<and>
      get_2nd_stage_objective pars_1x1
        \<lparr>var_Yp = A3 (replicate 2 [[Num 1]]), var_Ym = A3 (replicate 2 [[Num 0]])\<rparr>
        = Inr (DivBy obj3 (real (2::nat))) \<and>
      eval (\<lambda>v. 0) obj3 = real (2::nat) * eval (\<lambda>v. 0) obj2)"
proof -
  have h: "get_2nd_stage_objective pars_1x1 \<lparr>var_Yp = A2 [[Num 1]], var_Ym = A2 [[Num 0]]\<rparr>
      = Inr (DivBy (Add (Add (Num 0) (Scale 1 (Num 1))) (Scale 0 (Num 0))) 1)"
    by (simp add: get_2nd_stage_objective_def pars_1x1_def ew2_def ew1_def bcast_def quicksum_def)
  from second_stage_objective_scenario_average [of 2, OF _ h, of "\<lambda>v. 0"] h
  show ?thesis by auto
qed

lemma binade_numeral:
  "binade (numeral k) x =
     (if 2 \<le> x then binade (pred_numeral k) (x / 2) + 1
      else if x < 1 then binade (pred_numeral k) (2 * x) - 1 else 0)"
  by (simp add: numeral_eq_Suc)

text \<open>
  C5 as stated fails for the numbers the code computes with. The shortage and its cost are
  both the double \<open>0.1\<close>. On the single scenario the function returns the double nearest
  to their product. On the scenario replicated 7 times it adds 7 copies of that product,
  rounding each sum, and divides by 7: the result is the next smaller double.
\<close>

theorem second_stage_objective_float_counterexample:
  "float_value_of (get_2nd_stage_objective pars_tenth single_scenario)
     = Inr (5764607523034236 / 2 ^ 59) \<and>
   float_value_of (get_2nd_stage_objective pars_tenth seven_scenarios)
     = Inr (5764607523034235 / 2 ^ 59) \<and>
   (5764607523034236 / 2 ^ 59 :: real) \<noteq> 5764607523034235 / 2 ^ 59"
  by (simp add: float_value_of_def get_2nd_stage_objective_def pars_tenth_def single_scenario_def
        seven_scenarios_def ew3_def ew2_def ew1_def bcast_def quicksum_def round_f64_def tenth_def
        binade_numeral pow2_def rne_def Let_def eval_nat_numeral)

section \<open>Element-wise operations on arrays of fitting shapes\<close>

lemma seqE_map_Inr: "(\<And>x. x \<in> set xs \<Longrightarrow> h x = Inr (g x)) \<Longrightarrow> seqE (map h xs) = Inr (map g xs)"
  by (induction xs) simp_all

lemma ew1_same: "length xs = length ys \<Longrightarrow> ew1 f xs ys = Inr (map2 f xs ys)"
  unfolding ew1_def bcast_def by (simp add: seqE_map_Inr [where g = "\<lambda>(a, b). f a b"] split_def)

lemma shape2_rows: "shape2 a n s \<Longrightarrow> row \<in> set a \<Longrightarrow> length row = s"
  by (simp add: shape2_def list_all_iff)

lemma shape2_length: "shape2 a n s \<Longrightarrow> length a = n"
  by (simp add: shape2_def)

lemma ew2_same:
  assumes "shape2 a n s" "shape2 b n s"
  shows "ew2 f a b = Inr (map2 (map2 f) a b)"
proof -
  have "(\<lambda>(x, y). ew1 f x y) p = Inr ((\<lambda>(x, y). map2 f x y) p)" if "p \<in> set (zip a b)" for p
  proof -
    obtain x y where p: "p = (x, y)" by (cases p)
    with that have "x \<in> set a" "y \<in> set b"
      by (auto dest: set_zip_leftD set_zip_rightD)
    with assms have "length x = length y"
      by (simp add: shape2_rows)
    with p show ?thesis by (simp add: ew1_same)
  qed
  then have "seqE (map (\<lambda>(x, y). ew1 f x y) (zip a b)) = Inr (map (\<lambda>(x, y). map2 f x y) (zip a b))"
    by (rule seqE_map_Inr)
  with assms show ?thesis by (simp add: ew2_def bcast_def shape2_def)
qed

lemma shape2_map2: "shape2 a n s \<Longrightarrow> shape2 b n s \<Longrightarrow> shape2 (map2 (map2 f) a b) n s"
  by (simp add: shape2_def list_all_length)

lemma nth_map2_2: "shape2 a n s \<Longrightarrow> shape2 b n s \<Longrightarrow> j < n \<Longrightarrow> t < s \<Longrightarrow>
   map2 (map2 f) a b ! j ! t = f (a ! j ! t) (b ! j ! t)"
  by (simp add: shape2_def list_all_length)


lemma shape3_elems: "shape3 a S n s \<Longrightarrow> b \<in> set a \<Longrightarrow> shape2 b n s"
  by (simp add: shape3_def list_all_iff)

lemma ew3_same:
  assumes "shape3 a S n s" "shape3 b S n s"
  shows "ew3 f a b = Inr (map2 (map2 (map2 f)) a b)"
proof -
  have "(\<lambda>(x, y). ew2 f x y) p = Inr ((\<lambda>(x, y). map2 (map2 f) x y) p)"
    if "p \<in> set (zip a b)" for p
  proof -
    obtain x y where p: "p = (x, y)" by (cases p)
    with that have "x \<in> set a" "y \<in> set b"
      by (auto dest: set_zip_leftD set_zip_rightD)
    with assms have "shape2 x n s" "shape2 y n s"
      by (auto dest: shape3_elems)
    with p show ?thesis by (simp add: ew2_same)
  qed
  then have "seqE (map (\<lambda>(x, y). ew2 f x y) (zip a b))
      = Inr (map (\<lambda>(x, y). map2 (map2 f) x y) (zip a b))"
    by (rule seqE_map_Inr)
  with assms show ?thesis by (simp add: ew3_def bcast_def shape3_def)
qed

lemma ew3_left:
  assumes "shape2 a n s" "shape3 b S n s"
  shows "ew3 f [a] b = Inr (map (\<lambda>y. map2 (map2 f) a y) b)"
proof (cases "length b = 1")
  case True
  then obtain y where b: "b = [y]" by (cases b) auto
  with assms have "shape2 y n s" by (simp add: shape3_def)
  with assms b show ?thesis by (simp add: ew3_def bcast_def ew2_same)
next
  case False
  have "seqE (map (ew2 f a) b) = Inr (map (\<lambda>y. map2 (map2 f) a y) b)"
    using assms by (intro seqE_map_Inr) (auto dest: shape3_elems simp: ew2_same)
  with False show ?thesis by (auto simp add: ew3_def bcast_def)
qed

lemma ew3_right:
  assumes "shape3 a S n s" "shape2 b n s"
  shows "ew3 f a [b] = Inr (map (\<lambda>x. map2 (map2 f) x b) a)"
proof (cases "length a = 1")
  case True
  then obtain x where a: "a = [x]" by (cases a) auto
  with assms have "shape2 x n s" by (simp add: shape3_def)
  with assms a show ?thesis by (simp add: ew3_def bcast_def ew2_same)
next
  case False
  have "seqE (map (\<lambda>x. ew2 f x b) a) = Inr (map (\<lambda>x. map2 (map2 f) x b) a)"
    using assms by (intro seqE_map_Inr) (auto dest: shape3_elems simp: ew2_same)
  with False show ?thesis by (auto simp add: ew3_def bcast_def)
qed

lemma nd_binop_fits:
  assumes "fits a S n s" "fits b S n s"
  shows "\<exists>c. nd_binop f a b = Inr c \<and> fits c S n s \<and>
             (ndim c = 2 \<longleftrightarrow> ndim a = 2 \<and> ndim b = 2) \<and>
             (\<forall>k<S. \<forall>j<n. \<forall>t<s. nd_get c k j t = f (nd_get a k j t) (nd_get b k j t))"
proof (cases a)
  case a: (A2 x)
  show ?thesis
  proof (cases b)
    case b: (A2 y)
    with a assms show ?thesis
      by (simp add: ew2_same shape2_map2 nth_map2_2)
  next
    case b: (A3 y)
    with a assms have "ew3 f [x] y = Inr (map (\<lambda>y. map2 (map2 f) x y) y)"
      by (simp add: ew3_left)
    with a b assms show ?thesis
      by (auto simp: shape3_def list_all_length shape2_map2 nth_map2_2)
  qed
next
  case a: (A3 x)
  show ?thesis
  proof (cases b)
    case b: (A2 y)
    with a assms have "ew3 f x [y] = Inr (map (\<lambda>x. map2 (map2 f) x y) x)"
      by (simp add: ew3_right)
    with a b assms show ?thesis
      by (auto simp: shape3_def list_all_length shape2_map2 nth_map2_2)
  next
    case b: (A3 y)
    with a assms have "ew3 f x y = Inr (map2 (map2 (map2 f)) x y)"
      by (simp add: ew3_same)
    with a b assms show ?thesis
      by (auto simp: shape3_def list_all_length shape2_map2 nth_map2_2)
  qed
qed

lemma all_concat_shape2:
  assumes "shape2 a n s"
  shows "(\<forall>e\<in>set (concat a). P e) \<longleftrightarrow> (\<forall>j<n. \<forall>t<s. P (a ! j ! t))"
proof -
  have "(\<forall>e\<in>set (concat a). P e) \<longleftrightarrow> (\<forall>row\<in>set a. \<forall>e\<in>set row. P e)" by auto
  also have "\<dots> \<longleftrightarrow> (\<forall>j<length a. \<forall>t<length (a ! j). P (a ! j ! t))"
    by (simp add: all_set_conv_all_nth)
  also have "\<dots> \<longleftrightarrow> (\<forall>j<n. \<forall>t<s. P (a ! j ! t))"
    using assms by (auto simp: shape2_def list_all_length)
  finally show ?thesis .
qed

lemma all_flatten:
  assumes "fits c S n s" "ndim c = 2 \<longrightarrow> S = 1"
  shows "(\<forall>e\<in>set (flatten c). P e) \<longleftrightarrow> (\<forall>k<S. \<forall>j<n. \<forall>t<s. P (nd_get c k j t))"
proof (cases c)
  case (A2 x)
  with assms have "shape2 x n s" "S = 1" by simp_all
  with all_concat_shape2 [of x n s P] A2 show ?thesis by simp
next
  case (A3 x)
  with assms have sh: "shape3 x S n s" by simp
  have "(\<forall>e\<in>set (concat (concat x)). P e) \<longleftrightarrow> (\<forall>b\<in>set x. \<forall>e\<in>set (concat b). P e)" by auto
  also have "\<dots> \<longleftrightarrow> (\<forall>b\<in>set x. \<forall>j<n. \<forall>t<s. P (b ! j ! t))"
    using all_concat_shape2 [OF shape3_elems [OF sh]] by blast
  also have "\<dots> \<longleftrightarrow> (\<forall>k<S. \<forall>j<n. \<forall>t<s. P (x ! k ! j ! t))"
    using sh by (simp add: all_set_conv_all_nth shape3_def)
  finally show ?thesis using A3 by simp
qed

lemma nd_rows_tl_Cons: "nd_rows tl (nd_rows ((#) z) a) = a"
  by (cases a) (simp_all add: comp_def)

lemma length_butlast_Cons: "length (butlast (z # r)) = length r"
  by (simp only: length_butlast) simp

lemma nth_butlast_Cons:
  "t < length r \<Longrightarrow> butlast (z # r) ! t = (if t = 0 then z else r ! (t - 1))"
  by (simp only: nth_butlast length_butlast_Cons) (simp add: nth_Cons')

lemma fits_butlast_Cons:
  "fits a S n s \<Longrightarrow> fits (nd_rows butlast (nd_rows ((#) z) a)) S n s"
  by (cases a)
     (simp_all add: shape2_def shape3_def list_all_length length_butlast_Cons
        del: butlast.simps)

lemma nd_get_butlast_Cons:
  assumes "fits a S n s" "k < S" "j < n" "t < s"
  shows "nd_get (nd_rows butlast (nd_rows ((#) z) a)) k j t
           = (if t = 0 then z else nd_get a k j (t - 1))"
  using assms
  by (cases a)
     (simp_all add: shape2_def shape3_def list_all_length nth_butlast_Cons
        del: butlast.simps)

lemma m_constrs_addVars2: "m_constrs (fst (addVars2 mdl d1 d2 info nm)) = m_constrs mdl"
  by (simp add: addVars2_def)

lemma m_constrs_addVars3: "m_constrs (fst (addVars3 mdl d0 d1 d2 info nm)) = m_constrs mdl"
  by (simp add: addVars3_def)

lemma shape2_addVars2: "shape2 (snd (addVars2 mdl d1 d2 info nm)) d1 d2"
  by (simp add: addVars2_def shape2_def list_all_length)

lemma shape3_addVars3: "shape3 (snd (addVars3 mdl d0 d1 d2 info nm)) d0 d1 d2"
  by (simp add: addVars3_def shape3_def shape2_def list_all_length)

lemma nth_addVars2:
  "i < d1 \<Longrightarrow> j < d2 \<Longrightarrow> snd (addVars2 mdl d1 d2 info nm) ! i ! j = V (Var nm [i, j])"
  by (simp add: addVars2_def)

lemma nth_addVars3:
  "k < d0 \<Longrightarrow> i < d1 \<Longrightarrow> j < d2 \<Longrightarrow>
     snd (addVars3 mdl d0 d1 d2 info nm) ! k ! i ! j = V (Var nm [k, i, j])"
  by (simp add: addVars3_def)

lemma holds_new_constrs:
  "(\<forall>c\<in>set (new_constrs con sn nm). holds \<sigma> c)
     \<longleftrightarrow> (\<forall>e\<in>set con. case sn of LessEqual \<Rightarrow> eval \<sigma> e \<le> 0 | Equal \<Rightarrow> eval \<sigma> e = 0)"
  by (cases sn) (auto simp: new_constrs_def holds_def all_set_conv_all_nth)

lemma demand_array_props:
  assumes "case dopt of None \<Rightarrow> par_n ps = n \<and> par_s ps = s | Some d \<Rightarrow> fits d S n s"
  shows "\<exists>m1 d ret. demand_array mdl ps S dopt = (m1, d, ret) \<and> m_constrs m1 = m_constrs mdl \<and>
           fits d S n s \<and>
           (case dopt of
              Some d0 \<Rightarrow> d = d0 \<and> \<not> ret
            | None \<Rightarrow> ret \<and> (\<forall>k<S. \<forall>j<n. \<forall>t<s.
                 nd_get d k j t = V (Var ''demand'' (if S = 1 then [j, t] else [k, j, t]))))"
proof (cases dopt)
  case None
  with assms have ns: "par_n ps = n" "par_s ps = s" by simp_all
  show ?thesis
  proof (cases "S = 1")
    case True
    with None ns show ?thesis
      using shape2_addVars2 [of mdl n s] m_constrs_addVars2 [of mdl n s] nth_addVars2 [of _ n _ s mdl]
      by (auto simp add: demand_array_def split_def Let_def)
  next
    case False
    with None ns show ?thesis
      using shape3_addVars3 [of mdl S n s] m_constrs_addVars3 [of mdl S n s]
        nth_addVars3 [of _ S _ n _ s mdl]
      by (auto simp add: demand_array_def split_def Let_def)
  qed
next
  case (Some d0)
  with assms show ?thesis by (auto simp add: demand_array_def)
qed

section \<open>The demand balance\<close>

text \<open>
  C1. Let \<open>X\<close> have shape (n, s) and let \<open>Y+\<close>, \<open>Y-\<close> and a given demand be arrays for the
  \<open>S\<close> scenarios the code reads from \<open>Y+\<close> (one for a 2-D array, the length of the first
  axis for a 3-D one). Then \<open>add_2nd_stage_constraints\<close> succeeds, returns the demand
  variables exactly when it created them, and adds only the equality constraints
  \<open>con_demand[i]\<close>. An assignment of the variables satisfies all of them if and only if,
  for every scenario, product and period, \<open>X\<close> plus the surplus \<open>Y-\<close> of the previous period
  (zero at the first period) plus the shortage \<open>Y+\<close> minus the surplus \<open>Y-\<close> equals the
  demand.
\<close>

theorem demand_balance_constraint:
  assumes X: "shape2 (var_X v1) n s"
    and Yp: "fits (var_Yp v2) S n s" and Ym: "fits (var_Ym v2) S n s"
    and S: "S = (if ndim (var_Yp v2) = 2 then 1 else shape0 (var_Yp v2))"
    and dem: "case dopt of None \<Rightarrow> par_n ps = n \<and> par_s ps = s | Some d \<Rightarrow> fits d S n s"
  shows "\<exists>mdl' ret d con.
      add_2nd_stage_constraints mdl ps v1 v2 dopt = Inr (mdl', ret) \<and>
      (case dopt of
         Some d0 \<Rightarrow> d = d0 \<and> ret = None
       | None \<Rightarrow> ret = Some d \<and>
           (\<forall>k<S. \<forall>j<n. \<forall>t<s.
              nd_get d k j t = V (Var ''demand'' (if S = 1 then [j, t] else [k, j, t])))) \<and>
      m_constrs mdl' = m_constrs mdl @ new_constrs con Equal ''con_demand'' \<and>
      (\<forall>\<sigma>. (\<forall>c\<in>set (new_constrs con Equal ''con_demand''). holds \<sigma> c) \<longleftrightarrow>
           (\<forall>k<S. \<forall>j<n. \<forall>t<s.
              eval \<sigma> (var_X v1 ! j ! t)
                + (if t = 0 then 0 else eval \<sigma> (nd_get (var_Ym v2) k j (t - 1)))
                + eval \<sigma> (nd_get (var_Yp v2) k j t) - eval \<sigma> (nd_get (var_Ym v2) k j t)
              = eval \<sigma> (nd_get d k j t)))"
proof -
  let ?Ym0 = "nd_rows ((#) (Num 0)) (var_Ym v2)"
  obtain m1 d ret where da: "demand_array mdl ps S dopt = (m1, d, ret)"
    and m1: "m_constrs m1 = m_constrs mdl" and d: "fits d S n s"
    and dcase: "case dopt of
              Some d0 \<Rightarrow> d = d0 \<and> \<not> ret
            | None \<Rightarrow> ret \<and> (\<forall>k<S. \<forall>j<n. \<forall>t<s.
                 nd_get d k j t = V (Var ''demand'' (if S = 1 then [j, t] else [k, j, t])))"
    using demand_array_props [OF dem, of mdl] by blast
  have fX: "fits (A2 (var_X v1)) S n s" using X by simp
  have fA: "fits (nd_rows butlast ?Ym0) S n s" using Ym by (rule fits_butlast_Cons)
  obtain c1 where c1: "nd_binop Add (A2 (var_X v1)) (nd_rows butlast ?Ym0) = Inr c1"
    and f1: "fits c1 S n s"
    and g1: "\<forall>k<S. \<forall>j<n. \<forall>t<s. nd_get c1 k j t
               = Add (nd_get (A2 (var_X v1)) k j t) (nd_get (nd_rows butlast ?Ym0) k j t)"
    using nd_binop_fits [OF fX fA, of Add] by blast
  obtain c2 where c2: "nd_binop Add c1 (var_Yp v2) = Inr c2"
    and f2: "fits c2 S n s"
    and r2: "ndim c2 = 2 \<longleftrightarrow> ndim c1 = 2 \<and> ndim (var_Yp v2) = 2"
    and g2: "\<forall>k<S. \<forall>j<n. \<forall>t<s. nd_get c2 k j t = Add (nd_get c1 k j t) (nd_get (var_Yp v2) k j t)"
    using nd_binop_fits [OF f1 Yp, of Add] by blast
  obtain c3 where c3: "nd_binop Sub c2 (var_Ym v2) = Inr c3"
    and f3: "fits c3 S n s"
    and r3: "ndim c3 = 2 \<longleftrightarrow> ndim c2 = 2 \<and> ndim (var_Ym v2) = 2"
    and g3: "\<forall>k<S. \<forall>j<n. \<forall>t<s. nd_get c3 k j t = Sub (nd_get c2 k j t) (nd_get (var_Ym v2) k j t)"
    using nd_binop_fits [OF f2 Ym, of Sub] by blast
  obtain con where c4: "nd_binop Sub c3 d = Inr con"
    and f4: "fits con S n s"
    and r4: "ndim con = 2 \<longleftrightarrow> ndim c3 = 2 \<and> ndim d = 2"
    and g4: "\<forall>k<S. \<forall>j<n. \<forall>t<s. nd_get con k j t = Sub (nd_get c3 k j t) (nd_get d k j t)"
    using nd_binop_fits [OF f3 d, of Sub] by blast
  let ?new = "new_constrs (flatten con) Equal ''con_demand''"
  let ?mdl' = "addConstrs m1 (flatten con) Equal ''con_demand''"
  have run: "add_2nd_stage_constraints mdl ps v1 v2 dopt
               = Inr (?mdl', if ret then Some d else None)"
    using da c1 c2 c3 c4 S
    by (simp add: add_2nd_stage_constraints_def demand_array_def nd_rows_tl_Cons Let_def)
  have constrs: "m_constrs ?mdl' = m_constrs mdl @ ?new"
    by (simp add: addConstrs_def m1)
  have rank: "ndim con = 2 \<longrightarrow> S = 1" using r4 r3 r2 S by simp
  have sem: "(\<forall>c\<in>set ?new. holds \<sigma> c) \<longleftrightarrow>
           (\<forall>k<S. \<forall>j<n. \<forall>t<s.
              eval \<sigma> (var_X v1 ! j ! t)
                + (if t = 0 then 0 else eval \<sigma> (nd_get (var_Ym v2) k j (t - 1)))
                + eval \<sigma> (nd_get (var_Yp v2) k j t) - eval \<sigma> (nd_get (var_Ym v2) k j t)
              = eval \<sigma> (nd_get d k j t))" for \<sigma>
  proof -
    have "(\<forall>c\<in>set ?new. holds \<sigma> c) \<longleftrightarrow> (\<forall>e\<in>set (flatten con). eval \<sigma> e = 0)"
      by (simp add: holds_new_constrs)
    also have "\<dots> \<longleftrightarrow> (\<forall>k<S. \<forall>j<n. \<forall>t<s. eval \<sigma> (nd_get con k j t) = 0)"
      by (rule all_flatten [OF f4 rank])
    also have "\<dots> \<longleftrightarrow> (\<forall>k<S. \<forall>j<n. \<forall>t<s.
              eval \<sigma> (var_X v1 ! j ! t)
                + (if t = 0 then 0 else eval \<sigma> (nd_get (var_Ym v2) k j (t - 1)))
                + eval \<sigma> (nd_get (var_Yp v2) k j t) - eval \<sigma> (nd_get (var_Ym v2) k j t)
              = eval \<sigma> (nd_get d k j t))"
      using g1 g2 g3 g4 nd_get_butlast_Cons [OF Ym]
      by (auto simp: algebra_simps)
    finally show ?thesis .
  qed
  have ret: "case dopt of
         Some d0 \<Rightarrow> d = d0 \<and> (if ret then Some d else None) = None
       | None \<Rightarrow> (if ret then Some d else None) = Some d \<and>
           (\<forall>k<S. \<forall>j<n. \<forall>t<s.
              nd_get d k j t = V (Var ''demand'' (if S = 1 then [j, t] else [k, j, t])))"
    using dcase by (cases dopt) simp_all
  from run ret constrs sem show ?thesis by blast
qed

theorem demand_balance_constraint_witness:
  "shape2 (var_X vars1_1x2) 1 2 \<and> fits (var_Yp vars2_2x1x2) 2 1 2 \<and>
   fits (var_Ym vars2_2x1x2) 2 1 2 \<and>
   (\<exists>mdl' d con.
      add_2nd_stage_constraints (Model ''LSDE'') pars_1x2 vars1_1x2 vars2_2x1x2 None
        = Inr (mdl', Some d) \<and>
      (\<forall>\<sigma>. (\<forall>c\<in>set (m_constrs mdl'). holds \<sigma> c) \<longrightarrow>
           \<sigma> (Var ''X'' [0, 1]) + \<sigma> (Var ''Y-'' [1, 0, 0]) + \<sigma> (Var ''Y+'' [1, 0, 1])
             - \<sigma> (Var ''Y-'' [1, 0, 1]) = \<sigma> (Var ''demand'' [1, 0, 1])))"
proof -
  have h1: "shape2 (var_X vars1_1x2) 1 2"
    by (simp add: vars1_1x2_def shape2_def)
  have h2: "fits (var_Yp vars2_2x1x2) 2 1 2"
    by (simp add: vars2_2x1x2_def shape3_def shape2_def)
  have h3: "fits (var_Ym vars2_2x1x2) 2 1 2"
    by (simp add: vars2_2x1x2_def shape3_def shape2_def)
  have h4: "(2::nat) = (if ndim (var_Yp vars2_2x1x2) = 2 then 1 else shape0 (var_Yp vars2_2x1x2))"
    by (simp add: vars2_2x1x2_def)
  have h5: "case None of None \<Rightarrow> par_n pars_1x2 = 1 \<and> par_s pars_1x2 = 2
            | Some d \<Rightarrow> fits (d :: expr ndarray) 2 1 2"
    by (simp add: pars_1x2_def)
  from demand_balance_constraint [OF h1 h2 h3 h4 h5, of "Model ''LSDE''"]
  obtain mdl' ret d con where
    run: "add_2nd_stage_constraints (Model ''LSDE'') pars_1x2 vars1_1x2 vars2_2x1x2 None
        = Inr (mdl', ret)"
    and ret: "ret = Some d"
    and dv: "\<forall>k<2. \<forall>j<1. \<forall>t<2. nd_get d k j t = V (Var ''demand'' (if (2::nat) = 1 then [j, t] else [k, j, t]))"
    and cs: "m_constrs mdl' = m_constrs (Model ''LSDE'') @ new_constrs con Equal ''con_demand''"
    and sem: "\<And>\<sigma>. (\<forall>c\<in>set (new_constrs con Equal ''con_demand''). holds \<sigma> c) \<longleftrightarrow>
           (\<forall>k<2. \<forall>j<1. \<forall>t<2.
              eval \<sigma> (var_X vars1_1x2 ! j ! t)
                + (if t = 0 then 0 else eval \<sigma> (nd_get (var_Ym vars2_2x1x2) k j (t - 1)))
                + eval \<sigma> (nd_get (var_Yp vars2_2x1x2) k j t) - eval \<sigma> (nd_get (var_Ym vars2_2x1x2) k j t)
              = eval \<sigma> (nd_get d k j t))"
    by auto
  have "\<sigma> (Var ''X'' [0, 1]) + \<sigma> (Var ''Y-'' [1, 0, 0]) + \<sigma> (Var ''Y+'' [1, 0, 1])
             - \<sigma> (Var ''Y-'' [1, 0, 1]) = \<sigma> (Var ''demand'' [1, 0, 1])"
    if "\<forall>c\<in>set (m_constrs mdl'). holds \<sigma> c" for \<sigma>
  proof -
    from that cs sem [of \<sigma>] have "\<forall>k<2. \<forall>j<1. \<forall>t<2.
              eval \<sigma> (var_X vars1_1x2 ! j ! t)
                + (if t = 0 then 0 else eval \<sigma> (nd_get (var_Ym vars2_2x1x2) k j (t - 1)))
                + eval \<sigma> (nd_get (var_Yp vars2_2x1x2) k j t) - eval \<sigma> (nd_get (var_Ym vars2_2x1x2) k j t)
              = eval \<sigma> (nd_get d k j t)"
      by (simp add: Model_def)
    then have "eval \<sigma> (var_X vars1_1x2 ! 0 ! 1)
                + (if (1::nat) = 0 then 0 else eval \<sigma> (nd_get (var_Ym vars2_2x1x2) 1 0 (1 - 1)))
                + eval \<sigma> (nd_get (var_Yp vars2_2x1x2) 1 0 1) - eval \<sigma> (nd_get (var_Ym vars2_2x1x2) 1 0 1)
              = eval \<sigma> (nd_get d 1 0 1)"
      by (metis one_less_numeral_iff semiring_norm(76) zero_less_one)
    moreover from dv have "nd_get d 1 0 1 = V (Var ''demand'' [1, 0, 1])"
      by simp
    ultimately show ?thesis
      by (simp add: vars1_1x2_def vars2_2x1x2_def)
  qed
  with h1 h2 h3 run ret show ?thesis by blast
qed

section \<open>Matrix products\<close>

lemma length_col: "length (col a t) = length a"
  by (simp add: col_def)

lemma nth_col: "j < length a \<Longrightarrow> col a t ! j = a ! j ! t"
  by (simp add: col_def)

lemma np_T_shape2: "shape2 a n s \<Longrightarrow> 0 < n \<Longrightarrow> np_T a = map (col a) [0..<s]"
  by (cases a) (auto simp: np_T_def shape2_def)

lemma eval_dot:
  assumes "length w = n" "length c = n"
  shows "eval \<sigma> (np_sum (map2 Scale w c)) = (\<Sum>j<n. w ! j * eval \<sigma> (c ! j))"
proof -
  have "eval \<sigma> (np_sum (map2 Scale w c)) = sum_list (map (eval \<sigma>) (map2 Scale w c))"
    by (rule eval_np_sum)
  also have "\<dots> = (\<Sum>j = 0..<n. map (eval \<sigma>) (map2 Scale w c) ! j)"
    using assms by (simp add: sum_list_sum_nth)
  also have "\<dots> = (\<Sum>j = 0..<n. w ! j * eval \<sigma> (c ! j))"
    using assms by (intro sum.cong) simp_all
  finally show ?thesis by (simp add: atLeast0LessThan)
qed

lemma matmul_T:
  assumes A: "shape2 a n m" and X: "shape2 x n s" and n: "0 < n"
  shows "matmul (np_T a) x
           = Inr (map (\<lambda>r. map (\<lambda>t. np_sum (map2 Scale (col a r) (col x t))) [0..<s]) [0..<m])"
proof (cases "m = 0")
  case True
  with A n show ?thesis by (simp add: matmul_def np_T_shape2)
next
  case False
  then have "hd (map (col a) [0..<m]) = col a 0"
    by (simp add: hd_map upt_conv_Cons)
  with A X n False show ?thesis
    by (simp add: matmul_def np_T_shape2 length_col shape2_length)
qed

lemma shape2_map_map: "shape2 (map (\<lambda>r. map (g r) [0..<s]) [0..<m]) m s"
  by (simp add: shape2_def list_all_length)

lemma shape2_tl: "shape2 x n s \<Longrightarrow> shape2 (map tl x) n (s - 1)"
  by (simp add: shape2_def list_all_length)

lemma shape2_butlast: "shape2 x n s \<Longrightarrow> shape2 (map butlast x) n (s - 1)"
  by (simp add: shape2_def list_all_length)

lemma last_col_shape2:
  "shape2 a n m \<Longrightarrow> 0 < m \<Longrightarrow> last_col a = Inr (map (\<lambda>row. row ! (m - 1)) a)"
  by (auto simp: last_col_def shape2_def list_all_iff list_ex_iff last_conv_nth)

lemma vecmat_shape2:
  assumes "length w = n" "shape2 d n s'" "0 < n"
  shows "vecmat w d = Inr (map (\<lambda>t. np_sum (map2 Scale w (col d t))) [0..<s'])"
  using assms by (simp add: vecmat_def np_T_shape2 shape2_length)


lemma length_concat_rows:
  "\<forall>row\<in>set a. length row = s \<Longrightarrow> length (concat a) = length a * s"
  by (induction a) simp_all

lemma length_concat_shape2: "shape2 a n s \<Longrightarrow> length (concat a) = n * s"
  using length_concat_rows [of a s] by (simp add: shape2_def list_all_iff)

section \<open>The first-stage constraints\<close>

text \<open>
  C2. For parameters and variables of the shapes the code builds (\<open>A\<close> of shape (n, m),
  \<open>B\<close>, \<open>UB\<close> and \<open>U\<close> of shape (m, s), \<open>X\<close> of shape (n, s), \<open>Z+\<close> and \<open>Z-\<close> of length
  s - 1), \<open>add_1st_stage_constraints\<close> succeeds and adds exactly three families of
  constraints, leaving the rest of the model as it is:
  \<^item> \<open>con_product\<close>, one per resource and period: the consumption, the transpose of \<open>A\<close>
    applied to \<open>X\<close>, is at most \<open>B\<close> plus \<open>U\<close>;
  \<^item> \<open>con_work\<close>, one per pair of consecutive periods: \<open>Z+\<close> minus \<open>Z-\<close> equals the
    consumption row of the last resource (the workforce) applied to the change of \<open>X\<close>
    from one period to the next;
  \<^item> \<open>con_extracap\<close>, one per resource and period: \<open>U\<close> is at most \<open>UB\<close>.
\<close>

theorem first_stage_constraints:
  assumes n: "0 < n" and m: "0 < m"
    and A: "shape2 (par_A ps) n m" and B: "shape2 (par_B ps) m s"
    and UB: "shape2 (par_UB ps) m s"
    and X: "shape2 (var_X vs) n s" and U: "shape2 (var_U vs) m s"
    and Zp: "length (var_Zp vs) = s - 1" and Zm: "length (var_Zm vs) = s - 1"
  shows "\<exists>mdl' con1 con2 con3.
     add_1st_stage_constraints mdl ps vs = Inr mdl' \<and>
     m_constrs mdl' = m_constrs mdl @ new_constrs con1 LessEqual ''con_product''
        @ new_constrs con2 Equal ''con_work'' @ new_constrs con3 LessEqual ''con_extracap'' \<and>
     m_vars mdl' = m_vars mdl \<and> m_objective mdl' = m_objective mdl \<and>
     length con1 = m * s \<and> length con2 = s - 1 \<and> length con3 = m * s \<and>
     (\<forall>\<sigma>.
        ((\<forall>c\<in>set (new_constrs con1 LessEqual ''con_product''). holds \<sigma> c) \<longleftrightarrow>
           (\<forall>r<m. \<forall>t<s. (\<Sum>j<n. par_A ps ! j ! r * eval \<sigma> (var_X vs ! j ! t))
                             \<le> par_B ps ! r ! t + eval \<sigma> (var_U vs ! r ! t))) \<and>
        ((\<forall>c\<in>set (new_constrs con2 Equal ''con_work''). holds \<sigma> c) \<longleftrightarrow>
           (\<forall>t<s - 1. eval \<sigma> (var_Zp vs ! t) - eval \<sigma> (var_Zm vs ! t)
                 = (\<Sum>j<n. par_A ps ! j ! (m - 1)
                        * (eval \<sigma> (var_X vs ! j ! (t + 1)) - eval \<sigma> (var_X vs ! j ! t))))) \<and>
        ((\<forall>c\<in>set (new_constrs con3 LessEqual ''con_extracap''). holds \<sigma> c) \<longleftrightarrow>
           (\<forall>r<m. \<forall>t<s. eval \<sigma> (var_U vs ! r ! t) \<le> par_UB ps ! r ! t)))"
proof -
  let ?A = "par_A ps" and ?B = "par_B ps" and ?UB = "par_UB ps"
  let ?X = "var_X vs" and ?U = "var_U vs" and ?Zp = "var_Zp vs" and ?Zm = "var_Zm vs"
  let ?AX = "map (\<lambda>r. map (\<lambda>t. np_sum (map2 Scale (col ?A r) (col ?X t))) [0..<s]) [0..<m]"
  let ?c1 = "map2 (map2 (\<lambda>e b. Sub e (Num b))) ?AX ?B"
  let ?con1 = "map2 (map2 Sub) ?c1 ?U"
  let ?z = "map2 Sub ?Zp ?Zm"
  let ?w = "map (\<lambda>row. row ! (m - 1)) ?A"
  let ?dX = "map2 (map2 Sub) (map tl ?X) (map butlast ?X)"
  let ?wd = "map (\<lambda>t. np_sum (map2 Scale ?w (col ?dX t))) [0..<s - 1]"
  let ?con2 = "map2 Sub ?z ?wd"
  let ?con3 = "map2 (map2 (\<lambda>u b. Sub u (Num b))) ?U ?UB"
  have sAX: "shape2 ?AX m s" by (rule shape2_map_map)
  have sc1: "shape2 ?c1 m s" using sAX B by (rule shape2_map2)
  have scon1: "shape2 ?con1 m s" using sc1 U by (rule shape2_map2)
  have sdX: "shape2 ?dX n (s - 1)"
    using shape2_tl [OF X] shape2_butlast [OF X] by (rule shape2_map2)
  have scon3: "shape2 ?con3 m s" using U UB by (rule shape2_map2)
  have e1: "matmul (np_T ?A) ?X = Inr ?AX" using A X n by (rule matmul_T)
  have e2: "ew2 (\<lambda>e b. Sub e (Num b)) ?AX ?B = Inr ?c1" using sAX B by (rule ew2_same)
  have e3: "ew2 Sub ?c1 ?U = Inr ?con1" using sc1 U by (rule ew2_same)
  have e4: "ew1 Sub ?Zp ?Zm = Inr ?z" using Zp Zm by (simp add: ew1_same)
  have e5: "last_col ?A = Inr ?w" using A m by (rule last_col_shape2)
  have e6: "ew2 Sub (map tl ?X) (map butlast ?X) = Inr ?dX"
    using shape2_tl [OF X] shape2_butlast [OF X] by (rule ew2_same)
  have lw: "length ?w = n" using A by (simp add: shape2_length)
  have e7: "vecmat ?w ?dX = Inr ?wd" using lw sdX n by (rule vecmat_shape2)
  have e8: "ew1 Sub ?z ?wd = Inr ?con2" using Zp Zm by (simp add: ew1_same)
  have e9: "ew2 (\<lambda>u b. Sub u (Num b)) ?U ?UB = Inr ?con3" using U UB by (rule ew2_same)
  let ?mdl' = "addConstrs (addConstrs (addConstrs mdl (concat ?con1) LessEqual ''con_product'')
                 ?con2 Equal ''con_work'') (concat ?con3) LessEqual ''con_extracap''"
  have run: "add_1st_stage_constraints mdl ps vs = Inr ?mdl'"
    by (simp only: add_1st_stage_constraints_def e1 e2 e3 e4 e5 e6 e7 e8 e9 Let_def bindE.simps)
  have cs: "m_constrs ?mdl' = m_constrs mdl @ new_constrs (concat ?con1) LessEqual ''con_product''
        @ new_constrs ?con2 Equal ''con_work'' @ new_constrs (concat ?con3) LessEqual ''con_extracap''"
    by (simp add: addConstrs_def)
  have rest: "m_vars ?mdl' = m_vars mdl" "m_objective ?mdl' = m_objective mdl"
    by (simp_all add: addConstrs_def)
  have l1: "length (concat ?con1) = m * s" using scon1 by (rule length_concat_shape2)
  have l2: "length ?con2 = s - 1" using Zp Zm by simp
  have l3: "length (concat ?con3) = m * s" using scon3 by (rule length_concat_shape2)
  have AXe: "eval \<sigma> (?AX ! r ! t) = (\<Sum>j<n. ?A ! j ! r * eval \<sigma> (?X ! j ! t))"
    if "r < m" "t < s" for \<sigma> r t
  proof -
    have "eval \<sigma> (?AX ! r ! t) = eval \<sigma> (np_sum (map2 Scale (col ?A r) (col ?X t)))"
      using that by simp
    also have "\<dots> = (\<Sum>j<n. col ?A r ! j * eval \<sigma> (col ?X t ! j))"
      using A X by (intro eval_dot) (simp_all add: length_col shape2_length)
    also have "\<dots> = (\<Sum>j<n. ?A ! j ! r * eval \<sigma> (?X ! j ! t))"
      using A X by (intro sum.cong) (simp_all add: nth_col shape2_length)
    finally show ?thesis .
  qed
  have s1: "(\<forall>c\<in>set (new_constrs (concat ?con1) LessEqual ''con_product''). holds \<sigma> c) \<longleftrightarrow>
           (\<forall>r<m. \<forall>t<s. (\<Sum>j<n. ?A ! j ! r * eval \<sigma> (?X ! j ! t))
                             \<le> ?B ! r ! t + eval \<sigma> (?U ! r ! t))" for \<sigma>
  proof -
    have "(\<forall>c\<in>set (new_constrs (concat ?con1) LessEqual ''con_product''). holds \<sigma> c)
            \<longleftrightarrow> (\<forall>e\<in>set (concat ?con1). eval \<sigma> e \<le> 0)"
      by (simp add: holds_new_constrs)
    also have "\<dots> \<longleftrightarrow> (\<forall>r<m. \<forall>t<s. eval \<sigma> (?con1 ! r ! t) \<le> 0)"
      using scon1 by (rule all_concat_shape2)
    also have "\<dots> \<longleftrightarrow> (\<forall>r<m. \<forall>t<s.
         eval \<sigma> (Sub (Sub (?AX ! r ! t) (Num (?B ! r ! t))) (?U ! r ! t)) \<le> 0)"
      using nth_map2_2 [OF sc1 U, of _ _ Sub]
        nth_map2_2 [OF sAX B, of _ _ "\<lambda>e b. Sub e (Num b)"] by simp
    also have "\<dots> \<longleftrightarrow> (\<forall>r<m. \<forall>t<s. (\<Sum>j<n. ?A ! j ! r * eval \<sigma> (?X ! j ! t))
                             \<le> ?B ! r ! t + eval \<sigma> (?U ! r ! t))"
      using AXe [of _ _ \<sigma>] by (auto simp: algebra_simps)
    finally show ?thesis .
  qed
  have dXe: "?dX ! j ! t = Sub (?X ! j ! (t + 1)) (?X ! j ! t)" if "j < n" "t < s - 1" for j t
  proof -
    have "?dX ! j ! t = Sub (map tl ?X ! j ! t) (map butlast ?X ! j ! t)"
      using nth_map2_2 [OF shape2_tl [OF X] shape2_butlast [OF X] that, of Sub] .
    moreover have "length (?X ! j) = s" using X that by (simp add: shape2_def list_all_length)
    ultimately show ?thesis
      using X that by (simp add: shape2_length nth_tl nth_butlast)
  qed
  have wde: "eval \<sigma> (?wd ! t) = (\<Sum>j<n. ?A ! j ! (m - 1)
                        * (eval \<sigma> (?X ! j ! (t + 1)) - eval \<sigma> (?X ! j ! t)))"
    if "t < s - 1" for \<sigma> t
  proof -
    have "eval \<sigma> (?wd ! t) = eval \<sigma> (np_sum (map2 Scale ?w (col ?dX t)))"
      using that by simp
    also have "\<dots> = (\<Sum>j<n. ?w ! j * eval \<sigma> (col ?dX t ! j))"
      using lw shape2_length [OF sdX] by (intro eval_dot) (simp_all only: length_col)
    also have "\<dots> = (\<Sum>j<n. ?A ! j ! (m - 1)
                        * (eval \<sigma> (?X ! j ! (t + 1)) - eval \<sigma> (?X ! j ! t)))"
    proof (intro sum.cong refl)
      fix j assume "j \<in> {..<n}"
      then have j: "j < n" by simp
      with shape2_length [OF sdX] have "j < length ?dX" by (simp only:)
      then have "col ?dX t ! j = ?dX ! j ! t"
        by (rule nth_col)
      with dXe [OF j that] A j
      show "?w ! j * eval \<sigma> (col ?dX t ! j) = ?A ! j ! (m - 1)
                        * (eval \<sigma> (?X ! j ! (t + 1)) - eval \<sigma> (?X ! j ! t))"
        by (simp add: shape2_length)
    qed
    finally show ?thesis .
  qed
  have s2: "(\<forall>c\<in>set (new_constrs ?con2 Equal ''con_work''). holds \<sigma> c) \<longleftrightarrow>
           (\<forall>t<s - 1. eval \<sigma> (?Zp ! t) - eval \<sigma> (?Zm ! t)
                 = (\<Sum>j<n. ?A ! j ! (m - 1)
                        * (eval \<sigma> (?X ! j ! (t + 1)) - eval \<sigma> (?X ! j ! t))))" for \<sigma>
  proof -
    have "(\<forall>c\<in>set (new_constrs ?con2 Equal ''con_work''). holds \<sigma> c)
            \<longleftrightarrow> (\<forall>e\<in>set ?con2. eval \<sigma> e = 0)"
      by (simp add: holds_new_constrs)
    also have "\<dots> \<longleftrightarrow> (\<forall>t<s - 1. eval \<sigma> (?con2 ! t) = 0)"
      using l2 by (simp only: all_set_conv_all_nth)
    also have "\<dots> \<longleftrightarrow> (\<forall>t<s - 1. eval \<sigma> (Sub (Sub (?Zp ! t) (?Zm ! t)) (?wd ! t)) = 0)"
      using Zp Zm by simp
    also have "\<dots> \<longleftrightarrow> (\<forall>t<s - 1. eval \<sigma> (?Zp ! t) - eval \<sigma> (?Zm ! t)
                 = (\<Sum>j<n. ?A ! j ! (m - 1)
                        * (eval \<sigma> (?X ! j ! (t + 1)) - eval \<sigma> (?X ! j ! t))))"
      using wde [of _ \<sigma>] by auto
    finally show ?thesis .
  qed
  have s3: "(\<forall>c\<in>set (new_constrs (concat ?con3) LessEqual ''con_extracap''). holds \<sigma> c) \<longleftrightarrow>
           (\<forall>r<m. \<forall>t<s. eval \<sigma> (?U ! r ! t) \<le> ?UB ! r ! t)" for \<sigma>
  proof -
    have "(\<forall>c\<in>set (new_constrs (concat ?con3) LessEqual ''con_extracap''). holds \<sigma> c)
            \<longleftrightarrow> (\<forall>e\<in>set (concat ?con3). eval \<sigma> e \<le> 0)"
      by (simp add: holds_new_constrs)
    also have "\<dots> \<longleftrightarrow> (\<forall>r<m. \<forall>t<s. eval \<sigma> (?con3 ! r ! t) \<le> 0)"
      using scon3 by (rule all_concat_shape2)
    also have "\<dots> \<longleftrightarrow> (\<forall>r<m. \<forall>t<s. eval \<sigma> (?U ! r ! t) \<le> ?UB ! r ! t)"
      using nth_map2_2 [OF U UB, of _ _ "\<lambda>u b. Sub u (Num b)"] by simp
    finally show ?thesis .
  qed
  from run cs rest l1 l2 l3 s1 s2 s3 show ?thesis by blast
qed

theorem first_stage_constraints_witness:
  "(0::nat) < 1 \<and> shape2 (par_A pars_1x2) 1 1 \<and> shape2 (par_B pars_1x2) 1 2 \<and>
   shape2 (par_UB pars_1x2) 1 2 \<and> shape2 (var_X vars1_1x2) 1 2 \<and>
   shape2 (var_U vars1_1x2) 1 2 \<and>
   length (var_Zp vars1_1x2) = 2 - 1 \<and> length (var_Zm vars1_1x2) = 2 - 1 \<and>
   (\<exists>mdl'. add_1st_stage_constraints (Model ''EV'') pars_1x2 vars1_1x2 = Inr mdl' \<and>
      length (m_constrs mdl') = 5 \<and>
      (\<forall>\<sigma>. (\<forall>c\<in>set (m_constrs mdl'). holds \<sigma> c) \<longrightarrow>
           \<sigma> (Var ''X'' [0, 0]) \<le> 10 + \<sigma> (Var ''U'' [0, 0]) \<and>
           \<sigma> (Var ''Z+'' [0]) - \<sigma> (Var ''Z-'' [0])
              = \<sigma> (Var ''X'' [0, 1]) - \<sigma> (Var ''X'' [0, 0]) \<and>
           \<sigma> (Var ''U'' [0, 1]) \<le> 0))"
proof -
  have h0: "(0::nat) < 1" by simp
  have hA: "shape2 (par_A pars_1x2) 1 1" by (simp add: pars_1x2_def shape2_def)
  have hB: "shape2 (par_B pars_1x2) 1 2" by (simp add: pars_1x2_def shape2_def)
  have hUB: "shape2 (par_UB pars_1x2) 1 2" by (simp add: pars_1x2_def shape2_def)
  have hX: "shape2 (var_X vars1_1x2) 1 2" by (simp add: vars1_1x2_def shape2_def)
  have hU: "shape2 (var_U vars1_1x2) 1 2" by (simp add: vars1_1x2_def shape2_def)
  have hZp: "length (var_Zp vars1_1x2) = 2 - 1" by (simp add: vars1_1x2_def)
  have hZm: "length (var_Zm vars1_1x2) = 2 - 1" by (simp add: vars1_1x2_def)
  note T = first_stage_constraints [OF h0 h0 hA hB hUB hX hU hZp hZm, of "Model ''EV''"]
  from T obtain mdl' where "\<exists>con1 con2 con3.
     add_1st_stage_constraints (Model ''EV'') pars_1x2 vars1_1x2 = Inr mdl' \<and>
     m_constrs mdl' = m_constrs (Model ''EV'') @ new_constrs con1 LessEqual ''con_product''
        @ new_constrs con2 Equal ''con_work'' @ new_constrs con3 LessEqual ''con_extracap'' \<and>
     m_vars mdl' = m_vars (Model ''EV'') \<and> m_objective mdl' = m_objective (Model ''EV'') \<and>
     length con1 = 1 * 2 \<and> length con2 = 2 - 1 \<and> length con3 = 1 * 2 \<and>
     (\<forall>\<sigma>.
        ((\<forall>c\<in>set (new_constrs con1 LessEqual ''con_product''). holds \<sigma> c) \<longleftrightarrow>
           (\<forall>r<1. \<forall>t<2. (\<Sum>j<1. par_A pars_1x2 ! j ! r * eval \<sigma> (var_X vars1_1x2 ! j ! t))
                             \<le> par_B pars_1x2 ! r ! t + eval \<sigma> (var_U vars1_1x2 ! r ! t))) \<and>
        ((\<forall>c\<in>set (new_constrs con2 Equal ''con_work''). holds \<sigma> c) \<longleftrightarrow>
           (\<forall>t<2 - 1. eval \<sigma> (var_Zp vars1_1x2 ! t) - eval \<sigma> (var_Zm vars1_1x2 ! t)
                 = (\<Sum>j<1. par_A pars_1x2 ! j ! (1 - 1)
                        * (eval \<sigma> (var_X vars1_1x2 ! j ! (t + 1)) - eval \<sigma> (var_X vars1_1x2 ! j ! t))))) \<and>
        ((\<forall>c\<in>set (new_constrs con3 LessEqual ''con_extracap''). holds \<sigma> c) \<longleftrightarrow>
           (\<forall>r<1. \<forall>t<2. eval \<sigma> (var_U vars1_1x2 ! r ! t) \<le> par_UB pars_1x2 ! r ! t)))" ..
  then obtain con1 con2 con3 where
    run: "add_1st_stage_constraints (Model ''EV'') pars_1x2 vars1_1x2 = Inr mdl'"
    and cs: "m_constrs mdl' = m_constrs (Model ''EV'') @ new_constrs con1 LessEqual ''con_product''
        @ new_constrs con2 Equal ''con_work'' @ new_constrs con3 LessEqual ''con_extracap''"
    and len: "length con1 = 1 * 2" "length con2 = 2 - 1" "length con3 = 1 * 2"
    and sem: "\<forall>\<sigma>.
        ((\<forall>c\<in>set (new_constrs con1 LessEqual ''con_product''). holds \<sigma> c) \<longleftrightarrow>
           (\<forall>r<1. \<forall>t<2. (\<Sum>j<1. par_A pars_1x2 ! j ! r * eval \<sigma> (var_X vars1_1x2 ! j ! t))
                             \<le> par_B pars_1x2 ! r ! t + eval \<sigma> (var_U vars1_1x2 ! r ! t))) \<and>
        ((\<forall>c\<in>set (new_constrs con2 Equal ''con_work''). holds \<sigma> c) \<longleftrightarrow>
           (\<forall>t<2 - 1. eval \<sigma> (var_Zp vars1_1x2 ! t) - eval \<sigma> (var_Zm vars1_1x2 ! t)
                 = (\<Sum>j<1. par_A pars_1x2 ! j ! (1 - 1)
                        * (eval \<sigma> (var_X vars1_1x2 ! j ! (t + 1)) - eval \<sigma> (var_X vars1_1x2 ! j ! t))))) \<and>
        ((\<forall>c\<in>set (new_constrs con3 LessEqual ''con_extracap''). holds \<sigma> c) \<longleftrightarrow>
           (\<forall>r<1. \<forall>t<2. eval \<sigma> (var_U vars1_1x2 ! r ! t) \<le> par_UB pars_1x2 ! r ! t))"
    by (elim exE conjE) (rule that)
  from sem have s1: "(\<forall>c\<in>set (new_constrs con1 LessEqual ''con_product''). holds \<sigma> c) \<longleftrightarrow>
           (\<forall>r<1. \<forall>t<2. (\<Sum>j<1. par_A pars_1x2 ! j ! r * eval \<sigma> (var_X vars1_1x2 ! j ! t))
                             \<le> par_B pars_1x2 ! r ! t + eval \<sigma> (var_U vars1_1x2 ! r ! t))" for \<sigma>
    by (elim allE [of _ \<sigma>] conjE)
  from sem have s2: "(\<forall>c\<in>set (new_constrs con2 Equal ''con_work''). holds \<sigma> c) \<longleftrightarrow>
           (\<forall>t<2 - 1. eval \<sigma> (var_Zp vars1_1x2 ! t) - eval \<sigma> (var_Zm vars1_1x2 ! t)
                 = (\<Sum>j<1. par_A pars_1x2 ! j ! (1 - 1)
                        * (eval \<sigma> (var_X vars1_1x2 ! j ! (t + 1)) - eval \<sigma> (var_X vars1_1x2 ! j ! t))))" for \<sigma>
    by (elim allE [of _ \<sigma>] conjE)
  from sem have s3: "(\<forall>c\<in>set (new_constrs con3 LessEqual ''con_extracap''). holds \<sigma> c) \<longleftrightarrow>
           (\<forall>r<1. \<forall>t<2. eval \<sigma> (var_U vars1_1x2 ! r ! t) \<le> par_UB pars_1x2 ! r ! t)" for \<sigma>
    by (elim allE [of _ \<sigma>] conjE)
  have l5: "length (m_constrs mdl') = 5"
    using cs len by (simp add: Model_def new_constrs_def)
  have "\<sigma> (Var ''X'' [0, 0]) \<le> 10 + \<sigma> (Var ''U'' [0, 0]) \<and>
           \<sigma> (Var ''Z+'' [0]) - \<sigma> (Var ''Z-'' [0])
              = \<sigma> (Var ''X'' [0, 1]) - \<sigma> (Var ''X'' [0, 0]) \<and>
           \<sigma> (Var ''U'' [0, 1]) \<le> 0"
    if "\<forall>c\<in>set (m_constrs mdl'). holds \<sigma> c" for \<sigma>
  proof -
    from that cs have a: "\<forall>c\<in>set (new_constrs con1 LessEqual ''con_product''). holds \<sigma> c"
      and b: "\<forall>c\<in>set (new_constrs con2 Equal ''con_work''). holds \<sigma> c"
      and c: "\<forall>c\<in>set (new_constrs con3 LessEqual ''con_extracap''). holds \<sigma> c"
      by auto
    from a s1 [of \<sigma>] have "(\<Sum>j<1. par_A pars_1x2 ! j ! 0 * eval \<sigma> (var_X vars1_1x2 ! j ! 0))
                             \<le> par_B pars_1x2 ! 0 ! 0 + eval \<sigma> (var_U vars1_1x2 ! 0 ! 0)"
      by simp
    moreover from b s2 [of \<sigma>] have "eval \<sigma> (var_Zp vars1_1x2 ! 0) - eval \<sigma> (var_Zm vars1_1x2 ! 0)
                 = (\<Sum>j<1. par_A pars_1x2 ! j ! (1 - 1)
                        * (eval \<sigma> (var_X vars1_1x2 ! j ! (0 + 1)) - eval \<sigma> (var_X vars1_1x2 ! j ! 0)))"
      by simp
    moreover from c s3 [of \<sigma>] have "eval \<sigma> (var_U vars1_1x2 ! 0 ! 1) \<le> par_UB pars_1x2 ! 0 ! 1"
      by simp
    ultimately show ?thesis
      by (simp add: pars_1x2_def vars1_1x2_def)
  qed
  with run l5 have "\<exists>mdl'. add_1st_stage_constraints (Model ''EV'') pars_1x2 vars1_1x2 = Inr mdl' \<and>
      length (m_constrs mdl') = 5 \<and>
      (\<forall>\<sigma>. (\<forall>c\<in>set (m_constrs mdl'). holds \<sigma> c) \<longrightarrow>
           \<sigma> (Var ''X'' [0, 0]) \<le> 10 + \<sigma> (Var ''U'' [0, 0]) \<and>
           \<sigma> (Var ''Z+'' [0]) - \<sigma> (Var ''Z-'' [0])
              = \<sigma> (Var ''X'' [0, 1]) - \<sigma> (Var ''X'' [0, 0]) \<and>
           \<sigma> (Var ''U'' [0, 1]) \<le> 0)"
    by (intro exI [of _ mdl'] conjI allI impI) simp_all
  with h0 hA hB hUB hX hU hZp hZm show ?thesis by (intro conjI)
qed

section \<open>Sequencing and the values read from a solved model\<close>

lemma bindE_Inr_iff: "bindE r f = Inr y \<longleftrightarrow> (\<exists>x. r = Inr x \<and> f x = Inr y)"
  by (cases r) auto

lemma bindE_Inl_iff: "bindE r f = Inl e \<longleftrightarrow> r = Inl e \<or> (\<exists>x. r = Inr x \<and> f x = Inl e)"
  by (cases r) auto

lemma bindM_Inr_iff:
  "bindM p f w = (Inr y, w') \<longleftrightarrow> (\<exists>x w1. p w = (Inr x, w1) \<and> f x w1 = (Inr y, w'))"
  by (auto simp: bindM_def split: prod.splits sum.splits)

lemma bindM_Inl_iff:
  "bindM p f w = (Inl e, w') \<longleftrightarrow>
     p w = (Inl e, w') \<or> (\<exists>x w1. p w = (Inr x, w1) \<and> f x w1 = (Inl e, w'))"
  by (auto simp: bindM_def split: prod.splits sum.splits)

lemma liftE_eq: "liftE r w = (r', w') \<longleftrightarrow> r = r' \<and> w = w'"
  by (auto simp: liftE_def)

lemma returnM_eq: "returnM x w = (r, w') \<longleftrightarrow> Inr x = r \<and> w = w'"
  by (auto simp: returnM_def)

lemma seqE_Inr:
  "seqE rs = Inr ys \<Longrightarrow> length ys = length rs \<and> (\<forall>i<length rs. rs ! i = Inr (ys ! i))"
proof (induction rs arbitrary: ys)
  case Nil
  then show ?case by simp
next
  case (Cons r rs)
  then obtain x xs where "r = Inr x" "seqE rs = Inr xs" "ys = x # xs"
    by (auto simp: bindE_Inr_iff)
  with Cons.IH [of xs] show ?case
    by (auto simp: nth_Cons')
qed

lemma var_X_attr_V:
  "var_X_attr mdl (V v) = Inr x \<longleftrightarrow> (\<exists>out. m_result mdl = Some out \<and> o_x out v = Some x)"
  by (auto simp: var_X_attr_def split: option.splits)

lemma var2val1_vars:
  assumes "var2val1 mdl (map (\<lambda>i. V (g i)) [0..<d]) = Inr r" "m_result mdl = Some out"
  shows "length r = d \<and> (\<forall>i<d. o_x out (g i) = Some (r ! i))"
proof -
  from seqE_Inr [OF assms(1) [unfolded var2val1_def]]
  have "length r = d" and "\<forall>i<d. var_X_attr mdl (V (g i)) = Inr (r ! i)"
    by simp_all
  with assms(2) show ?thesis by (simp add: var_X_attr_V)
qed

lemma var2val2_vars:
  assumes "var2val2 mdl (map (\<lambda>i. map (\<lambda>j. V (g i j)) [0..<d2]) [0..<d1]) = Inr r"
    "m_result mdl = Some out"
  shows "shape2 r d1 d2 \<and> (\<forall>i<d1. \<forall>j<d2. o_x out (g i j) = Some (r ! i ! j))"
proof -
  from seqE_Inr [OF assms(1) [unfolded var2val2_def]]
  have len: "length r = d1"
    and rows: "\<forall>i<d1. var2val1 mdl (map (\<lambda>j. V (g i j)) [0..<d2]) = Inr (r ! i)"
    by simp_all
  have "length (r ! i) = d2 \<and> (\<forall>j<d2. o_x out (g i j) = Some (r ! i ! j))" if "i < d1" for i
    using rows that var2val1_vars [OF _ assms(2), of "g i" d2 "r ! i"] by simp
  with len show ?thesis by (simp add: shape2_def list_all_length)
qed

lemma snd_add_1st_stage_variables:
  "snd (add_1st_stage_variables mdl ps iv) =
     \<lparr>var_X = map (\<lambda>i. map (\<lambda>j. V (Var ''X'' [i, j])) [0..<par_s ps]) [0..<par_n ps],
      var_U = map (\<lambda>i. map (\<lambda>j. V (Var ''U'' [i, j])) [0..<par_s ps]) [0..<par_m ps],
      var_Zp = map (\<lambda>i. V (Var ''Z+'' [i])) [0..<par_s ps - 1],
      var_Zm = map (\<lambda>i. V (Var ''Z-'' [i])) [0..<par_s ps - 1]\<rparr>"
  by (simp add: add_1st_stage_variables_def addVars2_def addVars1_def Let_def)

lemma m_result_optimize:
  "optimize solve mdl = Inr mdl' \<Longrightarrow>
     \<exists>out. solve (m_vars mdl) (m_constrs mdl) (m_objective mdl) = Inr out \<and>
           mdl' = mdl\<lparr>m_result := Some out\<rparr>"
  by (auto simp: optimize_def bindE_Inr_iff)

lemma ObjVal_Inr:
  "ObjVal mdl = Inr v \<longleftrightarrow> (\<exists>out. m_result mdl = Some out \<and> o_objval out = Some v)"
  by (auto simp: ObjVal_def split: option.splits)

lemma optimize_solved:
  "optimize solve mdl = Inr mdl' \<Longrightarrow>
     \<exists>out. m_result mdl' = Some out \<and>
           solve (m_vars mdl') (m_constrs mdl') (m_objective mdl') = Inr out"
  by (auto simp: optimize_def bindE_Inr_iff)

lemma convert_vars1_entries:
  assumes "convert_vars1 iv mdl (snd (add_1st_stage_variables mdl0 ps iv0)) = Inr sol"
    and "m_result mdl = Some out"
  shows "shape2 (var_X sol) (par_n ps) (par_s ps) \<and>
         (\<forall>j<par_n ps. \<forall>t<par_s ps. \<exists>x. o_x out (Var ''X'' [j, t]) = Some x \<and>
              var_X sol ! j ! t = convert iv x) \<and>
         shape2 (var_U sol) (par_m ps) (par_s ps) \<and>
         (\<forall>r<par_m ps. \<forall>t<par_s ps. \<exists>x. o_x out (Var ''U'' [r, t]) = Some x \<and>
              var_U sol ! r ! t = convert iv x) \<and>
         length (var_Zp sol) = par_s ps - 1 \<and>
         (\<forall>t<par_s ps - 1. \<exists>x. o_x out (Var ''Z+'' [t]) = Some x \<and> var_Zp sol ! t = convert iv x) \<and>
         length (var_Zm sol) = par_s ps - 1 \<and>
         (\<forall>t<par_s ps - 1. \<exists>x. o_x out (Var ''Z-'' [t]) = Some x \<and> var_Zm sol ! t = convert iv x)"
proof -
  from assms(1) obtain x u zp zm where
    x: "var2val2 mdl (map (\<lambda>i. map (\<lambda>j. V (Var ''X'' [i, j])) [0..<par_s ps]) [0..<par_n ps]) = Inr x"
    and u: "var2val2 mdl (map (\<lambda>i. map (\<lambda>j. V (Var ''U'' [i, j])) [0..<par_s ps]) [0..<par_m ps]) = Inr u"
    and zp: "var2val1 mdl (map (\<lambda>i. V (Var ''Z+'' [i])) [0..<par_s ps - 1]) = Inr zp"
    and zm: "var2val1 mdl (map (\<lambda>i. V (Var ''Z-'' [i])) [0..<par_s ps - 1]) = Inr zm"
    and sol: "sol = \<lparr>var_X = map (map (convert iv)) x, var_U = map (map (convert iv)) u,
                     var_Zp = map (convert iv) zp, var_Zm = map (convert iv) zm\<rparr>"
    by (auto simp: convert_vars1_def var2val_vars1_def bindE_Inr_iff snd_add_1st_stage_variables)
  note X = var2val2_vars [OF x assms(2)]
  note U = var2val2_vars [OF u assms(2)]
  note Zp = var2val1_vars [OF zp assms(2)]
  note Zm = var2val1_vars [OF zm assms(2)]
  show ?thesis
    using X U Zp Zm unfolding sol
    by (simp add: shape2_def list_all_length)
qed

section \<open>The steps of the procedures\<close>

lemma m_name_addVars [simp]:
  "m_name (fst (addVars1 mdl d1 info nm)) = m_name mdl"
  "m_name (fst (addVars2 mdl d1 d2 info nm)) = m_name mdl"
  "m_name (fst (addVars3 mdl d0 d1 d2 info nm)) = m_name mdl"
  by (simp_all add: addVars1_def addVars2_def addVars3_def)

lemma m_name_simple [simp]:
  "m_name (addConstrs mdl con sn nm) = m_name mdl"
  "m_name (setObjective mdl obj) = m_name mdl"
  "m_name (quiet mdl) = m_name mdl"
  "m_name (Model nm) = nm"
  by (simp_all add: addConstrs_def setObjective_def quiet_def Model_def)

lemma m_name_add_1st_stage_variables [simp]:
  "m_name (fst (add_1st_stage_variables mdl ps iv)) = m_name mdl"
  by (simp add: add_1st_stage_variables_def Let_def split_def)

lemma m_name_add_2nd_stage_variables [simp]:
  "m_name (fst (add_2nd_stage_variables mdl ps S iv)) = m_name mdl"
  by (simp add: add_2nd_stage_variables_def Let_def split_def)

lemma m_name_add_1st_stage_constraints:
  "add_1st_stage_constraints mdl ps vs = Inr mdl' \<Longrightarrow> m_name mdl' = m_name mdl"
  by (auto simp: add_1st_stage_constraints_def bindE_Inr_iff Let_def)

lemma m_name_demand_array [simp]:
  "m_name (fst (demand_array mdl ps S d)) = m_name mdl"
  by (simp add: demand_array_def Let_def split_def split: option.splits)

lemma m_name_add_2nd_stage_constraints:
  "add_2nd_stage_constraints mdl ps v1 v2 d = Inr (mdl', r) \<Longrightarrow> m_name mdl' = m_name mdl"
  by (auto simp: add_2nd_stage_constraints_def bindE_Inr_iff Let_def split_def)

lemma m_name_fix_var: "fix_var mdl v x = Inr mdl' \<Longrightarrow> m_name mdl' = m_name mdl"
  by (auto simp: fix_var_def bindE_Inr_iff split: if_splits)

lemma m_name_optimize: "optimize solve mdl = Inr mdl' \<Longrightarrow> m_name mdl' = m_name mdl"
  by (auto simp: optimize_def bindE_Inr_iff)

lemma snd_add_1st_stage_variables_indep:
  "snd (add_1st_stage_variables mdl ps iv) = snd (add_1st_stage_variables mdl' ps iv')"
  by (simp add: snd_add_1st_stage_variables)

lemma snd_add_2nd_stage_variables_indep:
  "snd (add_2nd_stage_variables mdl ps S iv) = snd (add_2nd_stage_variables mdl' ps S iv')"
  by (simp add: add_2nd_stage_variables_def addVars2_def addVars3_def Let_def)

lemma m_result_optimize':
  "optimize solve mdl = Inr mdl' \<Longrightarrow> \<exists>out. m_result mdl' = Some out"
  by (auto simp: optimize_def bindE_Inr_iff)

lemma EV_steps_Inr:
  assumes "EV_steps solve ps iv vb mdl0 = Inr (mdl, objval, sol1, sol2)"
  shows "m_name mdl = m_name mdl0 \<and>
         (\<exists>out. m_result mdl = Some out \<and> o_objval out = Some objval \<and>
           solve (m_vars mdl) (m_constrs mdl) (m_objective mdl) = Inr out \<and>
           convert_vars1 iv mdl (snd (add_1st_stage_variables mdl0 ps iv)) = Inr sol1 \<and>
           convert_vars2 iv mdl (snd (add_2nd_stage_variables mdl0 ps 1 iv)) = Inr sol2)"
proof -
  let ?m1 = "if vb < 1 then quiet mdl0 else mdl0"
  let ?m2 = "fst (add_1st_stage_variables ?m1 ps iv)"
  let ?v1 = "snd (add_1st_stage_variables ?m1 ps iv)"
  let ?m3 = "fst (add_2nd_stage_variables ?m2 ps 1 iv)"
  let ?v2 = "snd (add_2nd_stage_variables ?m2 ps 1 iv)"
  from assms obtain obj m4 d m5 r where
    c1: "add_1st_stage_constraints (setObjective ?m3 obj) ps ?v1 = Inr m4"
    and c2: "add_2nd_stage_constraints m4 ps ?v1 ?v2 d = Inr (m5, r)"
    and opt: "optimize solve m5 = Inr mdl"
    and ov: "ObjVal mdl = Inr objval"
    and s1: "convert_vars1 iv mdl ?v1 = Inr sol1"
    and s2: "convert_vars2 iv mdl ?v2 = Inr sol2"
    by (auto simp: EV_steps_def bindE_Inr_iff Let_def split_def simp del: One_nat_def)
  have "m_name mdl = m_name mdl0"
    using m_name_add_1st_stage_constraints [OF c1] m_name_add_2nd_stage_constraints [OF c2]
      m_name_optimize [OF opt] by simp
  moreover from optimize_solved [OF opt] ov obtain out where
    "m_result mdl = Some out" "o_objval out = Some objval"
    "solve (m_vars mdl) (m_constrs mdl) (m_objective mdl) = Inr out"
    by (auto simp: ObjVal_Inr)
  moreover have "?v1 = snd (add_1st_stage_variables mdl0 ps iv)"
    by (rule snd_add_1st_stage_variables_indep)
  moreover have "?v2 = snd (add_2nd_stage_variables mdl0 ps 1 iv)"
    by (rule snd_add_2nd_stage_variables_indep)
  ultimately show ?thesis using s1 s2 by auto
qed

lemma TS_steps_Inr:
  assumes "TS_steps solve ps samples iv vb mdl0 = Inr (mdl, objval, sol1, prob)"
  shows "m_name mdl = m_name mdl0 \<and>
         (\<exists>out. m_result mdl = Some out \<and> o_objval out = Some objval \<and>
           solve (m_vars mdl) (m_constrs mdl) (m_objective mdl) = Inr out \<and>
           convert_vars1 iv mdl (snd (add_1st_stage_variables mdl0 ps iv)) = Inr sol1)"
proof -
  let ?m1 = "if vb < 1 then quiet mdl0 else mdl0"
  let ?m2 = "fst (add_1st_stage_variables ?m1 ps iv)"
  let ?v1 = "snd (add_1st_stage_variables ?m1 ps iv)"
  let ?m3 = "fst (add_2nd_stage_variables ?m2 ps (length samples) iv)"
  let ?v2 = "snd (add_2nd_stage_variables ?m2 ps (length samples) iv)"
  from assms obtain obj m4 d m5 r where
    c1: "add_1st_stage_constraints (setObjective ?m3 obj) ps ?v1 = Inr m4"
    and c2: "add_2nd_stage_constraints m4 ps ?v1 ?v2 d = Inr (m5, r)"
    and opt: "optimize solve m5 = Inr mdl"
    and ov: "ObjVal mdl = Inr objval"
    and s1: "convert_vars1 iv mdl ?v1 = Inr sol1"
    by (auto simp: TS_steps_def bindE_Inr_iff Let_def split_def)
  have "m_name mdl = m_name mdl0"
    using m_name_add_1st_stage_constraints [OF c1] m_name_add_2nd_stage_constraints [OF c2]
      m_name_optimize [OF opt] by simp
  moreover from optimize_solved [OF opt] ov obtain out where
    "m_result mdl = Some out" "o_objval out = Some objval"
    "solve (m_vars mdl) (m_constrs mdl) (m_objective mdl) = Inr out"
    by (auto simp: ObjVal_Inr)
  moreover have "?v1 = snd (add_1st_stage_variables mdl0 ps iv)"
    by (rule snd_add_1st_stage_variables_indep)
  ultimately show ?thesis using s1 by auto
qed

lemma optimize_EV_eq:
  "optimize_EV solve ps iv vb w =
     (case EV_steps solve ps iv vb (Model ''EV'') of
        Inl e \<Rightarrow> (Inl e, w\<lparr>w_live := ''EV'' # w_live w\<rparr>)
      | Inr (mdl, r) \<Rightarrow> (Inr r, w\<lparr>w_live := remove1 (m_name mdl) (''EV'' # w_live w)\<rparr>))"
  by (simp add: optimize_EV_def bindM_def new_Model_def liftE_def dispose_def returnM_def
        split: sum.splits prod.splits del: remove1.simps)

lemma optimize_TS_eq:
  "optimize_TS solve ps samples iv vb w =
     (case TS_steps solve ps samples iv vb (Model ''LSDE'') of
        Inl e \<Rightarrow> (Inl e, w\<lparr>w_live := ''LSDE'' # w_live w\<rparr>)
      | Inr (mdl, r) \<Rightarrow> (Inr r, w\<lparr>w_live := remove1 (m_name mdl) (''LSDE'' # w_live w)\<rparr>))"
  by (simp add: optimize_TS_def bindM_def new_Model_def liftE_def dispose_def returnM_def
        split: sum.splits prod.splits del: remove1.simps)

lemma optimize_EEV_eq:
  "optimize_EEV solve ps ev samples iv vb w =
     (case EEV_steps solve ps ev samples iv vb (Model ''EEV'') of
        Inl e \<Rightarrow> (Inl e, w\<lparr>w_live := ''EEV'' # w_live w\<rparr>)
      | Inr (mdl, r) \<Rightarrow> (Inr r, w\<lparr>w_live := remove1 (m_name mdl) (''EEV'' # w_live w)\<rparr>))"
  by (simp add: optimize_EEV_def bindM_def new_Model_def liftE_def dispose_def returnM_def
        split: sum.splits prod.splits del: remove1.simps)


lemma snd_add_2nd_stage_variables_1:
  "snd (add_2nd_stage_variables mdl ps 1 iv) =
     \<lparr>var_Yp = A2 (map (\<lambda>i. map (\<lambda>j. V (Var ''Y+'' [i, j])) [0..<par_s ps]) [0..<par_n ps]),
      var_Ym = A2 (map (\<lambda>i. map (\<lambda>j. V (Var ''Y-'' [i, j])) [0..<par_s ps]) [0..<par_n ps])\<rparr>"
  by (simp add: add_2nd_stage_variables_def addVars2_def Let_def)

lemma convert_vars2_entries:
  assumes "convert_vars2 iv mdl (snd (add_2nd_stage_variables mdl0 ps 1 iv0)) = Inr sol"
    and "m_result mdl = Some out"
  shows "\<exists>yp ym. var_Yp sol = A2 yp \<and> var_Ym sol = A2 ym \<and>
         shape2 yp (par_n ps) (par_s ps) \<and>
         (\<forall>j<par_n ps. \<forall>t<par_s ps. \<exists>x. o_x out (Var ''Y+'' [j, t]) = Some x \<and>
              yp ! j ! t = convert iv x) \<and>
         shape2 ym (par_n ps) (par_s ps) \<and>
         (\<forall>j<par_n ps. \<forall>t<par_s ps. \<exists>x. o_x out (Var ''Y-'' [j, t]) = Some x \<and>
              ym ! j ! t = convert iv x)"
proof -
  from assms(1) obtain p m where
    p: "var2val2 mdl (map (\<lambda>i. map (\<lambda>j. V (Var ''Y+'' [i, j])) [0..<par_s ps]) [0..<par_n ps]) = Inr p"
    and m: "var2val2 mdl (map (\<lambda>i. map (\<lambda>j. V (Var ''Y-'' [i, j])) [0..<par_s ps]) [0..<par_n ps]) = Inr m"
    and sol: "sol = \<lparr>var_Yp = A2 (map (map (convert iv)) p), var_Ym = A2 (map (map (convert iv)) m)\<rparr>"
    unfolding convert_vars2_def snd_add_2nd_stage_variables_1
    by (cases "var2val2 mdl (map (\<lambda>i. map (\<lambda>j. V (Var ''Y+'' [i, j])) [0..<par_s ps]) [0..<par_n ps])";
        cases "var2val2 mdl (map (\<lambda>i. map (\<lambda>j. V (Var ''Y-'' [i, j])) [0..<par_s ps]) [0..<par_n ps])")
       auto
  note P = var2val2_vars [OF p assms(2)]
  note M = var2val2_vars [OF m assms(2)]
  show ?thesis
    using P M unfolding sol
    by (simp add: shape2_def list_all_length)
qed

lemma astype_int_Ints: "astype_int x \<in> \<int>"
  by (simp add: astype_int_def Let_def)

lemma astype_int_in_range:
  assumes "\<bar>x\<bar> < 2 ^ 63"
  shows "astype_int x = (if 0 \<le> x then of_int \<lfloor>x\<rfloor> else of_int \<lceil>x\<rceil>)"
proof (cases "0 \<le> x")
  case True
  with assms have "x < 2 ^ 63" by simp
  then have "\<lfloor>x\<rfloor> < 2 ^ 63" by (simp add: floor_less_iff)
  moreover from True have "0 \<le> \<lfloor>x\<rfloor>" by simp
  ultimately show ?thesis using True by (simp add: astype_int_def Let_def)
next
  case False
  with assms have "- (2 ^ 63) < x" by simp
  then have "- (2 ^ 63) \<le> \<lceil>x\<rceil>" by (simp add: le_ceiling_iff)
  moreover from False have "\<lceil>x\<rceil> \<le> 0" by (simp add: ceiling_le_zero)
  ultimately show ?thesis using False by (simp add: astype_int_def Let_def)
qed

lemma astype_int_abs_le:
  assumes "\<bar>x\<bar> < 2 ^ 63"
  shows "\<bar>astype_int x\<bar> \<le> \<bar>x\<bar>"
proof (cases "0 \<le> x")
  case True
  then have "0 \<le> \<lfloor>x\<rfloor>" by simp
  then have "0 \<le> real_of_int \<lfloor>x\<rfloor>" by simp
  with True floor_correct [of x] show ?thesis by (simp add: astype_int_in_range [OF assms])
next
  case False
  then have "\<lceil>x\<rceil> \<le> 0" by (simp add: ceiling_le_zero)
  then have "real_of_int \<lceil>x\<rceil> \<le> 0" by simp
  with False ceiling_correct [of x] show ?thesis by (simp add: astype_int_in_range [OF assms])
qed

lemma astype_int_near:
  assumes "\<bar>x\<bar> < 2 ^ 63"
  shows "\<bar>x - astype_int x\<bar> < 1"
proof (cases "0 \<le> x")
  case True
  have "real_of_int \<lfloor>x\<rfloor> \<le> x" "x < real_of_int \<lfloor>x\<rfloor> + 1" by linarith+
  then have "\<bar>x - real_of_int \<lfloor>x\<rfloor>\<bar> < 1" by linarith
  with True show ?thesis by (simp only: astype_int_in_range [OF assms] if_True)
next
  case False
  have "x \<le> real_of_int \<lceil>x\<rceil>" "real_of_int \<lceil>x\<rceil> < x + 1" by linarith+
  then have "\<bar>x - real_of_int \<lceil>x\<rceil>\<bar> < 1" by linarith
  with False show ?thesis by (simp only: astype_int_in_range [OF assms] if_False)
qed

lemma astype_int_of_Ints: "x \<in> \<int> \<Longrightarrow> \<bar>x\<bar> < 2 ^ 63 \<Longrightarrow> astype_int x = x"
  by (auto simp: astype_int_in_range Ints_def)

text \<open>The definitions a concrete run is evaluated with.\<close>

lemmas array_defs = ew1_def ew2_def ew3_def bcast_def matmul_def vecmat_def np_T_def col_def last_col_def
  quicksum_def
lemmas model_defs = Model_def addVars1_def addVars2_def addVars3_def addConstrs_def new_constrs_def
  setObjective_def quiet_def fix_var_def set_bounds_def optimize_def Status_def ObjVal_def var_X_attr_def
lemmas builder_defs = add_1st_stage_variables_def add_2nd_stage_variables_def get_1st_stage_objective_def
  get_2nd_stage_objective_def add_1st_stage_constraints_def add_2nd_stage_constraints_def demand_array_def
lemmas proc_defs = returnM_def liftE_def bindM_def new_Model_def dispose_def
lemmas sol_defs = var2val1_def var2val2_def var2val_vars1_def convert_vars1_def convert_vars2_def convert_def
  astype_int_def

section \<open>The arrays of a solution\<close>

text \<open>
  C9 does not hold for the code. When \<open>optimize_EV\<close> (both stages) or \<open>optimize_TS\<close>
  (first stage) returns, the model it has optimised holds the outcome \<open>out\<close> the solver
  gave for that model, every returned array has the shape of its variable group, and every
  entry is \<open>convert intvars\<close> of the value \<open>out\<close> reports for that variable. Without the
  integer flag this is the value itself, unmodified. With the flag it is the value cast by
  \<open>astype(int)\<close>, which does not round: for a value within the 64-bit range the cast drops
  the fractional part, so the result is an integer no larger in absolute value than the
  solver's value and less than 1 away from it, and a value just below an integer is
  returned as the integer below.
\<close>

theorem solution_arrays_truncated:
  "(optimize_EV solve ps intvars verbose w = (Inr (objval, sol1, sol2), w') \<longrightarrow>
      (\<exists>mdl (out::outcome) yp ym.
         EV_steps solve ps intvars verbose (Model ''EV'') = Inr (mdl, objval, sol1, sol2) \<and>
         m_result mdl = Some out \<and>
         solve (m_vars mdl) (m_constrs mdl) (m_objective mdl) = Inr out \<and>
         shape2 (var_X sol1) (par_n ps) (par_s ps) \<and>
         (\<forall>j<par_n ps. \<forall>t<par_s ps. \<exists>x. o_x out (Var ''X'' [j, t]) = Some x \<and>
              var_X sol1 ! j ! t = convert intvars x) \<and>
         shape2 (var_U sol1) (par_m ps) (par_s ps) \<and>
         (\<forall>r<par_m ps. \<forall>t<par_s ps. \<exists>x. o_x out (Var ''U'' [r, t]) = Some x \<and>
              var_U sol1 ! r ! t = convert intvars x) \<and>
         length (var_Zp sol1) = par_s ps - 1 \<and>
         (\<forall>t<par_s ps - 1. \<exists>x. o_x out (Var ''Z+'' [t]) = Some x \<and>
              var_Zp sol1 ! t = convert intvars x) \<and>
         length (var_Zm sol1) = par_s ps - 1 \<and>
         (\<forall>t<par_s ps - 1. \<exists>x. o_x out (Var ''Z-'' [t]) = Some x \<and>
              var_Zm sol1 ! t = convert intvars x) \<and>
         var_Yp sol2 = A2 yp \<and> var_Ym sol2 = A2 ym \<and>
         shape2 yp (par_n ps) (par_s ps) \<and>
         (\<forall>j<par_n ps. \<forall>t<par_s ps. \<exists>x. o_x out (Var ''Y+'' [j, t]) = Some x \<and>
              yp ! j ! t = convert intvars x) \<and>
         shape2 ym (par_n ps) (par_s ps) \<and>
         (\<forall>j<par_n ps. \<forall>t<par_s ps. \<exists>x. o_x out (Var ''Y-'' [j, t]) = Some x \<and>
              ym ! j ! t = convert intvars x))) \<and>
   (optimize_TS solve ps samples intvars verbose w = (Inr (objval, sol1, prob), w') \<longrightarrow>
      (\<exists>mdl (out::outcome).
         TS_steps solve ps samples intvars verbose (Model ''LSDE'') = Inr (mdl, objval, sol1, prob) \<and>
         m_result mdl = Some out \<and>
         solve (m_vars mdl) (m_constrs mdl) (m_objective mdl) = Inr out \<and>
         shape2 (var_X sol1) (par_n ps) (par_s ps) \<and>
         (\<forall>j<par_n ps. \<forall>t<par_s ps. \<exists>x. o_x out (Var ''X'' [j, t]) = Some x \<and>
              var_X sol1 ! j ! t = convert intvars x) \<and>
         shape2 (var_U sol1) (par_m ps) (par_s ps) \<and>
         (\<forall>r<par_m ps. \<forall>t<par_s ps. \<exists>x. o_x out (Var ''U'' [r, t]) = Some x \<and>
              var_U sol1 ! r ! t = convert intvars x) \<and>
         length (var_Zp sol1) = par_s ps - 1 \<and>
         (\<forall>t<par_s ps - 1. \<exists>x. o_x out (Var ''Z+'' [t]) = Some x \<and>
              var_Zp sol1 ! t = convert intvars x) \<and>
         length (var_Zm sol1) = par_s ps - 1 \<and>
         (\<forall>t<par_s ps - 1. \<exists>x. o_x out (Var ''Z-'' [t]) = Some x \<and>
              var_Zm sol1 ! t = convert intvars x))) \<and>
   convert False x = x \<and>
   convert True x = astype_int x \<and>
   astype_int x \<in> \<int> \<and>
   (\<bar>x\<bar> < 2 ^ 63 \<longrightarrow>
      astype_int x = (if 0 \<le> x then of_int \<lfloor>x\<rfloor> else of_int \<lceil>x\<rceil>) \<and>
      \<bar>astype_int x\<bar> \<le> \<bar>x\<bar> \<and> \<bar>x - astype_int x\<bar> < 1 \<and>
      (x \<in> \<int> \<longrightarrow> astype_int x = x))"
proof (intro conjI impI)
  show "convert False x = x" "convert True x = astype_int x" "astype_int x \<in> \<int>"
    by (simp_all add: convert_def astype_int_Ints)
next
  assume r: "\<bar>x\<bar> < 2 ^ 63"
  from r show "astype_int x = (if 0 \<le> x then of_int \<lfloor>x\<rfloor> else of_int \<lceil>x\<rceil>)"
    by (rule astype_int_in_range)
  from r show "\<bar>astype_int x\<bar> \<le> \<bar>x\<bar>" by (rule astype_int_abs_le)
  from r show "\<bar>x - astype_int x\<bar> < 1" by (rule astype_int_near)
next
  assume "\<bar>x\<bar> < 2 ^ 63" "x \<in> \<int>"
  then show "astype_int x = x" by (simp add: astype_int_of_Ints)
next
  assume run: "optimize_EV solve ps intvars verbose w = (Inr (objval, sol1, sol2), w')"
  then obtain mdl where
    steps: "EV_steps solve ps intvars verbose (Model ''EV'') = Inr (mdl, objval, sol1, sol2)"
    by (auto simp: optimize_EV_eq split: sum.splits)
  from EV_steps_Inr [OF this] obtain out where out: "m_result mdl = Some out"
    and sv: "solve (m_vars mdl) (m_constrs mdl) (m_objective mdl) = Inr out"
    and s1: "convert_vars1 intvars mdl (snd (add_1st_stage_variables (Model ''EV'') ps intvars)) = Inr sol1"
    and s2: "convert_vars2 intvars mdl (snd (add_2nd_stage_variables (Model ''EV'') ps 1 intvars)) = Inr sol2"
    by blast
  from convert_vars2_entries [OF s2 out] obtain yp ym where
    "var_Yp sol2 = A2 yp \<and> var_Ym sol2 = A2 ym \<and>
         shape2 yp (par_n ps) (par_s ps) \<and>
         (\<forall>j<par_n ps. \<forall>t<par_s ps. \<exists>x. o_x out (Var ''Y+'' [j, t]) = Some x \<and>
              yp ! j ! t = convert intvars x) \<and>
         shape2 ym (par_n ps) (par_s ps) \<and>
         (\<forall>j<par_n ps. \<forall>t<par_s ps. \<exists>x. o_x out (Var ''Y-'' [j, t]) = Some x \<and>
              ym ! j ! t = convert intvars x)"
    by (elim exE) (rule that)
  with convert_vars1_entries [OF s1 out] steps out sv
  show "\<exists>mdl (out::outcome) yp ym.
         EV_steps solve ps intvars verbose (Model ''EV'') = Inr (mdl, objval, sol1, sol2) \<and>
         m_result mdl = Some out \<and>
         solve (m_vars mdl) (m_constrs mdl) (m_objective mdl) = Inr out \<and>
         shape2 (var_X sol1) (par_n ps) (par_s ps) \<and>
         (\<forall>j<par_n ps. \<forall>t<par_s ps. \<exists>x. o_x out (Var ''X'' [j, t]) = Some x \<and>
              var_X sol1 ! j ! t = convert intvars x) \<and>
         shape2 (var_U sol1) (par_m ps) (par_s ps) \<and>
         (\<forall>r<par_m ps. \<forall>t<par_s ps. \<exists>x. o_x out (Var ''U'' [r, t]) = Some x \<and>
              var_U sol1 ! r ! t = convert intvars x) \<and>
         length (var_Zp sol1) = par_s ps - 1 \<and>
         (\<forall>t<par_s ps - 1. \<exists>x. o_x out (Var ''Z+'' [t]) = Some x \<and>
              var_Zp sol1 ! t = convert intvars x) \<and>
         length (var_Zm sol1) = par_s ps - 1 \<and>
         (\<forall>t<par_s ps - 1. \<exists>x. o_x out (Var ''Z-'' [t]) = Some x \<and>
              var_Zm sol1 ! t = convert intvars x) \<and>
         var_Yp sol2 = A2 yp \<and> var_Ym sol2 = A2 ym \<and>
         shape2 yp (par_n ps) (par_s ps) \<and>
         (\<forall>j<par_n ps. \<forall>t<par_s ps. \<exists>x. o_x out (Var ''Y+'' [j, t]) = Some x \<and>
              yp ! j ! t = convert intvars x) \<and>
         shape2 ym (par_n ps) (par_s ps) \<and>
         (\<forall>j<par_n ps. \<forall>t<par_s ps. \<exists>x. o_x out (Var ''Y-'' [j, t]) = Some x \<and>
              ym ! j ! t = convert intvars x)"
    by blast
next
  assume run: "optimize_TS solve ps samples intvars verbose w = (Inr (objval, sol1, prob), w')"
  then obtain mdl where
    steps: "TS_steps solve ps samples intvars verbose (Model ''LSDE'') = Inr (mdl, objval, sol1, prob)"
    by (auto simp: optimize_TS_eq split: sum.splits)
  from TS_steps_Inr [OF this] obtain out where out: "m_result mdl = Some out"
    and sv: "solve (m_vars mdl) (m_constrs mdl) (m_objective mdl) = Inr out"
    and s1: "convert_vars1 intvars mdl (snd (add_1st_stage_variables (Model ''LSDE'') ps intvars)) = Inr sol1"
    by blast
  from convert_vars1_entries [OF s1 out] steps out sv
  show "\<exists>mdl (out::outcome).
         TS_steps solve ps samples intvars verbose (Model ''LSDE'') = Inr (mdl, objval, sol1, prob) \<and>
         m_result mdl = Some out \<and>
         solve (m_vars mdl) (m_constrs mdl) (m_objective mdl) = Inr out \<and>
         shape2 (var_X sol1) (par_n ps) (par_s ps) \<and>
         (\<forall>j<par_n ps. \<forall>t<par_s ps. \<exists>x. o_x out (Var ''X'' [j, t]) = Some x \<and>
              var_X sol1 ! j ! t = convert intvars x) \<and>
         shape2 (var_U sol1) (par_m ps) (par_s ps) \<and>
         (\<forall>r<par_m ps. \<forall>t<par_s ps. \<exists>x. o_x out (Var ''U'' [r, t]) = Some x \<and>
              var_U sol1 ! r ! t = convert intvars x) \<and>
         length (var_Zp sol1) = par_s ps - 1 \<and>
         (\<forall>t<par_s ps - 1. \<exists>x. o_x out (Var ''Z+'' [t]) = Some x \<and>
              var_Zp sol1 ! t = convert intvars x) \<and>
         length (var_Zm sol1) = par_s ps - 1 \<and>
         (\<forall>t<par_s ps - 1. \<exists>x. o_x out (Var ''Z-'' [t]) = Some x \<and>
              var_Zm sol1 ! t = convert intvars x)"
    by blast
qed

text \<open>
  The solver reports 0.999999 for every variable, an integer variable at 1 within the
  solver's integrality tolerance; the outcome the theorem speaks of is that report, and
  the array returned for \<open>X\<close> holds its cast, which is 0.
\<close>

theorem solution_arrays_truncated_witness:
  "optimize_EV near_one_solver pars_1x1 True 0 w0 =
     (Inr (1, \<lparr>var_X = [[0]], var_U = [[0]], var_Zp = [], var_Zm = []\<rparr>,
              \<lparr>var_Yp = A2 [[0]], var_Ym = A2 [[0]]\<rparr>), w0) \<and>
   (\<exists>(mdl::gmodel) (out::outcome).
      near_one_solver (m_vars mdl) (m_constrs mdl) (m_objective mdl) = Inr out \<and>
      o_x out (Var ''X'' [0, 0]) = Some near_one \<and> (0::real) = convert True near_one)"
proof -
  let ?s1 = "\<lparr>var_X = [[0::real]], var_U = [[0]], var_Zp = [], var_Zm = []\<rparr>"
  let ?s2 = "\<lparr>var_Yp = A2 [[0::real]], var_Ym = A2 [[0]]\<rparr>"
  have h: "optimize_EV near_one_solver pars_1x1 True 0 w0 = (Inr (1, ?s1, ?s2), w0)"
    by (simp add: optimize_EV_def EV_steps_def proc_defs builder_defs model_defs array_defs sol_defs
        pars_1x1_def w0_def near_one_solver_def near_one_def Let_def)
  from solution_arrays_truncated [of near_one_solver pars_1x1 True 0 w0 1 ?s1 ?s2 w0]
  have "optimize_EV near_one_solver pars_1x1 True 0 w0 = (Inr (1, ?s1, ?s2), w0) \<longrightarrow>
      (\<exists>mdl (out::outcome) yp ym.
         EV_steps near_one_solver pars_1x1 True 0 (Model ''EV'') = Inr (mdl, 1, ?s1, ?s2) \<and>
         m_result mdl = Some out \<and>
         near_one_solver (m_vars mdl) (m_constrs mdl) (m_objective mdl) = Inr out \<and>
         shape2 (var_X ?s1) (par_n pars_1x1) (par_s pars_1x1) \<and>
         (\<forall>j<par_n pars_1x1. \<forall>t<par_s pars_1x1. \<exists>x. o_x out (Var ''X'' [j, t]) = Some x \<and>
              var_X ?s1 ! j ! t = convert True x) \<and>
         shape2 (var_U ?s1) (par_m pars_1x1) (par_s pars_1x1) \<and>
         (\<forall>r<par_m pars_1x1. \<forall>t<par_s pars_1x1. \<exists>x. o_x out (Var ''U'' [r, t]) = Some x \<and>
              var_U ?s1 ! r ! t = convert True x) \<and>
         length (var_Zp ?s1) = par_s pars_1x1 - 1 \<and>
         (\<forall>t<par_s pars_1x1 - 1. \<exists>x. o_x out (Var ''Z+'' [t]) = Some x \<and>
              var_Zp ?s1 ! t = convert True x) \<and>
         length (var_Zm ?s1) = par_s pars_1x1 - 1 \<and>
         (\<forall>t<par_s pars_1x1 - 1. \<exists>x. o_x out (Var ''Z-'' [t]) = Some x \<and>
              var_Zm ?s1 ! t = convert True x) \<and>
         var_Yp ?s2 = A2 yp \<and> var_Ym ?s2 = A2 ym \<and>
         shape2 yp (par_n pars_1x1) (par_s pars_1x1) \<and>
         (\<forall>j<par_n pars_1x1. \<forall>t<par_s pars_1x1. \<exists>x. o_x out (Var ''Y+'' [j, t]) = Some x \<and>
              yp ! j ! t = convert True x) \<and>
         shape2 ym (par_n pars_1x1) (par_s pars_1x1) \<and>
         (\<forall>j<par_n pars_1x1. \<forall>t<par_s pars_1x1. \<exists>x. o_x out (Var ''Y-'' [j, t]) = Some x \<and>
              ym ! j ! t = convert True x))"
    by (rule conjunct1)
  from this h obtain mdl :: gmodel and out :: outcome where
    sv: "near_one_solver (m_vars mdl) (m_constrs mdl) (m_objective mdl) = Inr out"
    and "\<forall>j<par_n pars_1x1. \<forall>t<par_s pars_1x1. \<exists>x. o_x out (Var ''X'' [j, t]) = Some x \<and>
              var_X ?s1 ! j ! t = convert True x"
    by blast
  then have "\<exists>x. o_x out (Var ''X'' [0, 0]) = Some x \<and> (0::real) = convert True x"
    by (simp add: pars_1x1_def)
  moreover from sv have "o_x out (Var ''X'' [0, 0]) = Some near_one"
    by (auto simp: near_one_solver_def)
  ultimately have "o_x out (Var ''X'' [0, 0]) = Some near_one \<and> (0::real) = convert True near_one"
    by auto
  with h sv show ?thesis by blast
qed

text \<open>
  C9 as stated fails: the solver reports 0.999999 for every integer variable, the returned
  arrays hold 0, and the value rounded to the nearest integer is 1.
\<close>

theorem solution_arrays_truncated_counterexample:
  "optimize_EV near_one_solver pars_1x1 True 0 w0 =
     (Inr (1, \<lparr>var_X = [[0]], var_U = [[0]], var_Zp = [], var_Zm = []\<rparr>,
              \<lparr>var_Yp = A2 [[0]], var_Ym = A2 [[0]]\<rparr>), w0) \<and>
   round near_one = (1::int)"
  by (simp add: optimize_EV_def EV_steps_def proc_defs builder_defs model_defs array_defs sol_defs
        pars_1x1_def w0_def near_one_solver_def near_one_def Let_def round_def)

section \<open>The loops keep the models they work on\<close>

lemma m_name_solve_scenario:
  "solve_scenario solve d smp (mdl, rs) = Inr (mdl', rs') \<Longrightarrow> m_name mdl' = m_name mdl"
  by (auto simp: solve_scenario_def bindE_Inr_iff split: if_splits
        dest!: m_name_fix_var m_name_optimize)

lemma m_name_scenario_loop:
  "foldE (solve_scenario solve d) samples (mdl, rs) = Inr (mdl', rs') \<Longrightarrow> m_name mdl' = m_name mdl"
proof (induction samples arbitrary: mdl rs)
  case Nil
  then show ?case by simp
next
  case (Cons smp samples)
  then obtain m1 r1 where "solve_scenario solve d smp (mdl, rs) = Inr (m1, r1)"
    and "foldE (solve_scenario solve d) samples (m1, r1) = Inr (mdl', rs')"
    by (auto simp: bindE_Inr_iff)
  with Cons.IH [of m1 r1] m_name_solve_scenario [of solve d smp mdl rs m1 r1]
  show ?case by simp
qed

lemma m_name_EEV_model:
  "EEV_model ps ev iv vb mdl0 = Inr (mdl, d) \<Longrightarrow> m_name mdl = m_name mdl0"
  by (auto simp: EEV_model_def bindE_Inr_iff Let_def split_def
        dest!: m_name_add_2nd_stage_constraints)

lemma m_name_EEV_steps:
  "EEV_steps solve ps ev samples iv vb mdl0 = Inr (mdl, rs) \<Longrightarrow> m_name mdl = m_name mdl0"
  by (auto simp: EEV_steps_def bindE_Inr_iff dest!: m_name_EEV_model m_name_scenario_loop)

lemma m_name_MRP_model:
  "MRP_model ps S iv vb mdl0 = Inr (mdl, v1, d) \<Longrightarrow> m_name mdl = m_name mdl0"
  by (auto simp: MRP_model_def bindE_Inr_iff Let_def split_def
        dest!: m_name_add_2nd_stage_constraints m_name_add_1st_stage_constraints)

lemma m_name_MRP_submodel:
  "MRP_submodel ps iv vb sub0 = Inr (sub, x, d) \<Longrightarrow> m_name sub = m_name sub0"
  by (auto simp: MRP_submodel_def bindE_Inr_iff Let_def split_def
        dest!: m_name_add_2nd_stage_constraints)

lemma mrp_scenario_Inr:
  assumes "mrp_scenario solve ps sol xk sd sx sample S i (sub, g) = Inr (sub', g')"
  shows "\<exists>smp sub1 sub2 sub3 o1 v1 r1 o2 v2 r2.
           getitem sample i = Inr smp \<and>
           fix_var sub sd (A2 smp) = Inr sub1 \<and>
           fix_var sub1 (A2 sx) (A2 (var_X sol)) = Inr sub2 \<and>
           optimize solve sub2 = Inr sub3 \<and>
           get_1st_stage_objective ps (num_vars1 sol) = Inr o1 \<and> getValue o1 = Inr v1 \<and>
           ObjVal sub3 = Inr r1 \<and>
           fix_var sub3 (A2 sx) (A2 (var_X xk)) = Inr sub' \<and>
           get_1st_stage_objective ps (num_vars1 xk) = Inr o2 \<and> getValue o2 = Inr v2 \<and>
           ObjVal sub' = Inr r2 \<and>
           g' = g + ((v1 + r1) - (v2 + r2)) / real S"
  using assms unfolding mrp_scenario_def Let_def prod.case
  by (simp only: bindE_Inr_iff) (elim exE conjE, simp)

lemma m_name_mrp_scenario:
  assumes "mrp_scenario solve ps sol xk sd sx sample S i (sub, g) = Inr (sub', g')"
  shows "m_name sub' = m_name sub"
proof -
  from mrp_scenario_Inr [OF assms] obtain smp sub1 sub2 sub3 where
    "fix_var sub sd (A2 smp) = Inr sub1" "fix_var sub1 (A2 sx) (A2 (var_X sol)) = Inr sub2"
    "optimize solve sub2 = Inr sub3" "fix_var sub3 (A2 sx) (A2 (var_X xk)) = Inr sub'"
    by blast
  then show ?thesis
    using m_name_fix_var m_name_optimize by metis
qed

lemma m_name_mrp_scenarios:
  "foldE (mrp_scenario solve ps sol xk sd sx sample S) is (sub, g) = Inr (sub', g') \<Longrightarrow>
     m_name sub' = m_name sub"
proof (induction "is" arbitrary: sub g)
  case Nil
  then show ?case by simp
next
  case (Cons i "is")
  then obtain s1 g1 where "mrp_scenario solve ps sol xk sd sx sample S i (sub, g) = Inr (s1, g1)"
    and "foldE (mrp_scenario solve ps sol xk sd sx sample S) is (s1, g1) = Inr (sub', g')"
    by (auto simp: bindE_Inr_iff)
  with Cons.IH [of s1 g1] m_name_mrp_scenario [of solve ps sol xk sd sx sample S i sub g s1 g1]
  show ?case by simp
qed

lemma mrp_replica_steps_Inr:
  assumes "mrp_replica_steps solve ps sol S v1 d sd sx sample (mdl, sub, G) = Inr (mdl', sub', G')"
  shows "\<exists>mdl1 xk g. fix_var mdl d (A3 sample) = Inr mdl1 \<and> optimize solve mdl1 = Inr mdl' \<and>
           var2val_vars1 mdl' v1 = Inr xk \<and>
           foldE (mrp_scenario solve ps sol xk sd sx sample S) [0..<S] (sub, 0) = Inr (sub', g) \<and>
           G' = G @ [g]"
  using assms unfolding mrp_replica_steps_def Let_def prod.case
  by (simp only: bindE_Inr_iff split_paired_Ex prod.case) (elim exE conjE, simp)

lemma mrp_replica_steps_props:
  assumes "mrp_replica_steps solve ps sol S v1 d sd sx sample (mdl, sub, G) = Inr (mdl', sub', G')"
  shows "m_name mdl' = m_name mdl \<and> m_name sub' = m_name sub \<and> length G' = Suc (length G)"
proof -
  from mrp_replica_steps_Inr [OF assms] obtain mdl1 xk g where
    "fix_var mdl d (A3 sample) = Inr mdl1" "optimize solve mdl1 = Inr mdl'"
    "foldE (mrp_scenario solve ps sol xk sd sx sample S) [0..<S] (sub, 0) = Inr (sub', g)"
    "G' = G @ [g]"
    by blast
  then show ?thesis
    using m_name_fix_var [of mdl d "A3 sample" mdl1] m_name_optimize [of solve mdl1 mdl']
      m_name_mrp_scenarios [of solve ps sol xk sd sx sample S "[0..<S]" sub 0 sub' g]
    by simp
qed

lemma w_live_draw_samples:
  "draw_samples smp S ps iv seed w = (r, w') \<Longrightarrow> w_live w' = w_live w \<and> (\<exists>a. r = Inr a)"
  by (auto simp: draw_samples_def split_def Let_def split: option.splits)

lemma mrp_replica_eq:
  "mrp_replica solve smp ps sol S iv seed v1 d sd sx k st w =
     (case draw_samples smp S ps iv seed w of
        (Inl e, w1) \<Rightarrow> (Inl e, w1)
      | (Inr sample, w1) \<Rightarrow> (mrp_replica_steps solve ps sol S v1 d sd sx sample st, w1))"
  unfolding mrp_replica_def bindM_def liftE_def by (rule refl)

lemma mrp_replica_props:
  assumes "mrp_replica solve smp ps sol S iv seed v1 d sd sx k (mdl, sub, G) w = (r, w')"
  shows "w_live w' = w_live w \<and>
         (\<forall>mdl' sub' G'. r = Inr (mdl', sub', G') \<longrightarrow>
            m_name mdl' = m_name mdl \<and> m_name sub' = m_name sub \<and> length G' = Suc (length G))"
proof -
  obtain r0 w1 where dr0: "draw_samples smp S ps iv seed w = (r0, w1)"
    by (cases "draw_samples smp S ps iv seed w")
  from w_live_draw_samples [OF dr0] obtain a where l1: "w_live w1 = w_live w" and r0: "r0 = Inr a"
    by blast
  have eq: "mrp_replica solve smp ps sol S iv seed v1 d sd sx k (mdl, sub, G) w
          = (mrp_replica_steps solve ps sol S v1 d sd sx a (mdl, sub, G), w1)"
    unfolding mrp_replica_eq dr0 r0 by simp
  with assms have w': "w' = w1"
    and r: "mrp_replica_steps solve ps sol S v1 d sd sx a (mdl, sub, G) = r"
    by simp_all
  have "m_name mdl' = m_name mdl \<and> m_name sub' = m_name sub \<and> length G' = Suc (length G)"
    if "r = Inr (mdl', sub', G')" for mdl' sub' G'
  proof -
    from r that have "mrp_replica_steps solve ps sol S v1 d sd sx a (mdl, sub, G) = Inr (mdl', sub', G')"
      by (simp only:)
    then show ?thesis by (rule mrp_replica_steps_props)
  qed
  with l1 w' show ?thesis by blast
qed

lemma foldM_Cons_eq:
  "foldM f (x # xs) st w =
     (case f x st w of (Inl e, w1) \<Rightarrow> (Inl e, w1) | (Inr st1, w1) \<Rightarrow> foldM f xs st1 w1)"
  by (simp add: bindM_def)

lemma foldM_Nil_eq: "foldM f [] st w = (Inr st, w)"
  by (simp add: returnM_def)

lemma mrp_replica_live:
  assumes step: "mrp_replica solve smp ps sol S iv seed v1 d sd sx k (mdl, sub, G) w = (r1, w1)"
  shows "w_live w1 = w_live w"
  using mrp_replica_props [OF step] by (rule conjunct1)

lemma mrp_replica_names:
  assumes step: "mrp_replica solve smp ps sol S iv seed v1 d sd sx k (mdl, sub, G) w = (Inr (mdl', sub', G'), w1)"
  shows "m_name mdl' = m_name mdl \<and> m_name sub' = m_name sub \<and> length G' = Suc (length G)"
  using mrp_replica_props [OF step] by simp


lemma foldM_Cons_cases:
  assumes "foldM f (x # xs) st w = (r, w')"
  obtains (raise) e where "f x st w = (Inl e, w')" "r = Inl e"
        | (go) st1 w1 where "f x st w = (Inr st1, w1)" "foldM f xs st1 w1 = (r, w')"
proof (cases "f x st w")
  case (Pair r1 w1)
  show ?thesis
  proof (cases r1)
    case (Inl e)
    with Pair assms have "w' = w1" "r = Inl e" by (simp_all add: bindM_def)
    with Pair Inl raise show ?thesis by simp
  next
    case (Inr st1)
    with Pair assms have "foldM f xs st1 w1 = (r, w')" by (simp add: bindM_def)
    with Pair Inr go show ?thesis by simp
  qed
qed


lemma mrp_loop_live:
  "foldM (mrp_replica solve smp ps sol S iv seed v1 d sd sx) ks st w = (r, w') \<Longrightarrow>
     w_live w' = w_live w"
proof (induction ks arbitrary: st w)
  case Nil
  then show ?case by (simp add: returnM_def)
next
  case (Cons k ks)
  from Cons.prems show ?case
  proof (cases rule: foldM_Cons_cases)
    case (raise e)
    obtain mdl sub G where "st = (mdl, sub, G)" by (cases st)
    with raise(1) show ?thesis by (simp add: mrp_replica_live)
  next
    case (go st1 w1)
    obtain mdl sub G where "st = (mdl, sub, G)" by (cases st)
    with go(1) have "w_live w1 = w_live w" by (simp add: mrp_replica_live)
    with Cons.IH [OF go(2)] show ?thesis by simp
  qed
qed

lemma mrp_loop_names:
  "foldM (mrp_replica solve smp ps sol S iv seed v1 d sd sx) ks (mdl, sub, G) w
     = (Inr (mdl', sub', G'), w') \<Longrightarrow>
   m_name mdl' = m_name mdl \<and> m_name sub' = m_name sub \<and> length G' = length G + length ks"
proof (induction ks arbitrary: mdl sub G w)
  case Nil
  then show ?case by (simp add: returnM_def)
next
  case (Cons k ks)
  from Cons.prems show ?case
  proof (cases rule: foldM_Cons_cases)
    case (raise e)
    then show ?thesis by simp
  next
    case (go st1 w1)
    obtain m1 s1 G1 where st: "st1 = (m1, s1, G1)" by (cases st1)
    from mrp_replica_names [OF go(1) [unfolded st]] Cons.IH [OF go(2) [unfolded st]]
    show ?thesis by simp
  qed
qed

lemma mrp_replications_eq:
  "mrp_replications solve smp ps sol S replicas iv vb seed w =
     (case MRP_model ps S iv vb (Model ''LSDE'') of
        Inl e \<Rightarrow> (Inl e, w\<lparr>w_live := ''LSDE'' # w_live w\<rparr>)
      | Inr (mdl, v1, d) \<Rightarrow>
          (case MRP_submodel ps iv vb (Model ''sub'') of
             Inl e \<Rightarrow> (Inl e, w\<lparr>w_live := ''sub'' # ''LSDE'' # w_live w\<rparr>)
           | Inr (sub, sx, sd) \<Rightarrow>
               (case foldM (mrp_replica solve smp ps sol S iv seed v1 d sd sx) [0..<nat replicas]
                       (mdl, sub, []) (w\<lparr>w_live := ''sub'' # ''LSDE'' # w_live w\<rparr>) of
                  (Inl e, w3) \<Rightarrow> (Inl e, w3)
                | (Inr (mdl9, sub9, G), w3) \<Rightarrow>
                    (Inr G, w3\<lparr>w_live := remove1 (m_name sub9)
                                             (remove1 (m_name mdl9) (w_live w3))\<rparr>))))"
  by (simp add: mrp_replications_def bindM_def new_Model_def liftE_def dispose_def returnM_def
        Let_def split: sum.splits prod.splits del: remove1.simps)

lemma mrp_replications_live:
  "w_live (snd (mrp_replications solve smp ps sol S replicas iv vb seed w)) =
     (case fst (mrp_replications solve smp ps sol S replicas iv vb seed w) of
        Inr G \<Rightarrow> w_live w
      | Inl e \<Rightarrow> (case MRP_model ps S iv vb (Model ''LSDE'') of
                    Inl e' \<Rightarrow> ''LSDE'' # w_live w
                  | Inr m \<Rightarrow> ''sub'' # ''LSDE'' # w_live w))"
proof (cases "MRP_model ps S iv vb (Model ''LSDE'')")
  case (Inl e)
  then show ?thesis by (simp add: mrp_replications_eq)
next
  case (Inr m)
  obtain mdl v1 d where m: "m = (mdl, v1, d)" by (cases m)
  note M = Inr [unfolded m]
  show ?thesis
  proof (cases "MRP_submodel ps iv vb (Model ''sub'')")
    case (Inl e)
    with M show ?thesis by (simp add: mrp_replications_eq)
  next
    case (Inr s)
    obtain sub sx sd where s: "s = (sub, sx, sd)" by (cases s)
    note Sb = Inr [unfolded s]
    let ?w2 = "w\<lparr>w_live := ''sub'' # ''LSDE'' # w_live w\<rparr>"
    let ?loop = "foldM (mrp_replica solve smp ps sol S iv seed v1 d sd sx) [0..<nat replicas]
                       (mdl, sub, []) ?w2"
    obtain r3 w3 where loop: "?loop = (r3, w3)" by (cases ?loop)
    from mrp_loop_live [OF loop] have l3: "w_live w3 = ''sub'' # ''LSDE'' # w_live w" by simp
    show ?thesis
    proof (cases r3)
      case (Inl e)
      with M Sb loop l3 show ?thesis by (simp add: mrp_replications_eq)
    next
      case (Inr st)
      obtain mdl9 sub9 G where st: "st = (mdl9, sub9, G)" by (cases st)
      from mrp_loop_names [OF loop [unfolded Inr st]] m_name_MRP_model [OF M]
        m_name_MRP_submodel [OF Sb]
      have "m_name mdl9 = ''LSDE''" "m_name sub9 = ''sub''" by simp_all
      with M Sb loop l3 Inr st show ?thesis by (simp add: mrp_replications_eq)
    qed
  qed
qed

lemma run_MRP_eq:
  "run_MRP solve smp t_ppf ps sol S alpha replicas iv vb seed w =
     (case mrp_replications solve smp ps sol S replicas iv vb seed w of
        (Inl e, w1) \<Rightarrow> (Inl e, w1)
      | (Inr G, w1) \<Rightarrow> (mrp_bound t_ppf alpha replicas G, w1))"
  by (simp add: run_MRP_def bindM_def liftE_def split: prod.splits sum.splits)

lemma optimize_EV_live:
  "w_live (snd (optimize_EV solve ps iv vb w)) =
     (case fst (optimize_EV solve ps iv vb w) of
        Inr r \<Rightarrow> w_live w | Inl e \<Rightarrow> ''EV'' # w_live w)"
proof (cases "EV_steps solve ps iv vb (Model ''EV'')")
  case (Inl e)
  then show ?thesis by (simp add: optimize_EV_eq)
next
  case (Inr x)
  obtain mdl objval sol1 sol2 where x: "x = (mdl, objval, sol1, sol2)" by (cases x)
  from EV_steps_Inr [OF Inr [unfolded x]] have "m_name mdl = ''EV''" by simp
  with Inr x show ?thesis by (simp add: optimize_EV_eq)
qed

lemma optimize_TS_live:
  "w_live (snd (optimize_TS solve ps samples iv vb w)) =
     (case fst (optimize_TS solve ps samples iv vb w) of
        Inr r \<Rightarrow> w_live w | Inl e \<Rightarrow> ''LSDE'' # w_live w)"
proof (cases "TS_steps solve ps samples iv vb (Model ''LSDE'')")
  case (Inl e)
  then show ?thesis by (simp add: optimize_TS_eq)
next
  case (Inr x)
  obtain mdl objval sol1 prob where x: "x = (mdl, objval, sol1, prob)" by (cases x)
  from TS_steps_Inr [OF Inr [unfolded x]] have "m_name mdl = ''LSDE''" by simp
  with Inr x show ?thesis by (simp add: optimize_TS_eq)
qed

lemma optimize_EEV_live:
  "w_live (snd (optimize_EEV solve ps ev samples iv vb w)) =
     (case fst (optimize_EEV solve ps ev samples iv vb w) of
        Inr r \<Rightarrow> w_live w | Inl e \<Rightarrow> ''EEV'' # w_live w)"
proof (cases "EEV_steps solve ps ev samples iv vb (Model ''EEV'')")
  case (Inl e)
  then show ?thesis by (simp add: optimize_EEV_eq)
next
  case (Inr x)
  obtain mdl rs where x: "x = (mdl, rs)" by (cases x)
  from m_name_EEV_steps [OF Inr [unfolded x]] have "m_name mdl = ''EEV''" by simp
  with Inr x show ?thesis by (simp add: optimize_EEV_eq)
qed

lemmas run_defs = optimize_EV_def EV_steps_def optimize_EEV_def EEV_steps_def EEV_model_def
  optimize_TS_def TS_steps_def optimize_WS_def WS_steps_def WS_model_def solve_scenario_def
  the_demands_def num_vars1_def

section \<open>Release of the models\<close>

text \<open>
  C8, as amended. \<open>optimize_EV\<close>, \<open>optimize_EEV\<close>, \<open>optimize_TS\<close> and \<open>run_MRP\<close> release
  every model they create before they return normally: the models held afterwards are
  those held before. There is no handler around the work on a model: when an exception
  is raised while a model is held, it leaves the procedure with the models created so far
  still held (for \<open>run_MRP\<close> the main model, and the submodel once it is created). An
  exception of \<open>run_MRP\<close> raised after the replicas, in the computation of the bound,
  comes after the release.
\<close>

theorem models_released_on_return:
  "w_live (snd (optimize_EV solve ps iv vb w)) =
     (case fst (optimize_EV solve ps iv vb w) of
        Inr r \<Rightarrow> w_live w | Inl e \<Rightarrow> ''EV'' # w_live w) \<and>
   w_live (snd (optimize_EEV solve ps ev samples iv vb w)) =
     (case fst (optimize_EEV solve ps ev samples iv vb w) of
        Inr r \<Rightarrow> w_live w | Inl e \<Rightarrow> ''EEV'' # w_live w) \<and>
   w_live (snd (optimize_TS solve ps samples iv vb w)) =
     (case fst (optimize_TS solve ps samples iv vb w) of
        Inr r \<Rightarrow> w_live w | Inl e \<Rightarrow> ''LSDE'' # w_live w) \<and>
   w_live (snd (run_MRP solve smp t_ppf ps sol S alpha replicas iv vb seed w)) =
     (case fst (mrp_replications solve smp ps sol S replicas iv vb seed w) of
        Inr G \<Rightarrow> w_live w
      | Inl e \<Rightarrow> (case MRP_model ps S iv vb (Model ''LSDE'') of
                    Inl e' \<Rightarrow> ''LSDE'' # w_live w
                  | Inr m \<Rightarrow> ''sub'' # ''LSDE'' # w_live w)) \<and>
   (\<forall>v. fst (run_MRP solve smp t_ppf ps sol S alpha replicas iv vb seed w) = Inr v \<longrightarrow>
        (\<exists>G. fst (mrp_replications solve smp ps sol S replicas iv vb seed w) = Inr G))"
proof -
  have "snd (run_MRP solve smp t_ppf ps sol S alpha replicas iv vb seed w)
          = snd (mrp_replications solve smp ps sol S replicas iv vb seed w)"
    by (simp add: run_MRP_eq split: prod.splits sum.splits)
  moreover have "\<exists>G. fst (mrp_replications solve smp ps sol S replicas iv vb seed w) = Inr G"
    if "fst (run_MRP solve smp t_ppf ps sol S alpha replicas iv vb seed w) = Inr v" for v
    using that by (simp add: run_MRP_eq split: prod.splits sum.splits)
  ultimately show ?thesis
    using optimize_EV_live [of solve ps iv vb w] optimize_EEV_live [of solve ps ev samples iv vb w]
      optimize_TS_live [of solve ps samples iv vb w]
      mrp_replications_live [of solve smp ps sol S replicas iv vb seed w]
    by (simp only: simp_thms) blast
qed

theorem models_released_on_return_witness:
  "fst (optimize_EV near_one_solver pars_1x1 True 0 w0) =
     Inr (1, \<lparr>var_X = [[0]], var_U = [[0]], var_Zp = [], var_Zm = []\<rparr>,
             \<lparr>var_Yp = A2 [[0]], var_Ym = A2 [[0]]\<rparr>) \<and>
   w_live (snd (optimize_EV near_one_solver pars_1x1 True 0 w0)) = w_live w0"
proof -
  have h: "fst (optimize_EV near_one_solver pars_1x1 True 0 w0) =
     Inr (1, \<lparr>var_X = [[0]], var_U = [[0]], var_Zp = [], var_Zm = []\<rparr>,
             \<lparr>var_Yp = A2 [[0]], var_Ym = A2 [[0]]\<rparr>)"
    by (simp add: run_defs proc_defs builder_defs model_defs array_defs sol_defs
        pars_1x1_def w0_def near_one_solver_def near_one_def Let_def)
  from models_released_on_return [of near_one_solver pars_1x1 True 0 w0]
  have "w_live (snd (optimize_EV near_one_solver pars_1x1 True 0 w0)) =
     (case fst (optimize_EV near_one_solver pars_1x1 True 0 w0) of
        Inr r \<Rightarrow> w_live w0 | Inl e \<Rightarrow> ''EV'' # w_live w0)"
    by (rule conjunct1)
  with h show ?thesis by (simp only: sum.case simp_thms)
qed

text \<open>
  C8 as stated fails on the exception path: with a solver whose optimisation pass fails in
  the scenario loop, \<open>optimize_EEV\<close> ends with the exception and its model is still held.
\<close>

theorem models_released_on_return_counterexample:
  "optimize_EEV failing_solver pars_1x1 ev_solution_1x1 [[[5]]] False 0 w0 =
     (Inl GurobiError, \<lparr>w_live = [''EEV''], w_rng = ()\<rparr>)"
  by (simp add: run_defs proc_defs builder_defs model_defs array_defs sol_defs
        pars_1x1_def w0_def failing_solver_def ev_solution_1x1_def Let_def)

section \<open>The scenario loop\<close>










lemmas status_defs = GRB_LOADED_def GRB_OPTIMAL_def GRB_INFEASIBLE_def GRB_INF_OR_UNBD_def
  GRB_UNBOUNDED_def GRB_TIME_LIMIT_def GRB_SUBOPTIMAL_def

section \<open>Scenarios without a result\<close>




section \<open>Runs of the replications\<close>

lemmas mrp_defs = mrp_replications_def mrp_replica_def mrp_replica_steps_def mrp_scenario_def
  MRP_model_def MRP_submodel_def draw_samples_def getitem_def the_demands_def num_vars1_def

text \<open>
  The list \<open>G\<close> for the one-product problem and the candidate that produces nothing, with
  one scenario per replica: two, one and no replica without a seed (the generator starts
  at 5).
\<close>

lemma mrp_replications_two_unseeded:
  "mrp_replications newsvendor_solver counting_sampler pars_mrp zero_solution_1x1 1 2 False 0
     None w5 = (Inr [-5, -6], \<lparr>w_live = [], w_rng = 7\<rparr>)"
  by (simp add: mrp_defs proc_defs builder_defs model_defs array_defs sol_defs status_defs
        pars_mrp_def newsvendor_solver_def counting_sampler_def zero_solution_1x1_def w5_def
        Let_def upt_rec)

lemma mrp_replications_one_unseeded:
  "mrp_replications newsvendor_solver counting_sampler pars_mrp zero_solution_1x1 1 1 False 0
     None w5 = (Inr [-5], \<lparr>w_live = [], w_rng = 6\<rparr>)"
  by (simp add: mrp_defs proc_defs builder_defs model_defs array_defs sol_defs status_defs
        pars_mrp_def newsvendor_solver_def counting_sampler_def zero_solution_1x1_def w5_def
        Let_def upt_rec)

lemma mrp_replications_none:
  "mrp_replications newsvendor_solver counting_sampler pars_mrp zero_solution_1x1 1 0 False 0
     None w5 = (Inr [], w5)"
  by (simp add: mrp_defs proc_defs builder_defs model_defs array_defs sol_defs status_defs
        pars_mrp_def newsvendor_solver_def counting_sampler_def zero_solution_1x1_def w5_def
        Let_def upt_rec)

section \<open>The confidence bound\<close>



lemma mrp_replications_length:
  assumes "mrp_replications solve smp ps sol S replicas iv vb seed w = (Inr G, w')"
  shows "length G = nat replicas"
proof (cases "MRP_model ps S iv vb (Model ''LSDE'')")
  case (Inl e)
  with assms show ?thesis by (simp add: mrp_replications_eq)
next
  case (Inr m)
  obtain mdl v1 d where m: "m = (mdl, v1, d)" by (cases m)
  note M = Inr [unfolded m]
  show ?thesis
  proof (cases "MRP_submodel ps iv vb (Model ''sub'')")
    case (Inl e)
    with M assms show ?thesis by (simp add: mrp_replications_eq)
  next
    case (Inr s)
    obtain sub sx sd where s: "s = (sub, sx, sd)" by (cases s)
    note Sb = Inr [unfolded s]
    let ?w2 = "w\<lparr>w_live := ''sub'' # ''LSDE'' # w_live w\<rparr>"
    let ?loop = "foldM (mrp_replica solve smp ps sol S iv seed v1 d sd sx) [0..<nat replicas]
                       (mdl, sub, []) ?w2"
    obtain r3 w3 where loop: "?loop = (r3, w3)" by (cases ?loop)
    show ?thesis
    proof (cases r3)
      case (Inl e)
      with M Sb loop assms show ?thesis by (simp add: mrp_replications_eq)
    next
      case (Inr st)
      obtain mdl9 sub9 G9 where st: "st = (mdl9, sub9, G9)" by (cases st)
      from mrp_loop_names [OF loop [unfolded Inr st]] have "length G9 = nat replicas" by simp
      moreover from M Sb loop Inr st assms have "G = G9"
        by (simp add: mrp_replications_eq del: remove1.simps)
      ultimately show ?thesis by simp
    qed
  qed
qed




section \<open>A single replica\<close>

lemma mrp_bound_single: "mrp_bound t_ppf alpha 1 G = Inl ZeroDivisionError"
  by (simp add: mrp_bound_def)

lemma mrp_bound_empty: "replicas \<noteq> 1 \<Longrightarrow> mrp_bound t_ppf alpha replicas [] = Inr None"
  by (simp add: mrp_bound_def np_mean_def)

lemma mrp_bound_Some:
  "mrp_bound t_ppf alpha replicas G = Inr (Some v) \<Longrightarrow> replicas \<noteq> 1 \<and> G \<noteq> []"
  by (cases "replicas = 1"; cases "G = []") (simp_all add: mrp_bound_single mrp_bound_empty)

text \<open>
  C10, as amended. With \<open>replicas = 1\<close> the call of \<open>run_MRP\<close> never returns: it ends with
  an exception, which is \<open>ZeroDivisionError\<close> (from \<open>1 / (replicas - 1)\<close>) when the
  replications themselves succeed. \<open>run_MRP\<close> returns a number only if \<open>replicas\<close> is at
  least 2. With \<open>replicas\<close> at most 0 no replica is run and, instead of failing, the call
  returns the mean of no value, which is \<open>nan\<close>.
\<close>

theorem single_replica_fails:
  "(replicas = 1 \<longrightarrow>
      (\<exists>e. fst (run_MRP solve smp t_ppf ps sol S alpha replicas iv vb seed w) = Inl e) \<and>
      (\<forall>G. fst (mrp_replications solve smp ps sol S replicas iv vb seed w) = Inr G \<longrightarrow>
           fst (run_MRP solve smp t_ppf ps sol S alpha replicas iv vb seed w)
             = Inl ZeroDivisionError)) \<and>
   (\<forall>v. fst (run_MRP solve smp t_ppf ps sol S alpha replicas iv vb seed w) = Inr (Some v) \<longrightarrow>
        2 \<le> replicas) \<and>
   (replicas \<le> 0 \<longrightarrow>
      (\<forall>G. fst (mrp_replications solve smp ps sol S replicas iv vb seed w) = Inr G \<longrightarrow>
           fst (run_MRP solve smp t_ppf ps sol S alpha replicas iv vb seed w) = Inr None))"
proof -
  obtain r w' where reps: "mrp_replications solve smp ps sol S replicas iv vb seed w = (r, w')"
    by (cases "mrp_replications solve smp ps sol S replicas iv vb seed w")
  show ?thesis
  proof (cases r)
    case (Inl e)
    with reps have "fst (run_MRP solve smp t_ppf ps sol S alpha replicas iv vb seed w) = Inl e"
      and "fst (mrp_replications solve smp ps sol S replicas iv vb seed w) = Inl e"
      by (simp_all add: run_MRP_eq)
    then show ?thesis by auto
  next
    case (Inr G)
    from reps [unfolded Inr] have len: "length G = nat replicas" by (rule mrp_replications_length)
    from reps Inr have run: "fst (run_MRP solve smp t_ppf ps sol S alpha replicas iv vb seed w)
        = mrp_bound t_ppf alpha replicas G"
      by (simp add: run_MRP_eq)
    have a: "mrp_bound t_ppf alpha replicas G = Inl ZeroDivisionError" if "replicas = 1"
      using that by (simp add: mrp_bound_single)
    have b: "2 \<le> replicas" if "mrp_bound t_ppf alpha replicas G = Inr (Some v)" for v
      using mrp_bound_Some [OF that] len by (cases "replicas \<le> 0") auto
    have c: "mrp_bound t_ppf alpha replicas G = Inr None" if "replicas \<le> 0"
      using that len by (simp add: mrp_bound_empty)
    from reps Inr have "fst (mrp_replications solve smp ps sol S replicas iv vb seed w) = Inr G"
      by simp
    with a b c show ?thesis unfolding run by auto
  qed
qed

theorem single_replica_fails_witness:
  "fst (mrp_replications newsvendor_solver counting_sampler pars_mrp zero_solution_1x1 1 1
          False 0 None w5) = Inr [-5] \<and>
   fst (run_MRP newsvendor_solver counting_sampler two_ppf pars_mrp zero_solution_1x1 1 (95 / 100) 1
          False 0 None w5) = Inl ZeroDivisionError"
  using single_replica_fails [of 1 newsvendor_solver counting_sampler two_ppf pars_mrp
      zero_solution_1x1 1 "95 / 100" False 0 None w5] mrp_replications_one_unseeded
  by simp

text \<open>
  C10 as stated fails for \<open>replicas = 0\<close>: the call returns (the value \<open>nan\<close>) although
  \<open>replicas\<close> is below 2.
\<close>

theorem single_replica_fails_counterexample:
  "run_MRP newsvendor_solver counting_sampler two_ppf pars_mrp zero_solution_1x1 1 (95 / 100) 0
     False 0 None w5 = (Inr None, w5)"
  unfolding run_MRP_eq mrp_replications_none by (simp add: mrp_bound_empty)

section \<open>The value of a replica\<close>

lemma m_result_fix_var: "fix_var mdl var val = Inr mdl' \<Longrightarrow> m_result mdl' = m_result mdl"
  by (auto simp: fix_var_def bindE_Inr_iff split: if_splits)

lemma ObjVal_fix_var: "fix_var mdl var val = Inr mdl' \<Longrightarrow> ObjVal mdl' = ObjVal mdl"
  by (simp add: ObjVal_def m_result_fix_var)

lemma mrp_scenario_stale:
  assumes "mrp_scenario solve ps sol xk sd sx sample S i (sub, g) = Inr (sub', g')"
  shows "\<exists>c_hat c_k. value_of (get_1st_stage_objective ps (num_vars1 sol)) = Inr c_hat \<and>
           value_of (get_1st_stage_objective ps (num_vars1 xk)) = Inr c_k \<and>
           g' = g + (c_hat - c_k) / real S"
proof -
  from mrp_scenario_Inr [OF assms] obtain sub3 o1 v1 r1 o2 v2 r2 where
    o1: "get_1st_stage_objective ps (num_vars1 sol) = Inr o1" "getValue o1 = Inr v1"
    and r1: "ObjVal sub3 = Inr r1"
    and fx: "fix_var sub3 (A2 sx) (A2 (var_X xk)) = Inr sub'"
    and o2: "get_1st_stage_objective ps (num_vars1 xk) = Inr o2" "getValue o2 = Inr v2"
    and r2: "ObjVal sub' = Inr r2"
    and g': "g' = g + ((v1 + r1) - (v2 + r2)) / real S"
    by blast
  from ObjVal_fix_var [OF fx] r1 r2 have "r2 = r1" by simp
  with g' have "g' = g + (v1 - v2) / real S" by simp
  moreover from o1 have "value_of (get_1st_stage_objective ps (num_vars1 sol)) = Inr v1"
    by (simp add: value_of_def)
  moreover from o2 have "value_of (get_1st_stage_objective ps (num_vars1 xk)) = Inr v2"
    by (simp add: value_of_def)
  ultimately show ?thesis by blast
qed

lemma mrp_scenarios_stale:
  assumes "foldE (mrp_scenario solve ps sol xk sd sx sample S) is (sub, g) = Inr (sub', g')"
    and "value_of (get_1st_stage_objective ps (num_vars1 sol)) = Inr c_hat"
    and "value_of (get_1st_stage_objective ps (num_vars1 xk)) = Inr c_k"
  shows "g' = g + real (length is) * ((c_hat - c_k) / real S)"
  using assms(1)
proof (induction "is" arbitrary: sub g)
  case Nil
  then show ?case by simp
next
  case (Cons i "is")
  then obtain s1 g1 where st: "mrp_scenario solve ps sol xk sd sx sample S i (sub, g) = Inr (s1, g1)"
    and rest: "foldE (mrp_scenario solve ps sol xk sd sx sample S) is (s1, g1) = Inr (sub', g')"
    by (auto simp: bindE_Inr_iff)
  define c where "c = (c_hat - c_k) / real S"
  from mrp_scenario_stale [OF st] assms(2,3) have "g1 = g + c" by (auto simp: c_def)
  with Cons.IH [OF rest] have "g' = g + (1 + real (length is)) * c"
    unfolding c_def [symmetric] by (simp only: distrib_right mult_1 add.assoc)
  then show ?case unfolding c_def by simp
qed

text \<open>
  C4 does not hold for the code. After the bounds of \<open>sub_X\<close> are set to \<open>x_k\<close> the
  submodel is not optimised again, so the objective value read for \<open>x_k\<close> is still that of
  the pass made for the candidate: the two recourse costs of a scenario are the same
  number and cancel. Whenever a replica with at least one scenario ends normally, the
  value \<open>G_k\<close> it appends is the first-stage cost of the candidate minus the first-stage
  cost of \<open>x_k\<close>; the recourse cost of \<open>x_k\<close> under the scenarios is never evaluated.
\<close>

theorem replica_gap_is_first_stage_difference:
  assumes "mrp_replica_steps solve ps sol S v1 d sd sx sample (mdl, sub, G) = Inr (mdl', sub', G')"
    and "0 < S"
  shows "\<exists>xk c_hat c_k.
           var2val_vars1 mdl' v1 = Inr xk \<and>
           value_of (get_1st_stage_objective ps (num_vars1 sol)) = Inr c_hat \<and>
           value_of (get_1st_stage_objective ps (num_vars1 xk)) = Inr c_k \<and>
           G' = G @ [c_hat - c_k]"
proof -
  from mrp_replica_steps_Inr [OF assms(1)] obtain xk g where
    xk: "var2val_vars1 mdl' v1 = Inr xk"
    and loop: "foldE (mrp_scenario solve ps sol xk sd sx sample S) [0..<S] (sub, 0) = Inr (sub', g)"
    and G': "G' = G @ [g]"
    by blast
  from assms(2) have upt: "[0..<S] = 0 # [1..<S]" by (simp add: upt_rec)
  from loop [unfolded upt] obtain s1 g1 where
    st: "mrp_scenario solve ps sol xk sd sx sample S 0 (sub, 0) = Inr (s1, g1)"
    by (auto simp: bindE_Inr_iff)
  from mrp_scenario_stale [OF st] obtain c_hat c_k where
    c: "value_of (get_1st_stage_objective ps (num_vars1 sol)) = Inr c_hat"
       "value_of (get_1st_stage_objective ps (num_vars1 xk)) = Inr c_k"
    by blast
  from mrp_scenarios_stale [OF loop c] assms(2) have "g = c_hat - c_k" by simp
  with xk c G' show ?thesis by blast
qed

lemma replica_of_demand_five:
  "bindE (MRP_model pars_mrp 1 False 0 (Model ''LSDE'')) (\<lambda>(mdl, v1, d).
   bindE (MRP_submodel pars_mrp False 0 (Model ''sub'')) (\<lambda>(sub, sx, sd).
   bindE (mrp_replica_steps newsvendor_solver pars_mrp zero_solution_1x1 1 v1 d sd sx [[[5]]]
            (mdl, sub, [])) (\<lambda>(mdl', sub', G').
   bindE (var2val_vars1 mdl' v1) (\<lambda>xk. Inr (G', var_X xk))))) = Inr ([- 5], [[5]])"
  by (simp add: mrp_defs proc_defs builder_defs model_defs array_defs sol_defs status_defs
       pars_mrp_def newsvendor_solver_def zero_solution_1x1_def Let_def)

theorem replica_gap_is_first_stage_difference_witness:
  "\<exists>v1 d sd sx mdl sub mdl' sub' xk.
     mrp_replica_steps newsvendor_solver pars_mrp zero_solution_1x1 1 v1 d sd sx [[[5]]]
       (mdl, sub, []) = Inr (mdl', sub', [- 5]) \<and>
     var2val_vars1 mdl' v1 = Inr xk \<and> var_X xk = [[5]] \<and>
     value_of (get_1st_stage_objective pars_mrp (num_vars1 zero_solution_1x1)) = Inr 0 \<and>
     value_of (get_1st_stage_objective pars_mrp (num_vars1 xk)) = Inr 5"
proof -
  from replica_of_demand_five obtain mdl v1 d sub sx sd mdl' sub' xk where
    run: "mrp_replica_steps newsvendor_solver pars_mrp zero_solution_1x1 1 v1 d sd sx [[[5]]]
            (mdl, sub, []) = Inr (mdl', sub', [- 5])"
    and xk: "var2val_vars1 mdl' v1 = Inr xk" "var_X xk = [[5]]"
    by (simp only: bindE_Inr_iff split_paired_Ex prod.case) (elim exE conjE, simp)
  have c0: "value_of (get_1st_stage_objective pars_mrp (num_vars1 zero_solution_1x1)) = Inr 0"
    by (simp add: value_of_def builder_defs array_defs num_vars1_def pars_mrp_def
          zero_solution_1x1_def)
  from replica_gap_is_first_stage_difference [OF run] xk(1) c0
  have "value_of (get_1st_stage_objective pars_mrp (num_vars1 xk)) = Inr 5"
    by auto
  with run xk c0 show ?thesis by blast
qed

text \<open>
  The candidate produces nothing, the demand of the scenario is 5 and \<open>x_k\<close> produces 5.
  The candidate costs 0 + 15 and \<open>x_k\<close> costs 5 + 0, a gap of 10, which is what the
  scenario contributes when the submodel is optimised for \<open>x_k\<close>; the code takes 5 + 15 for
  \<open>x_k\<close> and contributes -5.
\<close>

theorem paired_gap_counterexample:
  "gap_term (\<lambda>(sub, sub_X, sub_demand).
     mrp_scenario newsvendor_solver pars_mrp zero_solution_1x1 ev_solution_1x1 sub_demand sub_X
       [[[5]]] 1 0 (sub, 0)) = Inr (- 5) \<and>
   gap_term (\<lambda>(sub, sub_X, sub_demand).
     paired_scenario_spec newsvendor_solver pars_mrp zero_solution_1x1 ev_solution_1x1 sub_demand
       sub_X [[[5]]] 1 0 (sub, 0)) = Inr 10"
  by (simp add: gap_term_def paired_scenario_spec_def mrp_defs proc_defs builder_defs model_defs
        array_defs sol_defs status_defs pars_mrp_def newsvendor_solver_def zero_solution_1x1_def
        ev_solution_1x1_def Let_def)

section \<open>The samples of the replicas\<close>

lemma mrp_replica_seeded:
  "mrp_replica solve smp ps sol S iv (Some k) v1 d sd sx j st w =
     (mrp_replica_steps solve ps sol S v1 d sd sx (smp_seeded smp S ps iv k) st, w)"
  by (simp add: mrp_replica_eq draw_samples_def)

text \<open>
  C7 does not hold for the code when a seed is given. Every replica passes the same seed
  to \<open>draw_samples\<close>, and a draw with a seed is a function of the seed: all replicas work on
  the one sample \<open>smp_seeded smp S ps iv k\<close>, whatever their number, and the generator is
  never advanced. The loop over the replicas is the loop of \<open>mrp_replica_steps\<close> on that
  sample.
\<close>

theorem seeded_replicas_share_sample:
  "foldM (mrp_replica solve smp ps sol S iv (Some k) v1 d sd sx) ks st w =
     (foldE (\<lambda>j. mrp_replica_steps solve ps sol S v1 d sd sx (smp_seeded smp S ps iv k)) ks st, w)"
proof (induction ks arbitrary: st)
  case Nil
  show ?case by (simp add: returnM_def)
next
  case (Cons j ks)
  have step: "mrp_replica solve smp ps sol S iv (Some k) v1 d sd sx j st w =
     (mrp_replica_steps solve ps sol S v1 d sd sx (smp_seeded smp S ps iv k) st, w)"
    by (rule mrp_replica_seeded)
  show ?case
  proof (cases "mrp_replica_steps solve ps sol S v1 d sd sx (smp_seeded smp S ps iv k) st")
    case (Inl e)
    then show ?thesis unfolding foldM_Cons_eq step by simp
  next
    case (Inr st1)
    then show ?thesis unfolding foldM_Cons_eq step by (simp add: Cons.IH)
  qed
qed

text \<open>
  With the seed 7 both replicas see the demand 7 and have the same value; without a seed
  the first sees 5 and the second 6.
\<close>

theorem seeded_replicas_share_sample_witness:
  "mrp_replications newsvendor_solver counting_sampler pars_mrp zero_solution_1x1 1 2 False 0
     (Some 7) w5 = (Inr [- 7, - 7], w5) \<and>
   mrp_replications newsvendor_solver counting_sampler pars_mrp zero_solution_1x1 1 2 False 0
     None w5 = (Inr [- 5, - 6], \<lparr>w_live = [], w_rng = 7\<rparr>)"
  apply (rule conjI)
   apply (subst mrp_replications_eq)
   apply (simp only: seeded_replicas_share_sample)
   apply (simp add: mrp_defs proc_defs builder_defs model_defs array_defs sol_defs status_defs
       pars_mrp_def newsvendor_solver_def counting_sampler_def zero_solution_1x1_def w5_def
       Let_def upt_rec)
  apply (rule mrp_replications_two_unseeded)
  done

end
